(* ===== verification/Prelude.thy ===== *)
theory Prelude
  imports Main "HOL-Library.Product_Lexorder"
begin

text \<open>
  Shared vocabulary of the development: the JavaScript built-ins the TypeScript sources
  rely on (array indexing that yields \<open>undefined\<close>, \<open>Array.prototype.findIndex\<close>, the
  truthiness of an optional string), the names of the model's basic types, and the
  \<open>named_theorems\<close> collections the component theories fill.
\<close>

named_theorems js_simps "characteristic equations of the JavaScript built-ins"
named_theorems date_simps "evaluation rules of the date model"

type_synonym uid = string
  \<comment> \<open>a Firebase user id; identity equality is string equality on it\<close>

type_synonym js_uid = "uid option"
  \<comment> \<open>the value of \<open>user?.uid\<close>: \<open>None\<close> is JavaScript's \<open>undefined\<close>\<close>

subsection \<open>Array indexing: \<open>xs[i]\<close> is \<open>undefined\<close> out of range\<close>

fun js_nth :: "'a list \<Rightarrow> nat \<Rightarrow> 'a option" where
  "js_nth [] i = None"
| "js_nth (x # xs) 0 = Some x"
| "js_nth (x # xs) (Suc i) = js_nth xs i"

subsection \<open>\<open>Array.prototype.findIndex\<close>: the first index, or \<open>-1\<close>\<close>

fun find_index :: "('a \<Rightarrow> bool) \<Rightarrow> 'a list \<Rightarrow> int" where
  "find_index P [] = -1"
| "find_index P (x # xs) =
     (if P x then 0 else (let k = find_index P xs in if k = -1 then -1 else k + 1))"

subsection \<open>Truthiness of an optional string (\<open>params.id && ...\<close>)\<close>

definition js_truthy_str :: "string option \<Rightarrow> bool" where
  "js_truthy_str s \<longleftrightarrow> (case s of None \<Rightarrow> False | Some v \<Rightarrow> v \<noteq> [])"

subsection \<open>Lemmas on the built-ins\<close>

lemma js_nth_conv [js_simps]:
  "js_nth xs i = (if i < length xs then Some (xs ! i) else None)"
  by (induction xs i rule: js_nth.induct) auto

lemma js_nth_0 [simp]: "js_nth xs 0 = (case xs of [] \<Rightarrow> None | x # _ \<Rightarrow> Some x)"
  by (cases xs) simp_all

lemma find_index_ge: "-1 \<le> find_index P xs"
  by (induction xs) (auto simp: Let_def)

lemma find_index_less_length: "find_index P xs < int (length xs)"
  by (induction xs) (auto simp: Let_def)

lemma find_index_found [js_simps]:
  "find_index P xs \<noteq> -1 \<longleftrightarrow> (\<exists>x \<in> set xs. P x)"
proof (induction xs)
  case Nil
  then show ?case by simp
next
  case (Cons x xs)
  have "find_index P xs + 1 \<noteq> -1" using find_index_ge [of P xs] by arith
  with Cons show ?case by (auto simp: Let_def)
qed

lemma find_index_nth:
  assumes "find_index P xs \<noteq> -1"
  shows "P (xs ! nat (find_index P xs))"
  using assms
proof (induction xs)
  case Nil
  then show ?case by simp
next
  case (Cons x xs)
  have ge: "0 \<le> find_index P xs" if "find_index P xs \<noteq> -1"
    using find_index_ge [of P xs] that by arith
  show ?case
  proof (cases "P x")
    case True
    then show ?thesis by simp
  next
    case False
    with Cons.prems have ne: "find_index P xs \<noteq> -1" by (auto simp: Let_def)
    with Cons.IH have "P (xs ! nat (find_index P xs))" by blast
    moreover have "nat (find_index P xs + 1) = Suc (nat (find_index P xs))"
      using ge [OF ne] by arith
    ultimately show ?thesis using False ne by (simp add: Let_def)
  qed
qed

lemma find_index_eq_member [js_simps]:
  "find_index (\<lambda>v. Some v = u) xs \<noteq> -1 \<longleftrightarrow> (\<exists>v. u = Some v \<and> v \<in> set xs)"
  by (auto simp: find_index_found)

lemma js_truthy_str_simps [simp]:
  "js_truthy_str None = False"
  "js_truthy_str (Some v) \<longleftrightarrow> v \<noteq> []"
  by (simp_all add: js_truthy_str_def)

end
