(* ===== verification/Dates.thy ===== *)
theory Dates
  imports Prelude
begin

text \<open>
  The calendar-date layer the meeting pages use through the \<open>moment\<close> library: a meeting
  date is stored as the string \<open>moment(..).format("L")\<close> (en locale, \<open>MM/DD/YYYY\<close>), the
  pages compare it with today's string by \<open>===\<close>, with today's date by
  \<open>moment(date).isBefore(moment().format("L"))\<close>, and with the current instant by
  \<open>moment(date).isAfter()\<close>. \<open>moment\<close> is not part of the repository; its formatting,
  parsing and comparisons are modelled from its documented behaviour and from the
  \<open>Date\<close> parser it falls back to: a string is read as ISO 8601 if it has that form,
  otherwise by \<open>new Date(s)\<close>, whose month/day/year form the model covers; an invalid
  moment compares false with everything. Dates are those of years 100--9999: V8 reads a
  year below 100 as one of the 1900s or 2000s, so the \<open>L\<close> format only round-trips
  from year 100.
\<close>

subsection \<open>Calendar dates\<close>

datatype date = Date (year: nat) (month: nat) (day: nat)

instantiation date :: linorder
begin

definition less_eq_date :: "date \<Rightarrow> date \<Rightarrow> bool" where
  "d1 \<le> d2 \<longleftrightarrow> (year d1, month d1, day d1) \<le> (year d2, month d2, day d2)"

definition less_date :: "date \<Rightarrow> date \<Rightarrow> bool" where
  "d1 < d2 \<longleftrightarrow> (year d1, month d1, day d1) < (year d2, month d2, day d2)"

instance
proof
  fix x y z :: date
  show "x < y \<longleftrightarrow> x \<le> y \<and> \<not> y \<le> x"
    by (auto simp: less_eq_date_def less_date_def)
  show "x \<le> x" by (simp add: less_eq_date_def)
  show "x \<le> y \<Longrightarrow> y \<le> z \<Longrightarrow> x \<le> z"
    unfolding less_eq_date_def by (rule order_trans)
  assume "x \<le> y" and "y \<le> x"
  then have "(year x, month x, day x) = (year y, month y, day y)"
    unfolding less_eq_date_def by (rule antisym)
  then show "x = y" by (simp add: date.expand)
next
  fix x y :: date
  show "x \<le> y \<or> y \<le> x"
    unfolding less_eq_date_def by (rule linear)
qed

end

definition leap_year :: "nat \<Rightarrow> bool" where
  "leap_year y \<longleftrightarrow> (4 dvd y \<and> \<not> 100 dvd y) \<or> 400 dvd y"

definition days_in_month :: "nat \<Rightarrow> nat \<Rightarrow> nat" where
  "days_in_month y m =
     (if m = 2 then (if leap_year y then 29 else 28)
      else if m \<in> {4, 6, 9, 11} then 30 else 31)"

definition valid_date :: "date \<Rightarrow> bool" where
  "valid_date d \<longleftrightarrow>
     1 \<le> month d \<and> month d \<le> 12 \<and> 1 \<le> day d \<and> day d \<le> days_in_month (year d) (month d)
     \<and> 100 \<le> year d \<and> year d < 10000"

subsection \<open>Fixed-width decimal fields\<close>

definition digit_char :: "nat \<Rightarrow> char" where
  "digit_char n = char_of (48 + n)"

definition char_digit :: "char \<Rightarrow> nat option" where
  "char_digit c = (let n = (of_char c :: nat) in if 48 \<le> n \<and> n < 58 then Some (n - 48) else None)"

text \<open>\<open>digits_rev w n\<close>: the \<open>w\<close> lowest decimal digits of \<open>n\<close>, least significant first.\<close>

fun digits_rev :: "nat \<Rightarrow> nat \<Rightarrow> char list" where
  "digits_rev 0 n = []"
| "digits_rev (Suc w) n = digit_char (n mod 10) # digits_rev w (n div 10)"

fun read_rev :: "char list \<Rightarrow> nat option" where
  "read_rev [] = Some 0"
| "read_rev (c # cs) =
     (case char_digit c of None \<Rightarrow> None
      | Some d \<Rightarrow> map_option (\<lambda>n. 10 * n + d) (read_rev cs))"

definition pad_digits :: "nat \<Rightarrow> nat \<Rightarrow> string" where
  "pad_digits w n = rev (digits_rev w n)"

definition read_digits :: "string \<Rightarrow> nat option" where
  "read_digits cs = read_rev (rev cs)"

subsection \<open>\<open>format("L")\<close> and its parser\<close>

definition format_L :: "date \<Rightarrow> string" where
  "format_L d = pad_digits 2 (month d) @ ''/'' @ pad_digits 2 (day d) @ ''/'' @ pad_digits 4 (year d)"

definition parse_L :: "string \<Rightarrow> date option" where
  "parse_L s =
     (if length s = 10 \<and> s ! 2 = CHR ''/'' \<and> s ! 5 = CHR ''/'' then
        (case (read_digits (take 2 s), read_digits (take 2 (drop 3 s)), read_digits (drop 6 s)) of
          (Some m, Some d, Some y) \<Rightarrow>
            (let dt = Date y m d in if valid_date dt then Some dt else None)
        | _ \<Rightarrow> None)
      else None)"

subsection \<open>How \<open>moment(s)\<close> reads a string\<close>

text \<open>
  Without a format, \<open>moment(s)\<close> first tries ISO 8601: \<open>YYYY-MM-DD\<close> is read strictly,
  and a day the month does not have makes the moment invalid. Any other string goes to
  \<open>new Date(s)\<close>; V8 reads \<open>M/D/Y\<close> with a month 1--12, a day 1--31 counted on into the
  next month past the month's end, and a year below 50 as 20YY, 50--99 as 19YY. The model
  covers these two forms, with up to two digits for month and day and up to four for
  the year; every other string (month names, times, RFC 2822) is read as invalid here,
  and no property depends on how such a string is read.
\<close>

definition format_iso :: "date \<Rightarrow> string" where
  "format_iso d = pad_digits 4 (year d) @ ''-'' @ pad_digits 2 (month d) @ ''-'' @ pad_digits 2 (day d)"

definition parse_iso :: "string \<Rightarrow> date option" where
  "parse_iso s =
     (if length s = 10 \<and> s ! 4 = CHR ''-'' \<and> s ! 7 = CHR ''-'' then
        (case (read_digits (take 4 s), read_digits (take 2 (drop 5 s)), read_digits (drop 8 s)) of
          (Some y, Some m, Some d) \<Rightarrow>
            if 1 \<le> m \<and> m \<le> 12 \<and> 1 \<le> d \<and> d \<le> days_in_month y m then Some (Date y m d) else None
        | _ \<Rightarrow> None)
      else None)"

fun split_slash :: "string \<Rightarrow> string list" where
  "split_slash [] = [[]]"
| "split_slash (c # cs) =
     (let ws = split_slash cs in if c = CHR ''/'' then [] # ws else (c # hd ws) # tl ws)"

definition v8_year :: "nat \<Rightarrow> nat" where
  "v8_year y = (if y \<le> 49 then y + 2000 else if y \<le> 99 then y + 1900 else y)"

definition make_day :: "nat \<Rightarrow> nat \<Rightarrow> nat \<Rightarrow> date" where
  "make_day y m d =
     (if d \<le> days_in_month y m then Date y m d
      else if m = 12 then Date (y + 1) 1 (d - days_in_month y m)
      else Date y (m + 1) (d - days_in_month y m))"
  \<comment> \<open>a day past the month's end counts on into the next month; with \<open>d \<le> 31\<close> one step\<close>

definition parse_slash :: "string \<Rightarrow> date option" where
  "parse_slash s =
     (case split_slash s of
        [ms, ds, ys] \<Rightarrow>
          if 1 \<le> length ms \<and> length ms \<le> 2 \<and> 1 \<le> length ds \<and> length ds \<le> 2
             \<and> 1 \<le> length ys \<and> length ys \<le> 4 then
            (case (read_digits ms, read_digits ds, read_digits ys) of
              (Some m, Some d, Some y) \<Rightarrow>
                if 1 \<le> m \<and> m \<le> 12 \<and> 1 \<le> d \<and> d \<le> 31 then Some (make_day (v8_year y) m d) else None
            | _ \<Rightarrow> None)
          else None
      | _ \<Rightarrow> None)"

definition moment_parse :: "string \<Rightarrow> date option" where
  "moment_parse s = (case parse_iso s of Some d \<Rightarrow> Some d | None \<Rightarrow> parse_slash s)"

subsection \<open>Moments and their comparisons\<close>

text \<open>
  A moment is a date and the milliseconds elapsed since its local midnight, or \<open>None\<close> for
  moment's invalid date. \<open>moment(s)\<close> of a date string is that date's midnight.
\<close>

type_synonym moment = "(date \<times> nat) option"

record clock =
  today :: date
  ms_of_day :: nat

definition valid_clock :: "clock \<Rightarrow> bool" where
  "valid_clock c \<longleftrightarrow> valid_date (today c) \<and> ms_of_day c < 86400000"

definition moment_of :: "string \<Rightarrow> moment" where
  "moment_of s = map_option (\<lambda>d. (d, 0)) (moment_parse s)"

definition moment_now :: "clock \<Rightarrow> moment" where
  "moment_now c = Some (today c, ms_of_day c)"

fun is_before :: "moment \<Rightarrow> moment \<Rightarrow> bool" where
  "is_before (Some a) (Some b) = (a < b)"
| "is_before _ _ = False"

definition is_after :: "moment \<Rightarrow> moment \<Rightarrow> bool" where
  "is_after a b = is_before b a"

text \<open>The three tests the pages write, verbatim:\<close>

definition today_L :: "clock \<Rightarrow> string" where
  "today_L c = format_L (today c)"
  \<comment> \<open>\<open>moment().format("L")\<close>\<close>

definition same_day :: "string \<Rightarrow> clock \<Rightarrow> bool" where
  "same_day s c \<longleftrightarrow> s = today_L c"
  \<comment> \<open>\<open>meeting.meetingDate === moment().format("L")\<close>\<close>

definition before_today :: "string \<Rightarrow> clock \<Rightarrow> bool" where
  "before_today s c \<longleftrightarrow> is_before (moment_of s) (moment_of (today_L c))"
  \<comment> \<open>\<open>moment(meeting.meetingDate).isBefore(moment().format("L"))\<close>\<close>

definition after_now :: "string \<Rightarrow> clock \<Rightarrow> bool" where
  "after_now s c \<longleftrightarrow> is_after (moment_of s) (moment_now c)"
  \<comment> \<open>\<open>moment(meeting.meetingDate).isAfter()\<close>\<close>

subsection \<open>Round trip of the date format\<close>

lemma char_digit_digit_char [date_simps]: "d < 10 \<Longrightarrow> char_digit (digit_char d) = Some d"
  by (simp add: char_digit_def digit_char_def)

lemma digit_char_char_digit: "char_digit c = Some d \<Longrightarrow> digit_char d = c \<and> d < 10"
  by (auto simp: char_digit_def digit_char_def Let_def split: if_splits)

lemma length_digits_rev [simp]: "length (digits_rev w n) = w"
  by (induction w arbitrary: n) simp_all

lemma read_rev_digits_rev: "read_rev (digits_rev w n) = Some (n mod 10 ^ w)"
proof (induction w arbitrary: n)
  case 0
  then show ?case by simp
next
  case (Suc w)
  have "n mod 10 ^ Suc w = 10 * (n div 10 mod 10 ^ w) + n mod 10"
    by (simp add: mod_mult2_eq)
  with Suc show ?case by (simp add: char_digit_digit_char)
qed

lemma read_rev_Some:
  "read_rev cs = Some n \<Longrightarrow> digits_rev (length cs) n = cs \<and> n < 10 ^ length cs"
proof (induction cs arbitrary: n)
  case Nil
  then show ?case by simp
next
  case (Cons c cs)
  from Cons.prems obtain d m where d: "char_digit c = Some d" and m: "read_rev cs = Some m"
    and n: "n = 10 * m + d"
    by (auto split: option.splits)
  from digit_char_char_digit [OF d] have c: "digit_char d = c" and "d < 10" by auto
  with n have "n mod 10 = d" "n div 10 = m" by simp_all
  moreover from Cons.IH [OF m] have "digits_rev (length cs) m = cs" "m < 10 ^ length cs" by auto
  ultimately show ?case using c n \<open>d < 10\<close> by simp
qed

lemma digit_char_not_slash: "d < 10 \<Longrightarrow> CHR ''/'' \<noteq> digit_char d"
proof
  assume "d < 10" and "CHR ''/'' = digit_char d"
  then have "(of_char (CHR ''/'') :: nat) = of_char (char_of (48 + d))"
    by (simp add: digit_char_def)
  with \<open>d < 10\<close> show False by simp
qed

lemma digits_rev_no_slash: "CHR ''/'' \<notin> set (digits_rev w n)"
  by (induction w arbitrary: n) (auto simp: digit_char_not_slash)

lemma length_pad_digits [simp]: "length (pad_digits w n) = w"
  by (simp add: pad_digits_def)

lemma read_pad_digits: "n < 10 ^ w \<Longrightarrow> read_digits (pad_digits w n) = Some n"
  by (simp add: pad_digits_def read_digits_def read_rev_digits_rev)

lemma read_digits_Some:
  "read_digits cs = Some n \<Longrightarrow> pad_digits (length cs) n = cs \<and> n < 10 ^ length cs"
  using read_rev_Some [of "rev cs" n] by (simp add: read_digits_def pad_digits_def)

lemma valid_date_bounds:
  "valid_date d \<Longrightarrow> month d < 10 ^ 2 \<and> day d < 10 ^ 2 \<and> year d < 10 ^ 4"
  by (auto simp: valid_date_def days_in_month_def split: if_splits)

theorem parse_format_L: "valid_date d \<Longrightarrow> parse_L (format_L d) = Some d"
proof -
  assume v: "valid_date d"
  let ?m = "pad_digits 2 (month d)" and ?d = "pad_digits 2 (day d)" and ?y = "pad_digits 4 (year d)"
  have s: "format_L d = ?m @ CHR ''/'' # ?d @ CHR ''/'' # ?y" by (simp add: format_L_def)
  have "take 2 (format_L d) = ?m" "take 2 (drop 3 (format_L d)) = ?d" "drop 6 (format_L d) = ?y"
    by (simp_all add: s)
  moreover have "format_L d ! 2 = CHR ''/''" "format_L d ! 5 = CHR ''/''"
    by (simp_all add: s nth_append)
  moreover have "length (format_L d) = 10" by (simp add: s)
  moreover have "Date (year d) (month d) (day d) = d" by simp
  ultimately show ?thesis
    using v valid_date_bounds [OF v] by (simp add: parse_L_def read_pad_digits)
qed

theorem format_parse_L: "parse_L s = Some d \<Longrightarrow> format_L d = s \<and> valid_date d"
proof -
  assume p: "parse_L s = Some d"
  then have len: "length s = 10" and sl: "s ! 2 = CHR ''/''" "s ! 5 = CHR ''/''"
    by (auto simp: parse_L_def split: if_splits)
  from p obtain m dd y where m: "read_digits (take 2 s) = Some m"
      and dd: "read_digits (take 2 (drop 3 s)) = Some dd" and y: "read_digits (drop 6 s) = Some y"
      and d: "d = Date y m dd" and v: "valid_date d"
    by (auto simp: parse_L_def Let_def split: if_splits option.splits)
  have "pad_digits 2 m = take 2 s" using read_digits_Some [OF m] len by simp
  moreover have "pad_digits 2 dd = take 2 (drop 3 s)" using read_digits_Some [OF dd] len by simp
  moreover have "pad_digits 4 y = drop 6 s" using read_digits_Some [OF y] len by simp
  moreover have "s = take 2 s @ [s ! 2] @ take 2 (drop 3 s) @ [s ! 5] @ drop 6 s"
  proof (rule nth_equalityI)
    show "length s = length (take 2 s @ [s ! 2] @ take 2 (drop 3 s) @ [s ! 5] @ drop 6 s)"
      using len by simp
    fix i assume "i < length s"
    with len show "s ! i = (take 2 s @ [s ! 2] @ take 2 (drop 3 s) @ [s ! 5] @ drop 6 s) ! i"
      by (auto simp: nth_append less_Suc_eq numeral_eq_Suc)
  qed
  ultimately show ?thesis using sl d v by (simp add: format_L_def)
qed

lemma char_digit_sep [simp]: "char_digit CHR ''-'' = None" "char_digit CHR ''/'' = None"
  by (simp_all add: char_digit_def)

lemma pad_digits_digit: "c \<in> set (pad_digits w n) \<Longrightarrow> char_digit c \<noteq> None"
  by (induction w arbitrary: n) (auto simp: pad_digits_def char_digit_digit_char)

lemma split_slash_ne: "split_slash s \<noteq> []"
  by (induction s) (simp_all add: Let_def)

lemma split_slash_word:
  "CHR ''/'' \<notin> set a \<Longrightarrow> split_slash (a @ rest) = (a @ hd (split_slash rest)) # tl (split_slash rest)"
  by (induction a) (auto simp: Let_def split_slash_ne)

lemma split_slash_three:
  assumes "CHR ''/'' \<notin> set a" and "CHR ''/'' \<notin> set b" and "CHR ''/'' \<notin> set c"
  shows "split_slash (a @ CHR ''/'' # b @ CHR ''/'' # c) = [a, b, c]"
  using split_slash_word [OF assms(1), of "CHR ''/'' # b @ CHR ''/'' # c"]
    split_slash_word [OF assms(2), of "CHR ''/'' # c"] split_slash_word [OF assms(3), of "[]"]
  by simp

lemma pad_digits_no_slash: "CHR ''/'' \<notin> set (pad_digits w n)"
  by (simp add: pad_digits_def digits_rev_no_slash)

lemma days_in_month_le: "days_in_month y m \<le> 31"
  by (simp add: days_in_month_def)

text \<open>A string in the \<open>L\<close> format is read by moment as the date it denotes: it is not ISO,
  and V8's month/day/year reading gives the same date.\<close>

lemma parse_L_moment_parse:
  assumes "parse_L s = Some d"
  shows "moment_parse s = Some d"
proof -
  from format_parse_L [OF assms] have s: "s = format_L d" and v: "valid_date d" by auto
  let ?m = "pad_digits 2 (month d)" and ?d = "pad_digits 2 (day d)" and ?y = "pad_digits 4 (year d)"
  have f: "format_L d = ?m @ CHR ''/'' # ?d @ CHR ''/'' # ?y" by (simp add: format_L_def)
  have "format_L d ! 4 = ?d ! 1" by (simp add: f nth_append)
  moreover have "?d ! 1 \<in> set ?d" by (simp add: nth_mem)
  ultimately have "format_L d ! 4 \<noteq> CHR ''-''" using pad_digits_digit [of "?d ! 1" 2 "day d"] by auto
  then have iso: "parse_iso (format_L d) = None" by (simp add: parse_iso_def)
  have sp: "split_slash (format_L d) = [?m, ?d, ?y]"
    unfolding f by (rule split_slash_three) (simp_all add: pad_digits_no_slash)
  have b: "read_digits ?m = Some (month d)" "read_digits ?d = Some (day d)" "read_digits ?y = Some (year d)"
    using valid_date_bounds [OF v] by (simp_all add: read_pad_digits)
  have "1 \<le> month d \<and> month d \<le> 12 \<and> 1 \<le> day d \<and> day d \<le> 31 \<and> day d \<le> days_in_month (year d) (month d)
        \<and> 100 \<le> year d"
    using v days_in_month_le [of "year d" "month d"] by (auto simp: valid_date_def)
  then have "parse_slash (format_L d) = Some d"
    by (simp add: parse_slash_def sp b v8_year_def make_day_def)
  then show ?thesis by (simp add: s moment_parse_def iso)
qed

lemma moment_of_today_L [date_simps]: "valid_clock c \<Longrightarrow> moment_of (today_L c) = Some (today c, 0)"
  by (simp add: valid_clock_def moment_of_def today_L_def parse_format_L parse_L_moment_parse)

lemma same_day_iff:
  "valid_clock c \<Longrightarrow> parse_L s = Some d \<Longrightarrow> same_day s c \<longleftrightarrow> d = today c"
proof -
  assume c: "valid_clock c" and p: "parse_L s = Some d"
  show ?thesis
  proof
    assume "same_day s c"
    then have "s = format_L (today c)" by (simp add: same_day_def today_L_def)
    with c have "parse_L s = Some (today c)" by (simp add: valid_clock_def parse_format_L)
    with p show "d = today c" by simp
  next
    assume "d = today c"
    with format_parse_L [OF p] show "same_day s c" by (simp add: same_day_def today_L_def)
  qed
qed

lemma before_today_iff:
  "valid_clock c \<Longrightarrow> parse_L s = Some d \<Longrightarrow> before_today s c \<longleftrightarrow> d < today c"
  by (simp add: before_today_def moment_of_today_L) (simp add: moment_of_def parse_L_moment_parse)

lemma after_now_iff: "parse_L s = Some d \<Longrightarrow> after_now s c \<longleftrightarrow> today c < d"
  by (auto simp: after_now_def is_after_def moment_of_def moment_now_def parse_L_moment_parse)

lemma parse_L_iff: "parse_L s = Some d \<longleftrightarrow> valid_date d \<and> format_L d = s"
  using format_parse_L [of s d] parse_format_L [of d] by auto

text \<open>An ISO date is read by moment as the date it denotes, and it is never the string
  \<open>format("L")\<close> gives.\<close>

lemma iso_moment_parse: "valid_date d \<Longrightarrow> moment_parse (format_iso d) = Some d"
proof -
  assume v: "valid_date d"
  let ?y = "pad_digits 4 (year d)" and ?m = "pad_digits 2 (month d)" and ?d = "pad_digits 2 (day d)"
  have f: "format_iso d = ?y @ CHR ''-'' # ?m @ CHR ''-'' # ?d" by (simp add: format_iso_def)
  have "take 4 (format_iso d) = ?y" "take 2 (drop 5 (format_iso d)) = ?m" "drop 8 (format_iso d) = ?d"
    "format_iso d ! 4 = CHR ''-''" "format_iso d ! 7 = CHR ''-''" "length (format_iso d) = 10"
    by (simp_all add: f nth_append)
  moreover have "month d < 10 ^ 2" "day d < 10 ^ 2" "year d < 10 ^ 4" using valid_date_bounds [OF v] by auto
  ultimately have "parse_iso (format_iso d) = Some d"
    using v by (simp add: parse_iso_def read_pad_digits valid_date_def)
  then show ?thesis by (simp add: moment_parse_def)
qed

lemma format_iso_not_L: "format_iso d \<noteq> format_L d'"
proof
  assume e: "format_iso d = format_L d'"
  have "format_L d' ! 2 = CHR ''/''" by (simp add: format_L_def nth_append)
  moreover have "format_iso d ! 2 \<in> set (pad_digits 4 (year d))"
    by (simp add: format_iso_def nth_append nth_mem)
  ultimately show False using e pad_digits_digit [of "CHR ''/''" 4 "year d"] by simp
qed

text \<open>The three tests the pages write all fail on the ISO form of today's date, which
  moment reads as today: \<open>===\<close> compares strings, \<open>isBefore\<close> finds the same midnight, and
  that midnight is not after the current instant.\<close>

lemma iso_today_tests:
  assumes "valid_clock c"
  shows "moment_parse (format_iso (today c)) = Some (today c) \<and> \<not> same_day (format_iso (today c)) c
     \<and> \<not> before_today (format_iso (today c)) c \<and> \<not> after_now (format_iso (today c)) c"
proof -
  have v: "valid_date (today c)" using assms by (simp add: valid_clock_def)
  have "moment_of (format_iso (today c)) = Some (today c, 0)"
    by (simp add: moment_of_def iso_moment_parse [OF v])
  then show ?thesis using iso_moment_parse [OF v] format_iso_not_L [of "today c" "today c"]
    using moment_of_today_L [OF assms]
    by (simp add: same_day_def before_today_def after_now_def is_after_def moment_now_def)
       (simp add: today_L_def)
qed

text \<open>
  C6. For a valid clock and a stored date that parses, exactly one of the three tests the
  pages write holds: \<open>===\<close> today's string, \<open>isBefore\<close> today, or \<open>isAfter\<close> now; they
  coincide with the calendar order on days, whatever the time of day.
\<close>

theorem date_tests_trichotomy:
  assumes "valid_clock c" and "parse_L s = Some d"
  shows "(same_day s c \<longleftrightarrow> d = today c) \<and> (before_today s c \<longleftrightarrow> d < today c)
    \<and> (after_now s c \<longleftrightarrow> today c < d)
    \<and> (same_day s c \<or> before_today s c \<or> after_now s c)
    \<and> \<not> (same_day s c \<and> before_today s c) \<and> \<not> (same_day s c \<and> after_now s c)
    \<and> \<not> (before_today s c \<and> after_now s c)"
proof -
  have eqs: "same_day s c \<longleftrightarrow> d = today c" "before_today s c \<longleftrightarrow> d < today c"
    "after_now s c \<longleftrightarrow> today c < d"
    using assms by (simp_all add: same_day_iff before_today_iff after_now_iff)
  have "d = today c \<or> d < today c \<or> today c < d" by (rule linorder_cases) auto
  then show ?thesis unfolding eqs by auto
qed

theorem date_tests_trichotomy_witness:
  "valid_clock \<lparr>today = Date 2024 3 15, ms_of_day = 43200000\<rparr> \<and>
   parse_L ''03/16/2024'' = Some (Date 2024 3 16) \<and>
   after_now ''03/16/2024'' \<lparr>today = Date 2024 3 15, ms_of_day = 43200000\<rparr> \<and>
   \<not> before_today ''03/16/2024'' \<lparr>today = Date 2024 3 15, ms_of_day = 43200000\<rparr>"
proof -
  have c: "valid_clock \<lparr>today = Date 2024 3 15, ms_of_day = 43200000\<rparr>"
    by (simp add: valid_clock_def valid_date_def days_in_month_def)
  have p: "parse_L ''03/16/2024'' = Some (Date 2024 3 16)" by code_simp
  have "Date 2024 3 15 < Date 2024 3 16" by (simp add: less_date_def)
  then show ?thesis using date_tests_trichotomy [OF c p] c p by simp
qed

end
