(* ===== verification/Meetings.thy ===== *)
theory Meetings
  imports Dates
begin

text \<open>
  The data model of \<open>src/src/utils/types.ts\<close>: the meeting document stored in the
  \<open>meetings\<close> collection, the three meeting kinds, the user document of the \<open>users\<close>
  collection, the signed-in Firebase user the join page reads, and the toast record of
  the notification list. The abstract specification's decision and status types live
  with the components that produce them.
\<close>

datatype meeting_join_type = AnyoneCanJoin | VideoConference | OneOnOne
  \<comment> \<open>\<open>"anyone-can-join" | "video-conference" | "1-on-1"\<close>\<close>

record meeting =
  docId :: "string option"
  createdBy :: uid
  invitedUsers :: "uid list"
  maxUsers :: int
  meetingDate :: string
  meetingId :: string
  meetingName :: string
  meetingType :: meeting_join_type
  status :: bool

record user_type =
  email :: string
  user_name :: "string option"
  user_uid :: uid
  label :: "string option"

text \<open>The Firebase \<open>User\<close> object of \<open>onAuthStateChanged\<close>, as far as the pages read it.\<close>

record fb_user =
  fb_uid :: uid
  displayName :: "string option"
  fb_email :: "string option"

datatype toast_color = Success | Primary | Warning | Danger | NoColor
  \<comment> \<open>\<open>"success" | "primary" | "warning" | "danger" | undefined\<close>\<close>

text \<open>
  \<open>ToastType\<close>. The id is \<open>new Date().toISOString()\<close>; that string is an injective
  function of the clock's millisecond reading, so the model keeps the reading itself.
\<close>

record toast =
  toast_id :: nat
  title :: string
  color :: toast_color

definition user_uid_of :: "fb_user option \<Rightarrow> js_uid" where
  "user_uid_of user = map_option fb_uid user"
  \<comment> \<open>\<open>user?.uid\<close>\<close>

text \<open>
  The invitation invariant of the specification: a 1-on-1 meeting has exactly one
  invitee. The creation forms establish it; the edit form does not preserve it.
\<close>

definition invite_wf :: "meeting \<Rightarrow> bool" where
  "invite_wf m \<longleftrightarrow> (meetingType m = OneOnOne \<longrightarrow> length (invitedUsers m) = 1)"

subsection \<open>Fixtures: the scenario of spec section 8\<close>

abbreviation scenario_meeting :: meeting where
  "scenario_meeting \<equiv> \<lparr>docId = None, createdBy = ''U1'', invitedUsers = [''U2''], maxUsers = 1,
     meetingDate = ''03/15/2024'', meetingId = ''k3Xz9QaB'', meetingName = ''Review'',
     meetingType = OneOnOne, status = True\<rparr>"

abbreviation scenario_clock :: clock where
  "scenario_clock \<equiv> \<lparr>today = Date 2024 3 15, ms_of_day = 36000000\<rparr>"

abbreviation signed_in :: "uid \<Rightarrow> fb_user option" where
  "signed_in u \<equiv> Some \<lparr>fb_uid = u, displayName = None, fb_email = None\<rparr>"

lemma user_uid_of_simps [simp]:
  "user_uid_of None = None"
  "user_uid_of (Some u) = Some (fb_uid u)"
  by (simp_all add: user_uid_of_def)

lemma scenario_clock_valid: "valid_clock scenario_clock"
  by (simp add: valid_clock_def valid_date_def days_in_month_def)

lemma scenario_dates:
  "parse_L ''03/15/2024'' = Some (Date 2024 3 15)"
  "parse_L ''03/16/2024'' = Some (Date 2024 3 16)"
  "Date 2024 3 15 < Date 2024 3 16"
  "format_L (Date 2024 3 15) = ''03/15/2024''"
  by code_simp+

lemma scenario_moment: "moment_parse ''03/15/2024'' = Some (Date 2024 3 15)"
  using scenario_dates(1) by (rule parse_L_moment_parse)

end
