(* ===== verification/Join.thy ===== *)
theory Join
  imports Meetings
begin

text \<open>
  The join gate of \<open>src/src/pages/JoinMeeting.tsx\<close>. The effect of
  \<open>getMeetingData\<close> (lines 34--92) is a list of UI actions in the order the code
  performs them: \<open>setIsAllowed(true)\<close>, \<open>createToast({title, type})\<close> and
  \<open>navigate(route)\<close>. The Firestore query (lines 36--40) filters the meetings collection
  by \<open>meetingId\<close>; the page then decides on the first document only. \<open>myMeeting\<close>
  (lines 104--127) builds the arguments of the conferencing SDK's token, and throws when
  no user is signed in. Below the code model sits the specification's resolver (spec
  section 4.2) and the abstraction that reads a decision off the user-visible actions.
\<close>

datatype join_action = SetAllowed | ShowToast string toast_color | Navigate string

definition home_route :: "fb_user option \<Rightarrow> string" where
  "home_route user = (if user \<noteq> None then ''/'' else ''/login'')"
  \<comment> \<open>\<open>navigate(user ? "/" : "/login")\<close>\<close>

definition msg_ended :: string where
  "msg_ended = ''Meeting has ended.''"

definition msg_on :: "string \<Rightarrow> string" where
  "msg_on d = ''Meeting is on '' @ d"

definition msg_not_invited :: string where
  "msg_not_invited = ''You are not invited to the meeting.''"

text \<open>The date branch of the 1-on-1 case (lines 47--60).\<close>

definition date_gate_one_on_one :: "meeting \<Rightarrow> fb_user option \<Rightarrow> clock \<Rightarrow> join_action list" where
  "date_gate_one_on_one m user now =
     (if same_day (meetingDate m) now then [SetAllowed]
      else if before_today (meetingDate m) now then
        [ShowToast msg_ended Danger, Navigate (home_route user)]
      else if after_now (meetingDate m) now then
        [ShowToast (msg_on (meetingDate m)) Warning, Navigate (home_route user)]
      else [])"

text \<open>The date branch of the video-conference case (lines 67--79): no redirect after the
  "Meeting is on" toast.\<close>

definition date_gate_conference :: "meeting \<Rightarrow> fb_user option \<Rightarrow> clock \<Rightarrow> join_action list" where
  "date_gate_conference m user now =
     (if same_day (meetingDate m) now then [SetAllowed]
      else if before_today (meetingDate m) now then
        [ShowToast msg_ended Danger, Navigate (home_route user)]
      else if after_now (meetingDate m) now then
        [ShowToast (msg_on (meetingDate m)) Warning]
      else [])"

text \<open>The decision on a fetched meeting (lines 43--89).\<close>

definition join_decision :: "meeting \<Rightarrow> fb_user option \<Rightarrow> clock \<Rightarrow> join_action list" where
  "join_decision m user now =
     (let isCreator = (Some (createdBy m) = user_uid_of user) in
      if meetingType m = OneOnOne then
        (if js_nth (invitedUsers m) 0 = user_uid_of user \<or> isCreator
         then date_gate_one_on_one m user now
         else [Navigate (home_route user)])
      else if meetingType m = VideoConference then
        (let index = find_index (\<lambda>invitedUser. Some invitedUser = user_uid_of user) (invitedUsers m) in
         if index \<noteq> -1 \<or> isCreator then date_gate_conference m user now
         else [ShowToast msg_not_invited Danger, Navigate (home_route user)])
      else [SetAllowed])"

definition meetings_with_id :: "meeting list \<Rightarrow> string \<Rightarrow> meeting list" where
  "meetings_with_id db mid = filter (\<lambda>m. meetingId m = mid) db"
  \<comment> \<open>\<open>query(meetingsRef, where("meetingId", "==", params.id))\<close>\<close>

definition getMeetingData ::
  "string option \<Rightarrow> bool \<Rightarrow> fb_user option \<Rightarrow> meeting list \<Rightarrow> clock \<Rightarrow> join_action list" where
  "getMeetingData params_id userLoaded user db now =
     (if js_truthy_str params_id \<and> userLoaded then
        (case meetings_with_id db (the params_id) of
          [] \<Rightarrow> []
        | m # _ \<Rightarrow> join_decision m user now)
      else [])"

subsection \<open>Entering the room: \<open>myMeeting\<close>\<close>

datatype js_error = TypeError string

text \<open>
  \<open>generateKitTokenForTest(appId, secret, params.id, user.uid ? user.uid :
  generateMeetingID(), user.displayName ? user.displayName : generateMeetingID())\<close>:
  the room id, the user id and the user name handed to the SDK. The two fallbacks are
  fresh generated ids, passed in. Reading \<open>user.uid\<close> of an undefined \<open>user\<close> throws.
\<close>

definition kit_token_args ::
  "string \<Rightarrow> fb_user option \<Rightarrow> string \<Rightarrow> string \<Rightarrow> js_error + (string \<times> string \<times> string)" where
  "kit_token_args room user fallback_id fallback_name =
     (case user of
       None \<Rightarrow> Inl (TypeError ''Cannot read properties of undefined (reading 'uid')'')
     | Some u \<Rightarrow>
         Inr (room,
              (if fb_uid u \<noteq> [] then fb_uid u else fallback_id),
              (case displayName u of Some n \<Rightarrow> if n \<noteq> [] then n else fallback_name
               | None \<Rightarrow> fallback_name)))"

subsection \<open>The specification's resolver\<close>

datatype access_decision =
    Allowed | DeniedCancelled | DeniedEnded | DeniedNotInvited | DeniedNotYet string | NotFound

text \<open>Invitation eligibility of spec section 4.2, step 3.\<close>

definition eligible_spec :: "meeting \<Rightarrow> js_uid \<Rightarrow> bool" where
  "eligible_spec m r \<longleftrightarrow>
     (case meetingType m of
       AnyoneCanJoin \<Rightarrow> True
     | VideoConference \<Rightarrow> r = Some (createdBy m) \<or> (\<exists>v \<in> set (invitedUsers m). r = Some v)
     | OneOnOne \<Rightarrow> r = Some (createdBy m) \<or> (invitedUsers m \<noteq> [] \<and> r = Some (hd (invitedUsers m))))"

text \<open>
  \<open>resolve\<close> of spec section 4.2. The specification compares calendar dates; a stored
  date string that does not denote a date is outside it, which the result \<open>None\<close>
  records.
\<close>

definition resolve :: "meeting option \<Rightarrow> js_uid \<Rightarrow> clock \<Rightarrow> access_decision option" where
  "resolve mo r now =
     (case mo of
       None \<Rightarrow> Some NotFound
     | Some m \<Rightarrow>
         if \<not> status m then Some DeniedCancelled
         else if \<not> eligible_spec m r then Some DeniedNotInvited
         else (case parse_L (meetingDate m) of
                 None \<Rightarrow> None
               | Some d \<Rightarrow>
                   if d < today now then Some DeniedEnded
                   else if today now < d then Some (DeniedNotYet (meetingDate m))
                   else Some Allowed))"

text \<open>
  The decision a user observes: entering the room, or the first notification shown, or a
  bare redirect, or nothing at all (the page stays blank, as for an unknown meeting id).
\<close>

fun observed_decision :: "join_action list \<Rightarrow> access_decision" where
  "observed_decision [] = NotFound"
| "observed_decision (SetAllowed # _) = Allowed"
| "observed_decision (ShowToast t c # _) =
     (if t = msg_ended then DeniedEnded
      else if take 14 t = ''Meeting is on '' then DeniedNotYet (drop 14 t)
      else DeniedNotInvited)"
| "observed_decision (Navigate _ # _) = DeniedNotInvited"

subsection \<open>Behaviour of the join gate\<close>

lemma date_gate_one_on_one_cases:
  assumes "valid_clock now" and "parse_L (meetingDate m) = Some d"
  shows "date_gate_one_on_one m user now =
    (if d = today now then [SetAllowed]
     else if d < today now then [ShowToast msg_ended Danger, Navigate (home_route user)]
     else [ShowToast (msg_on (meetingDate m)) Warning, Navigate (home_route user)])"
  using assms by (simp add: date_gate_one_on_one_def same_day_iff before_today_iff after_now_iff)

lemma date_gate_conference_cases:
  assumes "valid_clock now" and "parse_L (meetingDate m) = Some d"
  shows "date_gate_conference m user now =
    (if d = today now then [SetAllowed]
     else if d < today now then [ShowToast msg_ended Danger, Navigate (home_route user)]
     else [ShowToast (msg_on (meetingDate m)) Warning])"
  using assms by (simp add: date_gate_conference_def same_day_iff before_today_iff after_now_iff)

lemma date_gates_iso_today:
  assumes "valid_clock now" and "meetingDate m = format_iso (today now)"
  shows "date_gate_one_on_one m user now = []" and "date_gate_conference m user now = []"
  using iso_today_tests [OF assms(1)] assms(2)
  by (simp_all add: date_gate_one_on_one_def date_gate_conference_def)

lemma eligible_one_on_one:
  "meetingType m = OneOnOne \<Longrightarrow> invite_wf m \<Longrightarrow>
   (js_nth (invitedUsers m) 0 = r \<or> Some (createdBy m) = r) \<longleftrightarrow> eligible_spec m r"
  by (cases "invitedUsers m") (auto simp: invite_wf_def eligible_spec_def)

lemma eligible_conference:
  "meetingType m = VideoConference \<Longrightarrow>
   (find_index (\<lambda>v. Some v = r) (invitedUsers m) \<noteq> -1 \<or> Some (createdBy m) = r) \<longleftrightarrow> eligible_spec m r"
  by (auto simp: eligible_spec_def find_index_eq_member)

lemma msg_facts [simp]:
  "msg_on s \<noteq> msg_ended" "take 14 (msg_on s) = ''Meeting is on ''" "drop 14 (msg_on s) = s"
  "msg_not_invited \<noteq> msg_ended" "take 14 msg_not_invited \<noteq> ''Meeting is on ''"
  by (simp_all add: msg_ended_def msg_on_def msg_not_invited_def)

text \<open>
  C1. Refinement of the specification's resolver: for an active meeting of one of the
  two invitation kinds, with a 1-on-1 meeting holding exactly one invitee and a stored date
  that parses, the decision a user observes on the join page (entering, or the first
  notification, or a bare redirect) is the decision \<open>resolve\<close> of spec section 4.2 gives
  for that user's id at that moment.
\<close>

theorem join_refines_resolve:
  assumes "status m" and "invite_wf m" and "meetingType m \<noteq> AnyoneCanJoin"
    and "valid_clock now" and "parse_L (meetingDate m) = Some d"
  shows "resolve (Some m) (user_uid_of user) now = Some (observed_decision (join_decision m user now))"
proof -
  have ord: "d = today now \<or> d < today now \<or> today now < d" using neq_iff by blast
  have ba: "\<not> (d < today now \<and> today now < d)" using less_asym by blast
  note dates = same_day_iff [OF assms(4,5)] before_today_iff [OF assms(4,5)] after_now_iff [OF assms(5)]
  show ?thesis
  proof (cases "meetingType m")
    case AnyoneCanJoin
    with assms(3) show ?thesis by simp
  next
    case OneOnOne
    with assms(2) obtain v where inv: "invitedUsers m = [v]"
      by (auto simp: invite_wf_def length_Suc_conv)
    show ?thesis
      using assms OneOnOne inv ord ba
      by (simp add: resolve_def join_decision_def eligible_spec_def date_gate_one_on_one_def dates
          split: if_splits)
  next
    case VideoConference
    have elig: "(find_index (\<lambda>v. Some v = user_uid_of user) (invitedUsers m) \<noteq> -1
        \<or> Some (createdBy m) = user_uid_of user) \<longleftrightarrow> eligible_spec m (user_uid_of user)"
      by (rule eligible_conference [OF VideoConference])
    show ?thesis
      using assms VideoConference elig ord ba
      by (simp add: resolve_def join_decision_def date_gate_conference_def dates split: if_splits)
  qed
qed


theorem join_refines_resolve_witness:
  "resolve (Some scenario_meeting) (user_uid_of (signed_in ''U2'')) scenario_clock =
     Some (observed_decision (join_decision scenario_meeting (signed_in ''U2'') scenario_clock))
   \<and> observed_decision (join_decision scenario_meeting (signed_in ''U2'') scenario_clock) = Allowed"
proof -
  have p: "parse_L (meetingDate scenario_meeting) = Some (Date 2024 3 15)"
    by (simp add: scenario_dates)
  have "resolve (Some scenario_meeting) (user_uid_of (signed_in ''U2'')) scenario_clock =
     Some (observed_decision (join_decision scenario_meeting (signed_in ''U2'') scenario_clock))"
    by (rule join_refines_resolve [OF _ _ _ scenario_clock_valid p]) (simp_all add: invite_wf_def)
  moreover have "resolve (Some scenario_meeting) (user_uid_of (signed_in ''U2'')) scenario_clock = Some Allowed"
    using p by (simp add: resolve_def eligible_spec_def)
  ultimately show ?thesis by simp
qed

text \<open>
  C2. The join gate never reads the cancellation flag: setting \<open>status\<close> to any value
  leaves the actions of \<open>getMeetingData\<close>'s decision unchanged, so a cancelled meeting is
  entered exactly as an active one (spec section 4.2 says cancellation pre-empts every
  other rule).
\<close>

theorem join_ignores_status: "join_decision (m\<lparr>status := b\<rparr>) user now = join_decision m user now"
  by (simp add: join_decision_def date_gate_one_on_one_def date_gate_conference_def Let_def)

text \<open>
  C3. An anyone-can-join meeting admits every requester, signed in or not, on every
  date: the decision is \<open>setIsAllowed(true)\<close> alone, with no date classification.
\<close>

theorem open_meeting_admits_all:
  "meetingType m = AnyoneCanJoin \<Longrightarrow> join_decision m user now = [SetAllowed]"
  by (simp add: join_decision_def)

theorem open_meeting_admits_all_witness:
  "meetingType \<lparr>docId = None, createdBy = ''U1'', invitedUsers = [], maxUsers = 100,
     meetingDate = ''01/02/2020'', meetingId = ''abcdEFGH'', meetingName = ''standup'',
     meetingType = AnyoneCanJoin, status = False\<rparr> = AnyoneCanJoin \<and>
   join_decision \<lparr>docId = None, createdBy = ''U1'', invitedUsers = [], maxUsers = 100,
     meetingDate = ''01/02/2020'', meetingId = ''abcdEFGH'', meetingName = ''standup'',
     meetingType = AnyoneCanJoin, status = False\<rparr> None
     \<lparr>today = Date 2024 3 15, ms_of_day = 0\<rparr> = [SetAllowed]"
  using open_meeting_admits_all [of "\<lparr>docId = None, createdBy = ''U1'', invitedUsers = [], maxUsers = 100,
     meetingDate = ''01/02/2020'', meetingId = ''abcdEFGH'', meetingName = ''standup'',
     meetingType = AnyoneCanJoin, status = False\<rparr>" None "\<lparr>today = Date 2024 3 15, ms_of_day = 0\<rparr>"]
  by simp

text \<open>
  C4. A 1-on-1 meeting whose invite list is empty admits a visitor who is not signed in
  on the meeting day, because \<open>invitedUsers[0] === user?.uid\<close> compares \<open>undefined\<close>
  with \<open>undefined\<close>; the specification (section 7) denies such a requester as not invited.
\<close>

theorem anonymous_enters_empty_one_on_one:
  assumes "meetingType m = OneOnOne" and "invitedUsers m = []" and "status m"
    and "valid_clock now" and "parse_L (meetingDate m) = Some (today now)"
  shows "join_decision m None now = [SetAllowed] \<and> resolve (Some m) None now = Some DeniedNotInvited"
  using assms by (simp add: join_decision_def date_gate_one_on_one_cases resolve_def eligible_spec_def)

theorem anonymous_enters_empty_one_on_one_witness:
  "join_decision (scenario_meeting\<lparr>invitedUsers := []\<rparr>) None scenario_clock = [SetAllowed] \<and>
   resolve (Some (scenario_meeting\<lparr>invitedUsers := []\<rparr>)) None scenario_clock = Some DeniedNotInvited"
  by (rule anonymous_enters_empty_one_on_one)
    (simp_all add: scenario_clock_valid scenario_dates)

text \<open>
  C5. For an eligible requester of a video conference dated after today the page shows
  the "Meeting is on" warning and neither enters nor redirects (the 1-on-1 branch
  redirects); the requester is left on an empty page.
\<close>

theorem conference_future_no_redirect:
  assumes "meetingType m = VideoConference" and "user_uid_of user = Some (createdBy m)"
    and "valid_clock now" and "parse_L (meetingDate m) = Some d" and "today now < d"
  shows "join_decision m user now = [ShowToast (msg_on (meetingDate m)) Warning]"
  using assms less_asym [of d "today now"] by (auto simp: join_decision_def date_gate_conference_cases)

theorem conference_future_no_redirect_witness:
  "join_decision (scenario_meeting\<lparr>meetingType := VideoConference, meetingDate := ''03/16/2024''\<rparr>)
     (signed_in ''U1'') scenario_clock = [ShowToast (msg_on ''03/16/2024'') Warning]"
  using conference_future_no_redirect
    [of "scenario_meeting\<lparr>meetingType := VideoConference, meetingDate := ''03/16/2024''\<rparr>"
        "signed_in ''U1''" scenario_clock "Date 2024 3 16"]
  by (simp add: scenario_clock_valid scenario_dates)

text \<open>
  C7. A meeting date stored in ISO form (\<open>YYYY-MM-DD\<close>), which moment reads as that
  day, never matches the page's string test \<open>=== moment().format("L")\<close>: on the
  meeting's own day the creator of an invitation meeting gets no action at all (no
  entry, no notification, no redirect), although moment dates the meeting today.
\<close>

theorem iso_date_today_blank:
  assumes "valid_clock now" and "meetingDate m = format_iso (today now)"
    and "meetingType m \<noteq> AnyoneCanJoin" and "user_uid_of user = Some (createdBy m)"
  shows "moment_parse (meetingDate m) = Some (today now) \<and> join_decision m user now = []"
  using assms iso_today_tests [OF assms(1)]
  by (cases "meetingType m") (simp_all add: join_decision_def date_gates_iso_today)

theorem iso_date_today_blank_witness:
  "moment_parse ''2024-03-15'' = Some (Date 2024 3 15)
   \<and> join_decision (scenario_meeting\<lparr>meetingDate := ''2024-03-15''\<rparr>) (signed_in ''U1'') scenario_clock = []"
proof -
  have i: "format_iso (Date 2024 3 15) = ''2024-03-15''" by code_simp
  have m: "meetingDate (scenario_meeting\<lparr>meetingDate := ''2024-03-15''\<rparr>) = format_iso (today scenario_clock)"
    using i by simp
  have t: "meetingType (scenario_meeting\<lparr>meetingDate := ''2024-03-15''\<rparr>) \<noteq> AnyoneCanJoin" by simp
  have u: "user_uid_of (signed_in ''U1'') = Some (createdBy (scenario_meeting\<lparr>meetingDate := ''2024-03-15''\<rparr>))"
    by simp
  from iso_date_today_blank [OF scenario_clock_valid m t u] show ?thesis by simp
qed

text \<open>
  C8. When the route has no meeting id, the auth state is not yet known, or no stored
  meeting carries the id, \<open>getMeetingData\<close> performs no action: an unknown meeting is a
  blank page, not a redirect or a notification.
\<close>

theorem getMeetingData_silent:
  assumes "\<not> js_truthy_str params_id \<or> \<not> userLoaded \<or> meetings_with_id db (the params_id) = []"
  shows "getMeetingData params_id userLoaded user db now = []"
  using assms by (auto simp: getMeetingData_def)

theorem getMeetingData_silent_witness:
  "getMeetingData (Some ''k3Xz9QaB'') True (signed_in ''U1'') [scenario_meeting\<lparr>meetingId := ''other000''\<rparr>]
     scenario_clock = []"
  by (rule getMeetingData_silent) (simp add: meetings_with_id_def)

lemma kit_token_anonymous: "\<exists>e. kit_token_args room None fi fn = Inl e"
  by (simp add: kit_token_args_def)

end
