(* ===== verification/Toasts.thy ===== *)
theory Toasts
  imports Meetings
begin

text \<open>
  The notification list. The Redux slice of \<open>src/src/app/slices/MeetingSlice.ts\<close>
  holds the toasts and has one reducer, \<open>setToasts\<close>, which replaces the list by its
  payload. Both writers compute the payload from the list they read when their component
  last rendered: \<open>createToast\<close> of \<open>src/src/hooks/useToast.tsx\<close> appends a toast whose
  id is the current time, \<open>removeToast\<close> of \<open>src/src/App.tsx\<close> keeps the toasts with
  another id. The model makes that read explicit as a snapshot argument: a dispatch from
  an up-to-date component passes the current list, a dispatch from a closure created
  earlier (such as the async \<open>getMeetingData\<close> of the join page, which calls
  \<open>createToast\<close> after awaiting Firestore) passes an older one.
\<close>

record meetings_slice =
  toasts :: "toast list"

definition meetings_initial :: meetings_slice where
  "meetings_initial = \<lparr>toasts = []\<rparr>"

definition setToasts :: "toast list \<Rightarrow> meetings_slice \<Rightarrow> meetings_slice" where
  "setToasts payload st = st\<lparr>toasts := payload\<rparr>"

definition createToast :: "toast list \<Rightarrow> nat \<Rightarrow> string \<Rightarrow> toast_color \<Rightarrow> toast list" where
  "createToast snapshot now t c = snapshot @ [\<lparr>toast_id = now, title = t, color = c\<rparr>]"
  \<comment> \<open>the payload of \<open>dispatch(setToasts(toasts.concat({id, title, color})))\<close>\<close>

definition removeToast :: "toast list \<Rightarrow> nat \<Rightarrow> toast list" where
  "removeToast snapshot rid = filter (\<lambda>t. toast_id t \<noteq> rid) snapshot"
  \<comment> \<open>the payload of \<open>dispatch(setToasts(toasts.filter(toast => toast.id !== removedToast.id)))\<close>\<close>

subsection \<open>Requests and runs\<close>

datatype toast_req =
    Push nat string toast_color  \<comment> \<open>clock reading in ms, title, color\<close>
  | Dismiss nat

fun toast_step :: "toast list \<Rightarrow> meetings_slice \<Rightarrow> toast_req \<Rightarrow> meetings_slice" where
  "toast_step snapshot st (Push now t c) = setToasts (createToast snapshot now t c) st"
| "toast_step snapshot st (Dismiss i) = setToasts (removeToast snapshot i) st"

text \<open>A run in which every dispatch reads the current list.\<close>

fun run_fresh :: "meetings_slice \<Rightarrow> toast_req list \<Rightarrow> meetings_slice" where
  "run_fresh st [] = st"
| "run_fresh st (r # rs) = run_fresh (toast_step (toasts st) st r) rs"

fun push_times :: "toast_req list \<Rightarrow> nat list" where
  "push_times [] = []"
| "push_times (Push now t c # rs) = now # push_times rs"
| "push_times (Dismiss i # rs) = push_times rs"

definition toast_ids :: "meetings_slice \<Rightarrow> nat list" where
  "toast_ids st = map toast_id (toasts st)"

subsection \<open>Behaviour of the toast list\<close>

lemma toast_ids_step:
  "toast_ids (setToasts (createToast (toasts st) now t c) st) = toast_ids st @ [now]"
  "toast_ids (setToasts (removeToast (toasts st) i) st) = filter (\<lambda>x. x \<noteq> i) (toast_ids st)"
  by (simp_all add: toast_ids_def setToasts_def createToast_def removeToast_def filter_map comp_def)

lemma sorted_wrt_filter_append:
  "sorted_wrt (<) (xs @ ys) \<Longrightarrow> sorted_wrt (<) (filter P xs @ ys)"
  by (auto simp: sorted_wrt_append sorted_wrt_filter)

text \<open>
  C14. When every dispatch reads the current list and the clock readings of the pushes
  increase strictly beyond the ids already shown, the toast ids stay strictly increasing
  in list order, hence unique: insertion order is id order.
\<close>

theorem run_fresh_ids_increasing:
  "sorted_wrt (<) (toast_ids st @ push_times rs) \<Longrightarrow> sorted_wrt (<) (toast_ids (run_fresh st rs))"
proof (induction rs arbitrary: st)
  case Nil
  then show ?case by (simp add: sorted_wrt_append)
next
  case (Cons r rs)
  show ?case
  proof (cases r)
    case (Push now t c)
    with Cons.prems have "sorted_wrt (<) (toast_ids (toast_step (toasts st) st r) @ push_times rs)"
      by (simp add: toast_ids_step)
    with Push Cons.IH show ?thesis by simp
  next
    case (Dismiss i)
    with Cons.prems have "sorted_wrt (<) (toast_ids (toast_step (toasts st) st r) @ push_times rs)"
      by (simp add: toast_ids_step sorted_wrt_filter_append)
    with Dismiss Cons.IH show ?thesis by simp
  qed
qed

theorem run_fresh_ids_increasing_witness:
  "sorted_wrt (<) (toast_ids meetings_initial @ push_times [Push 1 ''a'' Success, Dismiss 1, Push 2 ''b'' Warning])
   \<and> sorted_wrt (<) (toast_ids (run_fresh meetings_initial [Push 1 ''a'' Success, Dismiss 1, Push 2 ''b'' Warning]))"
proof -
  have h: "sorted_wrt (<) (toast_ids meetings_initial @ push_times [Push 1 ''a'' Success, Dismiss 1, Push 2 ''b'' Warning])"
    by (simp add: toast_ids_def meetings_initial_def)
  show ?thesis using h run_fresh_ids_increasing [OF h] by simp
qed

text \<open>
  Dismissing the toast just pushed restores the list: with a fresh id, a push
  followed by the dismissal of its id leaves the slice as it was (spec section 8).
\<close>

theorem push_then_dismiss:
  assumes "now \<notin> set (toast_ids st)"
  shows "run_fresh st [Push now t c, Dismiss now] = st"
proof -
  from assms have "filter (\<lambda>x. toast_id x \<noteq> now) (toasts st) = toasts st"
    by (auto simp: toast_ids_def filter_id_conv)
  then show ?thesis by (simp add: setToasts_def createToast_def removeToast_def)
qed

theorem push_then_dismiss_witness:
  "run_fresh \<lparr>toasts = [\<lparr>toast_id = 1, title = ''x'', color = Danger\<rparr>]\<rparr> [Push 2 ''y'' Warning, Dismiss 2]
     = \<lparr>toasts = [\<lparr>toast_id = 1, title = ''x'', color = Danger\<rparr>]\<rparr>"
  by (rule push_then_dismiss) (simp add: toast_ids_def)

text \<open>
  Dismissal is idempotent and dismissing an absent id changes nothing, so a manual
  dismissal racing the 4-second timer on the same id is harmless (spec section 4.4).
\<close>

theorem dismiss_idempotent:
  "removeToast (removeToast s i) i = removeToast s i \<and> (i \<notin> toast_id ` set s \<longrightarrow> removeToast s i = s)"
  by (auto simp: removeToast_def filter_id_conv)

theorem dismiss_idempotent_witness:
  "removeToast (removeToast [\<lparr>toast_id = 1, title = ''x'', color = Danger\<rparr>] 1) 1
     = removeToast [\<lparr>toast_id = 1, title = ''x'', color = Danger\<rparr>] 1
   \<and> removeToast [\<lparr>toast_id = 1, title = ''x'', color = Danger\<rparr>] 7
     = [\<lparr>toast_id = 1, title = ''x'', color = Danger\<rparr>]"
  using dismiss_idempotent [of "[\<lparr>toast_id = 1, title = ''x'', color = Danger\<rparr>]" 1]
    dismiss_idempotent [of "[\<lparr>toast_id = 1, title = ''x'', color = Danger\<rparr>]" 7]
  by simp

text \<open>
  C17. Two pushes within the same millisecond receive the same id
  (\<open>new Date().toISOString()\<close>), and dismissing one removes both: from any toast list,
  two pushes at millisecond \<open>n\<close> followed by the dismissal of id \<open>n\<close> leave the list
  without either toast, while both were shown under the one id before. The
  specification requires distinct ids for pushes within one tick.
\<close>

theorem same_ms_pushes_dismissed_together:
  "map toast_id (filter (\<lambda>x. toast_id x = n) (toasts (run_fresh st [Push n t1 c1, Push n t2 c2])))
     = map toast_id (filter (\<lambda>x. toast_id x = n) (toasts st)) @ [n, n]
   \<and> run_fresh st [Push n t1 c1, Push n t2 c2, Dismiss n]
     = st\<lparr>toasts := filter (\<lambda>x. toast_id x \<noteq> n) (toasts st)\<rparr>"
  by (simp add: setToasts_def createToast_def removeToast_def)

text \<open>
  Two pushes computed from the same snapshot lose the first: the second
  \<open>setToasts\<close> overwrites the list with the snapshot and its own toast only.
\<close>

theorem stale_snapshot_loses_toast:
  assumes "n1 \<notin> toast_id ` set s" and "n1 \<noteq> n2"
  shows "n1 \<notin> set (toast_ids (toast_step s (toast_step s st (Push n1 t1 c1)) (Push n2 t2 c2)))"
  using assms by (auto simp: toast_ids_def setToasts_def createToast_def)

theorem stale_snapshot_loses_toast_witness:
  "1 \<notin> set (toast_ids (toast_step [] (toast_step [] meetings_initial (Push 1 ''a'' Success)) (Push 2 ''b'' Danger)))"
  by (rule stale_snapshot_loses_toast) simp_all

text \<open>
  C19. A push computed from a snapshot taken before a dismissal brings the dismissed
  toast back: after \<open>removeToast\<close> has removed id \<open>i\<close>, a \<open>createToast\<close> whose
  snapshot still holds \<open>i\<close> (the join page's async closure) shows it again.
\<close>

theorem stale_snapshot_resurrects:
  assumes "i \<in> toast_id ` set s"
  shows "i \<notin> set (toast_ids (toast_step s st (Dismiss i)))
    \<and> i \<in> set (toast_ids (toast_step s (toast_step s st (Dismiss i)) (Push n t c)))"
  using assms by (auto simp: toast_ids_def setToasts_def createToast_def removeToast_def)

theorem stale_snapshot_resurrects_witness:
  "1 \<notin> set (toast_ids (toast_step [\<lparr>toast_id = 1, title = ''x'', color = Danger\<rparr>] meetings_initial (Dismiss 1)))
   \<and> 1 \<in> set (toast_ids (toast_step [\<lparr>toast_id = 1, title = ''x'', color = Danger\<rparr>]
        (toast_step [\<lparr>toast_id = 1, title = ''x'', color = Danger\<rparr>] meetings_initial (Dismiss 1))
        (Push 2 ''Meeting has ended.'' Danger)))"
  by (rule stale_snapshot_resurrects) simp

end
