(* ===== verification/MeetingId.thy ===== *)
theory MeetingId
  imports Complex_Main Prelude
begin

text \<open>
  \<open>generateMeetingID\<close> of \<open>src/src/utils/generateMeetingId.ts\<close>: eight times, append
  \<open>chars.charAt(Math.floor(Math.random() * maxPos))\<close>. \<open>Math.random\<close> is the sequence of
  its draws, \<open>rnd i\<close> being the draw of iteration \<open>i\<close>, a real in \<open>[0, 1)\<close>;
  \<open>charAt\<close> yields the empty string out of range, as JavaScript's does. The loop is a
  recursion on the counter, terminating by the measure \<open>8 - i\<close>.
\<close>

definition id_chars :: string where
  "id_chars = ''12345qwertyuiopasdfgh67890jklmnbvcxzMNBVCZXASDQWERTYHGFUIOLKJP''"

definition maxPos :: nat where
  "maxPos = length id_chars"

definition charAt :: "string \<Rightarrow> int \<Rightarrow> string" where
  "charAt s i = (if 0 \<le> i \<and> nat i < length s then [s ! nat i] else [])"

definition draw_index :: "real \<Rightarrow> int" where
  "draw_index r = \<lfloor>r * real maxPos\<rfloor>"
  \<comment> \<open>\<open>Math.floor(Math.random() * maxPos)\<close>\<close>

function gen_loop :: "(nat \<Rightarrow> real) \<Rightarrow> nat \<Rightarrow> string \<Rightarrow> string" where
  "gen_loop rnd i meetingID =
     (if i < 8 then gen_loop rnd (Suc i) (meetingID @ charAt id_chars (draw_index (rnd i)))
      else meetingID)"
  by pat_completeness auto
termination
  by (relation "measure (\<lambda>(rnd, i, _). 8 - i)") auto

definition generateMeetingID :: "(nat \<Rightarrow> real) \<Rightarrow> string" where
  "generateMeetingID rnd = gen_loop rnd 0 ''''"

definition valid_draws :: "(nat \<Rightarrow> real) \<Rightarrow> bool" where
  "valid_draws rnd \<longleftrightarrow> (\<forall>i < 8. 0 \<le> rnd i \<and> rnd i < 1)"

declare gen_loop.simps [simp del]

subsection \<open>Behaviour of the generator\<close>

lemma maxPos_62: "maxPos = 62"
  by (simp add: maxPos_def id_chars_def)

lemma id_chars_distinct: "distinct id_chars"
  by (simp add: id_chars_def)

lemma draw_index_bounds: "0 \<le> r \<Longrightarrow> r < 1 \<Longrightarrow> 0 \<le> draw_index r \<and> draw_index r < 62"
proof -
  assume "0 \<le> r" "r < 1"
  then have "0 \<le> r * 62" "r * 62 < 62" by simp_all
  then show ?thesis by (simp add: draw_index_def maxPos_62 floor_less_iff)
qed

lemma draw_index_iff:
  "draw_index r = k \<longleftrightarrow> real_of_int k / 62 \<le> r \<and> r < (real_of_int k + 1) / 62"
  by (simp add: draw_index_def maxPos_62 floor_eq_iff field_simps)

lemma charAt_valid:
  "0 \<le> r \<Longrightarrow> r < 1 \<Longrightarrow> charAt id_chars (draw_index r) = [id_chars ! nat (draw_index r)]"
proof -
  assume "0 \<le> r" "r < 1"
  then have b: "0 \<le> draw_index r" "draw_index r < 62" using draw_index_bounds by auto
  then have "nat (draw_index r) < length id_chars"
    using maxPos_62 by (simp add: maxPos_def nat_less_iff)
  with b show ?thesis by (simp add: charAt_def)
qed

lemma gen_loop_map:
  "valid_draws rnd \<Longrightarrow>
   gen_loop rnd i acc = acc @ map (\<lambda>j. id_chars ! nat (draw_index (rnd j))) [i..<8]"
proof (induction rnd i acc rule: gen_loop.induct)
  case (1 rnd i acc)
  show ?case
  proof (cases "i < 8")
    case True
    with "1.prems" have "0 \<le> rnd i" "rnd i < 1" by (auto simp: valid_draws_def)
    with True "1.IH" "1.prems" show ?thesis
      by (simp add: gen_loop.simps [of rnd i acc] charAt_valid upt_conv_Cons)
  next
    case False
    then show ?thesis by (simp add: gen_loop.simps [of rnd i acc])
  qed
qed

lemma draw_nat_bound:
  "valid_draws rnd \<Longrightarrow> j < 8 \<Longrightarrow> nat (draw_index (rnd j)) < length id_chars"
proof -
  assume "valid_draws rnd" "j < 8"
  then have "0 \<le> rnd j" "rnd j < 1" by (auto simp: valid_draws_def)
  then have "0 \<le> draw_index (rnd j)" "draw_index (rnd j) < 62" using draw_index_bounds by auto
  then show ?thesis using maxPos_62 by (simp add: maxPos_def nat_less_iff)
qed

text \<open>
  C20. The counting loop computes the reference definition: for draws in \<open>[0, 1)\<close>,
  the generated id is the list of the eight characters
  \<open>chars[floor(rnd j * maxPos)]\<close>, \<open>j = 0..7\<close>, in draw order.
\<close>

theorem generateMeetingID_map:
  "valid_draws rnd \<Longrightarrow> generateMeetingID rnd = map (\<lambda>j. id_chars ! nat (draw_index (rnd j))) [0..<8]"
  by (simp add: generateMeetingID_def gen_loop_map)


lemma index_of_char:
  "c \<in> set id_chars \<Longrightarrow> \<exists>k < 62. id_chars ! k = c"
  using maxPos_62 by (auto simp: maxPos_def in_set_conv_nth)

theorem generateMeetingID_map_witness:
  "valid_draws (\<lambda>_. 0) \<and> generateMeetingID (\<lambda>_. 0) = ''11111111''"
proof -
  have v: "valid_draws (\<lambda>_. 0)" by (simp add: valid_draws_def)
  have "map (\<lambda>j. id_chars ! nat (draw_index ((\<lambda>_. 0) j))) [0..<8] = ''11111111''"
    by (simp add: draw_index_def id_chars_def upt_rec)
  then show ?thesis using generateMeetingID_map [OF v] v by simp
qed

text \<open>
  C21. For draws in \<open>[0, 1)\<close> a generated id has exactly 8 characters, all from the
  fixed alphabet; \<open>charAt\<close> never falls out of range.
\<close>

theorem generateMeetingID_shape:
  "valid_draws rnd \<Longrightarrow> length (generateMeetingID rnd) = 8 \<and> set (generateMeetingID rnd) \<subseteq> set id_chars"
proof -
  assume v: "valid_draws rnd"
  then show ?thesis using draw_nat_bound [OF v] by (auto simp: generateMeetingID_def gen_loop_map)
qed

theorem generateMeetingID_shape_witness:
  "valid_draws (\<lambda>j. real j / 10) \<and> length (generateMeetingID (\<lambda>j. real j / 10)) = 8"
proof -
  have v: "valid_draws (\<lambda>j. real j / 10)" by (simp add: valid_draws_def)
  show ?thesis using generateMeetingID_shape [OF v] v by simp
qed

text \<open>
  Every string of 8 characters over the alphabet is the result of some draws in
  \<open>[0, 1)\<close>: the generator can produce every id of its range (62 to the 8th).
\<close>

theorem every_id_generated:
  assumes "length s = 8" and "set s \<subseteq> set id_chars"
  shows "\<exists>rnd. valid_draws rnd \<and> generateMeetingID rnd = s"
proof -
  have "\<forall>j < 8. \<exists>k < 62. id_chars ! k = s ! j"
    using assms index_of_char by (auto simp: subset_iff)
  then obtain f where f: "\<And>j. j < 8 \<Longrightarrow> f j < 62 \<and> id_chars ! f j = s ! j"
    by metis
  define rnd where "rnd j = real (f j) / 62" for j
  have v: "valid_draws rnd" using f by (auto simp: valid_draws_def rnd_def)
  have d: "draw_index (rnd j) = int (f j)" for j
    by (simp add: draw_index_iff rnd_def)
  have "generateMeetingID rnd = s"
  proof (rule nth_equalityI)
    show "length (generateMeetingID rnd) = length s" using assms v by (simp add: generateMeetingID_map)
    fix j assume "j < length (generateMeetingID rnd)"
    with v have "j < 8" by (simp add: generateMeetingID_map)
    with v f d show "generateMeetingID rnd ! j = s ! j" by (simp add: generateMeetingID_map)
  qed
  with v show ?thesis by blast
qed


theorem every_id_generated_witness: "\<exists>rnd. valid_draws rnd \<and> generateMeetingID rnd = ''k3Xz9QaB''"
  by (rule every_id_generated) (simp_all add: id_chars_def)

text \<open>
  The alphabet has 62 distinct characters, the ten digits and the 26 lower- and
  26 upper-case letters; the specification (section 4.5) says 63.
\<close>

theorem id_alphabet:
  "length id_chars = 62 \<and> distinct id_chars \<and>
   set id_chars = set ''0123456789'' \<union> set ''abcdefghijklmnopqrstuvwxyz'' \<union> set ''ABCDEFGHIJKLMNOPQRSTUVWXYZ''"
  by (simp add: id_chars_def insert_commute)

end
