(* ===== verification/Status.thy ===== *)
theory Status
  imports Meetings
begin

text \<open>
  The two listing pages. \<open>src/src/pages/MyMeetings.tsx\<close> lists the meetings the signed-in
  user created, with a status badge, an edit button and a copy-link button;
  \<open>src/src/pages/Meeting.tsx\<close> lists every meeting the user may attend, with the same
  status badge. The badge column is the same code at both sites (MyMeetings lines
  141--162, Meeting lines 123--144) and is modelled once; \<open>None\<close> is the \<open>undefined\<close>
  the render function returns when no branch matches. The Firestore collection is a list
  of (document id, document data) pairs in query order. Against it stands the
  specification's \<open>classify\<close> (spec section 4.3).
\<close>

type_synonym meetings_db = "(string \<times> meeting) list"

datatype badge = JoinNowBadge string | EndedBadge | UpcomingBadge | CancelledBadge
  \<comment> \<open>\<open>JoinNowBadge\<close> carries the target of its \<open>Link\<close>\<close>

definition join_link :: "string \<Rightarrow> string" where
  "join_link mid = ''/join/'' @ mid"

definition status_badge :: "meeting \<Rightarrow> clock \<Rightarrow> badge option" where
  "status_badge m now =
     (if status m then
        (if same_day (meetingDate m) now then Some (JoinNowBadge (join_link (meetingId m)))
         else if before_today (meetingDate m) now then Some EndedBadge
         else if after_now (meetingDate m) now then Some UpcomingBadge
         else None)
      else Some CancelledBadge)"

definition edit_disabled :: "meeting \<Rightarrow> clock \<Rightarrow> bool" where
  "edit_disabled m now \<longleftrightarrow> before_today (meetingDate m) now \<or> \<not> status m"

definition copy_link :: "string \<Rightarrow> string \<Rightarrow> string" where
  "copy_link host mid = host @ join_link mid"
  \<comment> \<open>\<open>`${process.env.REACT_APP_HOST}/join/${meetingId}`\<close>\<close>

subsection \<open>MyMeetings: the creator's meetings\<close>

record my_meetings_page =
  mm_meetings :: "meeting list"
  showEditFlyout :: bool
  editMeeting :: "meeting option"

definition my_meetings_init :: my_meetings_page where
  "my_meetings_init = \<lparr>mm_meetings = [], showEditFlyout = False, editMeeting = None\<rparr>"

definition created_by_query :: "meetings_db \<Rightarrow> js_uid \<Rightarrow> meetings_db" where
  "created_by_query db u = filter (\<lambda>(_, m). Some (createdBy m) = u) db"
  \<comment> \<open>\<open>query(meetingsRef, where("createdBy", "==", userInfo?.uid))\<close>\<close>

definition getMyMeetings :: "meetings_db \<Rightarrow> js_uid \<Rightarrow> my_meetings_page \<Rightarrow> my_meetings_page" where
  "getMyMeetings db u st =
     (let fetched = created_by_query db u in
      if fetched \<noteq> [] then st\<lparr>mm_meetings := map (\<lambda>(i, m). m\<lparr>docId := Some i\<rparr>) fetched\<rparr>
      else st)"

definition openEditFlyout :: "meeting \<Rightarrow> my_meetings_page \<Rightarrow> my_meetings_page" where
  "openEditFlyout m st = st\<lparr>showEditFlyout := True, editMeeting := Some m\<rparr>"

definition closeEditFlyout ::
  "meetings_db \<Rightarrow> js_uid \<Rightarrow> bool \<Rightarrow> my_meetings_page \<Rightarrow> my_meetings_page" where
  "closeEditFlyout db u dataChanged st =
     (let st' = st\<lparr>showEditFlyout := False, editMeeting := None\<rparr> in
      if dataChanged then getMyMeetings db u st' else st')"

subsection \<open>Meeting: the meetings a user may attend\<close>

definition visible_to :: "js_uid \<Rightarrow> meeting \<Rightarrow> bool" where
  "visible_to u m \<longleftrightarrow>
     (if Some (createdBy m) = u then True
      else if meetingType m = AnyoneCanJoin then True
      else find_index (\<lambda>v. Some v = u) (invitedUsers m) \<noteq> -1)"

definition getMeetings :: "meetings_db \<Rightarrow> js_uid \<Rightarrow> meeting list \<Rightarrow> meeting list" where
  "getMeetings db u shown =
     (if db \<noteq> [] then filter (visible_to u) (map snd db) else shown)"
  \<comment> \<open>\<open>getMyMeetings\<close> of \<open>Meeting.tsx\<close>: all documents, filtered per row\<close>

subsection \<open>The specification's classifier\<close>

datatype display_status = Cancelled | Ended | JoinNow | Upcoming

definition classify :: "meeting \<Rightarrow> clock \<Rightarrow> display_status option" where
  "classify m now =
     (if \<not> status m then Some Cancelled
      else (case parse_L (meetingDate m) of
              None \<Rightarrow> None
            | Some d \<Rightarrow>
                if d < today now then Some Ended
                else if d = today now then Some JoinNow
                else Some Upcoming))"

fun badge_status :: "badge \<Rightarrow> display_status" where
  "badge_status (JoinNowBadge _) = JoinNow"
| "badge_status EndedBadge = Ended"
| "badge_status UpcomingBadge = Upcoming"
| "badge_status CancelledBadge = Cancelled"

subsection \<open>Behaviour of the listings\<close>

lemma status_badge_dated:
  assumes "valid_clock now" and "parse_L (meetingDate m) = Some d" and "status m"
  shows "status_badge m now =
    (if d = today now then Some (JoinNowBadge (join_link (meetingId m)))
     else if d < today now then Some EndedBadge else Some UpcomingBadge)"
  using assms by (auto simp: status_badge_def same_day_iff before_today_iff after_now_iff
      dest: neq_iff [THEN iffD1])

text \<open>
  C9. The status badge refines the specification's classifier on the meetings the
  application stores: for a valid clock, a cancelled meeting on any date, or one whose
  date is in the \<open>L\<close> format every writer uses, gets the badge that, read as a display
  status, is \<open>classify\<close> of spec section 4.3. Dates in other forms moment reads are
  outside this statement; lemma \<open>iso_today_no_badge\<close> shows one diverges.
\<close>

theorem status_badge_refines_classify:
  assumes "valid_clock now" and "\<not> status m \<or> parse_L (meetingDate m) \<noteq> None"
  shows "map_option badge_status (status_badge m now) = classify m now"
proof (cases "status m")
  case True
  then obtain d where d: "parse_L (meetingDate m) = Some d" using assms(2) by auto
  then show ?thesis
    using status_badge_dated [OF assms(1) d True] True
    by (auto simp: classify_def)
qed (simp add: status_badge_def classify_def)

theorem status_badge_refines_classify_witness:
  "map_option badge_status (status_badge (scenario_meeting\<lparr>meetingDate := ''03/16/2024''\<rparr>) scenario_clock)
     = classify (scenario_meeting\<lparr>meetingDate := ''03/16/2024''\<rparr>) scenario_clock
   \<and> classify (scenario_meeting\<lparr>meetingDate := ''03/16/2024''\<rparr>) scenario_clock = Some Upcoming"
proof -
  have "classify (scenario_meeting\<lparr>meetingDate := ''03/16/2024''\<rparr>) scenario_clock = Some Upcoming"
    using scenario_dates less_asym [of "Date 2024 3 15" "Date 2024 3 16"]
    by (auto simp: classify_def)
  then show ?thesis
    using status_badge_refines_classify [OF scenario_clock_valid,
        of "scenario_meeting\<lparr>meetingDate := ''03/16/2024''\<rparr>"] by (simp add: scenario_dates)
qed

text \<open>An active meeting whose date is stored in ISO form gets no badge on its own day,
  although moment reads the date as today: none of the row's three tests holds.\<close>

lemma iso_today_no_badge:
  assumes "valid_clock now" and "status m" and "meetingDate m = format_iso (today now)"
  shows "moment_parse (meetingDate m) = Some (today now) \<and> status_badge m now = None"
  using iso_today_tests [OF assms(1)] assms(2,3) by (simp add: status_badge_def)

text \<open>
  The edit button of a creator's row is enabled exactly for an active meeting dated
  today or later: \<open>isBefore(today) || !status\<close> disables it for past and cancelled
  meetings.
\<close>

theorem edit_enabled_iff:
  assumes "valid_clock now" and "parse_L (meetingDate m) = Some d"
  shows "\<not> edit_disabled m now \<longleftrightarrow> status m \<and> today now \<le> d"
  using assms by (auto simp: edit_disabled_def before_today_iff not_less)

theorem edit_enabled_iff_witness:
  "\<not> edit_disabled scenario_meeting scenario_clock \<and> status scenario_meeting
   \<and> today scenario_clock \<le> Date 2024 3 15"
  using edit_enabled_iff [OF scenario_clock_valid, of scenario_meeting "Date 2024 3 15"]
  by (simp add: scenario_dates)

text \<open>
  After a fetch that finds documents, every row of the creator's table was created
  by the signed-in user and carries its Firestore document id (which the edit flyout's
  \<open>updateDoc(doc(.., meeting.docId!))\<close> dereferences), one row per matching document.
\<close>

theorem getMyMeetings_rows:
  assumes "created_by_query db u \<noteq> []"
  shows "(\<forall>r \<in> set (mm_meetings (getMyMeetings db u st)). Some (createdBy r) = u \<and> docId r \<noteq> None)
    \<and> length (mm_meetings (getMyMeetings db u st)) = length (created_by_query db u)"
  using assms by (auto simp: getMyMeetings_def created_by_query_def)

theorem getMyMeetings_rows_witness:
  "created_by_query [(''doc1'', scenario_meeting)] (Some ''U1'') \<noteq> [] \<and>
   length (mm_meetings (getMyMeetings [(''doc1'', scenario_meeting)] (Some ''U1'') my_meetings_init)) = 1 \<and>
   docId (hd (mm_meetings (getMyMeetings [(''doc1'', scenario_meeting)] (Some ''U1'') my_meetings_init))) \<noteq> None"
proof -
  have q: "created_by_query [(''doc1'', scenario_meeting)] (Some ''U1'') \<noteq> []"
    by (simp add: created_by_query_def)
  note rows = getMyMeetings_rows [OF q, of my_meetings_init]
  then have len: "length (mm_meetings (getMyMeetings [(''doc1'', scenario_meeting)] (Some ''U1'') my_meetings_init)) = 1"
    by (simp add: created_by_query_def)
  then have "hd (mm_meetings (getMyMeetings [(''doc1'', scenario_meeting)] (Some ''U1'') my_meetings_init))
      \<in> set (mm_meetings (getMyMeetings [(''doc1'', scenario_meeting)] (Some ''U1'') my_meetings_init))"
    by (intro hd_in_set) auto
  with rows q len show ?thesis by blast
qed

text \<open>
  C12. A fetch that finds no document leaves the table as it was: after the signed-in
  user changes to one without meetings, the rows of the previous user stay on screen
  (the same holds for \<open>Meeting.tsx\<close>, whose \<open>getMeetings\<close> keeps its rows on an empty
  collection).
\<close>

theorem getMyMeetings_keeps_stale:
  "created_by_query db u = [] \<Longrightarrow> getMyMeetings db u st = st"
  by (simp add: getMyMeetings_def)

theorem getMyMeetings_keeps_stale_witness:
  "getMyMeetings [(''doc1'', scenario_meeting)] (Some ''U9'')
     (my_meetings_init\<lparr>mm_meetings := [scenario_meeting]\<rparr>)
   = my_meetings_init\<lparr>mm_meetings := [scenario_meeting]\<rparr>"
  by (rule getMyMeetings_keeps_stale) (simp add: created_by_query_def)

lemma visible_to_iff:
  "visible_to u m \<longleftrightarrow> Some (createdBy m) = u \<or> meetingType m = AnyoneCanJoin \<or> (\<exists>v \<in> set (invitedUsers m). u = Some v)"
  by (auto simp: visible_to_def find_index_found)

end
