(* ===== verification/Lifecycle.thy ===== *)
theory Lifecycle
  imports Status
begin

text \<open>
  How meetings come into the store and change there. The creation forms
  (\<open>src/src/pages/OneOnOneMeeting.tsx\<close>, \<open>src/src/pages/VideoConference.tsx\<close>) validate
  their fields, build a document and \<open>addDoc\<close> it; the edit flyout
  (\<open>src/src/components/EditFlyout.tsx\<close>), opened from an enabled edit button of
  \<open>MyMeetings\<close>, rebuilds the document from its form and \<open>updateDoc\<close>s it. The form state
  of the flyout is a small machine driven by its input events; the capacity field
  (\<open>MeetingMaximumUsersField.tsx\<close>) clamps what is typed. Firestore's \<open>addDoc\<close> and
  \<open>updateDoc\<close> are modelled from their documented behaviour: a document holding an
  \<open>undefined\<close> field is rejected, \<open>addDoc\<close> appends under a fresh id, \<open>updateDoc\<close>
  overwrites the fields of the document with the given id. The store evolves by the
  inductive relation \<open>store_step\<close>; its invariants are proved by rule induction.
\<close>

subsection \<open>Form validation\<close>

record field_error =
  show_error :: bool
  messages :: "string list"

record form_errors =
  err_name :: field_error
  err_users :: field_error

definition field_ok :: field_error where
  "field_ok = \<lparr>show_error = False, messages = []\<rparr>"

definition field_err :: "string \<Rightarrow> field_error" where
  "field_err msg = \<lparr>show_error = True, messages = [msg]\<rparr>"

definition validate_one_on_one :: "string \<Rightarrow> user_type list \<Rightarrow> bool \<times> form_errors" where
  "validate_one_on_one name selected =
     (name = [] \<or> selected = [],
      \<lparr>err_name = (if name = [] then field_err ''Please Enter Meeting Name'' else field_ok),
       err_users = (if selected = [] then field_err ''Please Select a User'' else field_ok)\<rparr>)"

definition validate_conference :: "string \<Rightarrow> user_type list \<Rightarrow> bool \<Rightarrow> bool \<times> form_errors" where
  "validate_conference name selected anyone =
     (name = [] \<or> (selected = [] \<and> \<not> anyone),
      \<lparr>err_name = (if name = [] then field_err ''Please Enter Meeting Name'' else field_ok),
       err_users = (if selected = [] \<and> \<not> anyone then field_err ''Please Select a User''
                    else field_ok)\<rparr>)"

subsection \<open>Creating a meeting\<close>

datatype write_error = UndefinedField string | ReadOfUndefined string | ReadOfNull string | MissingDocId
  | DocNotFound string

datatype create_outcome = FormInvalid form_errors | WriteFailed write_error | Created meeting string
  \<comment> \<open>\<open>Created\<close>: the document \<open>addDoc\<close> stores and the title of the success toast;
      the page then navigates to \<open>/\<close>\<close>

definition one_on_one_doc :: "js_uid \<Rightarrow> string \<Rightarrow> string \<Rightarrow> user_type list \<Rightarrow> date \<Rightarrow> write_error + meeting" where
  "one_on_one_doc u0 mid name selected start =
     (case js_nth selected 0 of
       None \<Rightarrow> Inl (ReadOfUndefined ''uid'')
     | Some first \<Rightarrow>
         (case u0 of
           None \<Rightarrow> Inl (UndefinedField ''createdBy'')
         | Some u \<Rightarrow> Inr \<lparr>docId = None, createdBy = u, invitedUsers = [user_uid first], maxUsers = 1,
             meetingDate = format_L start, meetingId = mid, meetingName = name,
             meetingType = OneOnOne, status = True\<rparr>))"

definition createMeeting_one_on_one ::
  "js_uid \<Rightarrow> string \<Rightarrow> string \<Rightarrow> user_type list \<Rightarrow> date \<Rightarrow> create_outcome" where
  "createMeeting_one_on_one u0 mid name selected start =
     (let (errors, shown) = validate_one_on_one name selected in
      if errors then FormInvalid shown
      else (case one_on_one_doc u0 mid name selected start of
              Inl e \<Rightarrow> WriteFailed e
            | Inr m \<Rightarrow> Created m ''One on One Meeting Created Successfully''))"

definition conference_doc ::
  "js_uid \<Rightarrow> string \<Rightarrow> string \<Rightarrow> user_type list \<Rightarrow> date \<Rightarrow> bool \<Rightarrow> int \<Rightarrow> write_error + meeting" where
  "conference_doc u0 mid name selected start anyone sz =
     (case u0 of
       None \<Rightarrow> Inl (UndefinedField ''createdBy'')
     | Some u \<Rightarrow> Inr \<lparr>docId = None, createdBy = u,
         invitedUsers = (if anyone then [] else map user_uid selected),
         maxUsers = (if anyone then 100 else sz),
         meetingDate = format_L start, meetingId = mid, meetingName = name,
         meetingType = (if anyone then AnyoneCanJoin else VideoConference), status = True\<rparr>)"

definition createMeeting_conference ::
  "js_uid \<Rightarrow> string \<Rightarrow> string \<Rightarrow> user_type list \<Rightarrow> date \<Rightarrow> bool \<Rightarrow> int \<Rightarrow> create_outcome" where
  "createMeeting_conference u0 mid name selected start anyone sz =
     (let (errors, shown) = validate_conference name selected anyone in
      if errors then FormInvalid shown
      else (case conference_doc u0 mid name selected start anyone sz of
              Inl e \<Rightarrow> WriteFailed e
            | Inr m \<Rightarrow> Created m (if anyone then ''Anyone can join meeting created successfully''
                                  else ''Video Conference created successfully.'')))"

text \<open>The capacity field's \<open>onChange\<close>; \<open>None\<close> is the empty input.\<close>

definition clamp_size :: "int option \<Rightarrow> int" where
  "clamp_size v = (case v of None \<Rightarrow> 1 | Some n \<Rightarrow> if n = 0 then 1 else if n > 50 then 50 else n)"

subsection \<open>The edit flyout\<close>

record edit_form =
  ef_name :: string
  ef_selected :: "user_type list"
  ef_start :: "date option"  \<comment> \<open>\<open>moment(meeting.meetingDate)\<close>; \<open>None\<close> is an invalid moment\<close>
  ef_size :: int
  ef_cancel :: bool
  ef_cleared :: bool  \<comment> \<open>\<open>startDate\<close> is \<open>null\<close>: the picker's input was emptied\<close>
  ef_invited :: "uid list"  \<comment> \<open>\<open>meeting.invitedUsers\<close> of the prop, which the effect reads\<close>

definition found_users :: "user_type list \<Rightarrow> uid list \<Rightarrow> user_type list" where
  "found_users users invited =
     concat (map (\<lambda>u. case find (\<lambda>t. user_uid t = u) users of None \<Rightarrow> [] | Some t \<Rightarrow> [t]) invited)"

definition edit_form_init :: "meeting \<Rightarrow> user_type list \<Rightarrow> edit_form" where
  "edit_form_init m users =
     \<lparr>ef_name = meetingName m, ef_selected = found_users users (invitedUsers m),
      ef_start = moment_parse (meetingDate m), ef_size = 1, ef_cancel = False,
      ef_cleared = False, ef_invited = invitedUsers m\<rparr>"
  \<comment> \<open>the state after the first render and its effect, which ran with the \<open>users\<close> of
      \<open>useFetchUsers\<close> at that time: \<open>[]\<close> on a freshly mounted flyout, whose fetched users
      arrive later as the event \<open>UsersLoaded\<close>\<close>

datatype edit_event = SetName string | SetUsers "user_type list" | SetDate date | ClearDate
  | SetSize "int option" | SetCancel bool | UsersLoaded "user_type list"
  \<comment> \<open>the inputs of the flyout and, last, a new \<open>users\<close> list of \<open>useFetchUsers\<close>\<close>

fun edit_form_step :: "edit_form \<Rightarrow> edit_event \<Rightarrow> edit_form" where
  "edit_form_step f (SetName n) = f\<lparr>ef_name := n\<rparr>"
| "edit_form_step f (SetUsers us) = f\<lparr>ef_selected := us\<rparr>"
| "edit_form_step f (SetDate d) = f\<lparr>ef_start := Some d, ef_cleared := False\<rparr>"
| "edit_form_step f ClearDate = f\<lparr>ef_cleared := True\<rparr>"
| "edit_form_step f (SetSize v) = f\<lparr>ef_size := clamp_size v\<rparr>"
| "edit_form_step f (SetCancel b) = f\<lparr>ef_cancel := b\<rparr>"
| "edit_form_step f (UsersLoaded us) = f\<lparr>ef_selected := found_users us (ef_invited f)\<rparr>"
  \<comment> \<open>the effect keyed on \<open>[users, meeting]\<close> re-runs and overwrites the selection\<close>

definition format_moment :: "date option \<Rightarrow> string" where
  "format_moment d = (case d of None \<Rightarrow> ''Invalid date'' | Some x \<Rightarrow> format_L x)"

definition editMeeting :: "meeting \<Rightarrow> edit_form \<Rightarrow> write_error + (string \<times> meeting)" where
  "editMeeting m f =
     (if ef_cleared f then Inl (ReadOfNull ''format'') else
      case docId m of
       None \<Rightarrow> Inl MissingDocId
     | Some i \<Rightarrow> Inr (i, m\<lparr>meetingName := ef_name f, invitedUsers := map user_uid (ef_selected f),
                           maxUsers := ef_size f, meetingDate := format_moment (ef_start f),
                           status := \<not> ef_cancel f, docId := None\<rparr>))"

subsection \<open>The store\<close>

definition add_doc :: "meetings_db \<Rightarrow> string \<Rightarrow> meeting \<Rightarrow> meetings_db" where
  "add_doc db i m = db @ [(i, m)]"

definition update_doc :: "meetings_db \<Rightarrow> string \<Rightarrow> meeting \<Rightarrow> meetings_db" where
  "update_doc db i m = map (\<lambda>(j, d). if j = i then (j, m) else (j, d)) db"

definition run_edit_form :: "edit_form \<Rightarrow> edit_event list \<Rightarrow> edit_form" where
  "run_edit_form f evs = foldl edit_form_step f evs"

fun picked_date :: "edit_event \<Rightarrow> date option" where
  "picked_date (SetDate d) = Some d"
| "picked_date _ = None"

definition picker_dates_valid :: "edit_event list \<Rightarrow> bool" where
  "picker_dates_valid evs \<longleftrightarrow> list_all (\<lambda>e. case picked_date e of None \<Rightarrow> True | Some d \<Rightarrow> valid_date d) evs"
  \<comment> \<open>the date picker only offers calendar dates\<close>

fun loaded_from :: "user_type list \<Rightarrow> edit_event \<Rightarrow> bool" where
  "loaded_from users (UsersLoaded us) = (us = users)"
| "loaded_from users _ = True"
  \<comment> \<open>the users \<open>useFetchUsers\<close> delivers are the directory \<open>users\<close>\<close>

text \<open>
  One write to the meetings collection. A creation happens with a date picked in the form
  and a fresh document id; an edit happens on a row whose edit button is enabled at the
  moment of the click, with the form state the flyout reached through its input events.
\<close>

inductive store_step :: "meetings_db \<Rightarrow> meetings_db \<Rightarrow> bool" where
  create_one_on_one:
    "valid_date start \<Longrightarrow> i \<notin> fst ` set db \<Longrightarrow>
     createMeeting_one_on_one u0 mid name selected start = Created m t \<Longrightarrow>
     store_step db (add_doc db i m)"
| create_conference:
    "valid_date start \<Longrightarrow> i \<notin> fst ` set db \<Longrightarrow>
     createMeeting_conference u0 mid name selected start anyone sz = Created m t \<Longrightarrow>
     store_step db (add_doc db i m)"
| edit:
    "(i, d) \<in> set db \<Longrightarrow> valid_clock now \<Longrightarrow> \<not> edit_disabled d now \<Longrightarrow> picker_dates_valid evs \<Longrightarrow>
     editMeeting (d\<lparr>docId := Some i\<rparr>) (run_edit_form (edit_form_init (d\<lparr>docId := Some i\<rparr>) users) evs)
       = Inr (i, d') \<Longrightarrow>
     store_step db (update_doc db i d')"

inductive reachable_store :: "meetings_db \<Rightarrow> bool" where
  empty: "reachable_store []"
| step: "reachable_store db \<Longrightarrow> store_step db db' \<Longrightarrow> reachable_store db'"

inductive_cases store_stepE: "store_step db db'"

subsection \<open>Fixtures\<close>

abbreviation invitee_u2 :: user_type where
  "invitee_u2 \<equiv> \<lparr>email = ''u2@example.org'', user_name = Some ''U2'', user_uid = ''U2'',
    label = Some ''U2''\<rparr>"

definition store_wf :: "meetings_db \<Rightarrow> bool" where
  "store_wf db \<longleftrightarrow> distinct (map fst db) \<and>
     list_all (\<lambda>(i, m). parse_L (meetingDate m) \<noteq> None \<and> docId m = None) db"

subsection \<open>Behaviour of creation, editing and the store\<close>

lemma createMeeting_one_on_one_Created:
  "createMeeting_one_on_one u0 mid name selected start = Created m t \<Longrightarrow>
   u0 = Some (createdBy m) \<and> meetingDate m = format_L start \<and> docId m = None \<and> status m
   \<and> meetingType m = OneOnOne \<and> invitedUsers m = [user_uid (hd selected)] \<and> maxUsers m = 1"
  by (auto simp: createMeeting_one_on_one_def validate_one_on_one_def one_on_one_doc_def
      split: if_splits option.splits sum.splits list.splits)

lemma createMeeting_conference_Created:
  "createMeeting_conference u0 mid name selected start anyone sz = Created m t \<Longrightarrow>
   u0 = Some (createdBy m) \<and> meetingDate m = format_L start \<and> docId m = None \<and> status m
   \<and> meetingType m \<noteq> OneOnOne
   \<and> (anyone \<longrightarrow> meetingType m = AnyoneCanJoin \<and> invitedUsers m = [] \<and> maxUsers m = 100)
   \<and> (\<not> anyone \<longrightarrow> meetingType m = VideoConference \<and> invitedUsers m = map user_uid selected \<and> maxUsers m = sz)"
  by (auto simp: createMeeting_conference_def validate_conference_def conference_doc_def
      split: if_splits option.splits sum.splits)

lemma run_edit_form_start:
  "picker_dates_valid evs \<Longrightarrow> ef_start f = Some x \<Longrightarrow> valid_date x \<Longrightarrow>
   \<exists>y. ef_start (run_edit_form f evs) = Some y \<and> valid_date y"
proof (induction evs arbitrary: f x)
  case Nil
  then show ?case by (simp add: run_edit_form_def)
next
  case (Cons e evs)
  have "picker_dates_valid evs" using Cons.prems(1) by (simp add: picker_dates_valid_def)
  moreover have "\<exists>z. ef_start (edit_form_step f e) = Some z \<and> valid_date z"
    using Cons.prems by (cases e) (auto simp: picker_dates_valid_def)
  ultimately obtain z where "ef_start (edit_form_step f e) = Some z" "valid_date z"
    "picker_dates_valid evs" by blast
  from Cons.IH [OF this(3,1,2)] show ?case by (simp add: run_edit_form_def)
qed

lemma run_edit_form_size:
  "list_all (\<lambda>e. \<forall>v. e \<noteq> SetSize v) evs \<Longrightarrow> ef_size (run_edit_form f evs) = ef_size f"
proof (induction evs arbitrary: f)
  case Nil
  then show ?case by (simp add: run_edit_form_def)
next
  case (Cons e evs)
  then have "ef_size (run_edit_form (edit_form_step f e) evs) = ef_size (edit_form_step f e)" by simp
  moreover have "ef_size (edit_form_step f e) = ef_size f" using Cons.prems by (cases e) auto
  ultimately show ?case by (simp add: run_edit_form_def)
qed

lemma editMeeting_Inr:
  "editMeeting m f = Inr (i, m') \<Longrightarrow>
   \<not> ef_cleared f \<and> docId m = Some i \<and> m' = m\<lparr>meetingName := ef_name f, invitedUsers := map user_uid (ef_selected f),
      maxUsers := ef_size f, meetingDate := format_moment (ef_start f), status := \<not> ef_cancel f, docId := None\<rparr>"
  by (auto simp: editMeeting_def split: option.splits if_splits)

lemma mem_update_doc:
  "(i, x) \<in> set (update_doc db j d') \<longleftrightarrow> (i \<noteq> j \<and> (i, x) \<in> set db) \<or> (i = j \<and> x = d' \<and> j \<in> fst ` set db)"
  by (auto simp: update_doc_def split: if_splits) force+

lemma map_fst_update_doc [simp]: "map fst (update_doc db j d') = map fst db"
  by (induction db) (auto simp: update_doc_def)

lemma store_step_wf: "store_step db db' \<Longrightarrow> store_wf db \<Longrightarrow> store_wf db'"
proof (induction rule: store_step.induct)
  case (create_one_on_one start i db u0 mid name selected m t)
  then show ?case
    using createMeeting_one_on_one_Created [OF create_one_on_one.hyps(3)]
    by (auto simp: store_wf_def add_doc_def parse_format_L)
next
  case (create_conference start i db u0 mid name selected anyone sz m t)
  then show ?case
    using createMeeting_conference_Created [OF create_conference.hyps(3)]
    by (auto simp: store_wf_def add_doc_def parse_format_L)
next
  case (edit i d db now evs users d')
  from edit.prems edit.hyps(1) obtain x where x: "parse_L (meetingDate d) = Some x"
    by (auto simp: store_wf_def list_all_iff)
  then have "valid_date x" using format_parse_L by blast
  with x edit.hyps(4) obtain y where y: "ef_start (run_edit_form (edit_form_init (d\<lparr>docId := Some i\<rparr>) users) evs) = Some y"
      and vy: "valid_date y"
    using run_edit_form_start [of evs "edit_form_init (d\<lparr>docId := Some i\<rparr>) users" x]
    by (auto simp: edit_form_init_def parse_L_moment_parse)
  from editMeeting_Inr [OF edit.hyps(5)] y vy have "parse_L (meetingDate d') \<noteq> None \<and> docId d' = None"
    by (simp add: format_moment_def parse_format_L)
  with edit.prems show ?case
    by (auto simp: store_wf_def list_all_iff mem_update_doc)
qed

lemma reachable_store_wf: "reachable_store db \<Longrightarrow> store_wf db"
proof (induction rule: reachable_store.induct)
  case empty
  then show ?case by (simp add: store_wf_def)
next
  case (step db db')
  then show ?case by (blast intro: store_step_wf)
qed


lemma edit_enabled_status: "\<not> edit_disabled d now \<Longrightarrow> status d"
  by (simp add: edit_disabled_def)

lemma store_step_keys: "store_step db db' \<Longrightarrow> fst ` set db \<subseteq> fst ` set db'"
proof (induction rule: store_step.induct)
  case (edit i d db now evs users d')
  have "fst ` set (update_doc db i d') = fst ` set db" by (metis map_fst_update_doc set_map)
  then show ?case by simp
qed (auto simp: add_doc_def)

lemma reachable_steps: "store_step\<^sup>*\<^sup>* db db' \<Longrightarrow> reachable_store db \<Longrightarrow> reachable_store db'"
  by (induction rule: rtranclp_induct) (auto intro: reachable_store.step)

lemma add_doc_old:
  "(i, x) \<in> set (add_doc db j n) \<Longrightarrow> i \<in> fst ` set db \<Longrightarrow> j \<notin> fst ` set db \<Longrightarrow> (i, x) \<in> set db"
  by (auto simp: add_doc_def)

lemma store_step_cancelled:
  assumes "store_step db db'" and "store_wf db"
    and "(i, m) \<in> set db" and "\<not> status m" and "(i, m') \<in> set db'"
  shows "\<not> status m'"
  using assms
proof (induction rule: store_step.induct)
  case (create_one_on_one start j db u0 mid name selected n t)
  have dist: "distinct (map fst db)" using create_one_on_one.prems(1) by (simp add: store_wf_def)
  have "(i, m') \<in> set db"
    using add_doc_old create_one_on_one.prems(2,4) create_one_on_one.hyps(2) by force
  with create_one_on_one.prems(2) dist have "m' = m" by (metis eq_key_imp_eq_value)
  with create_one_on_one.prems(3) show ?case by simp
next
  case (create_conference start j db u0 mid name selected anyone sz n t)
  have dist: "distinct (map fst db)" using create_conference.prems(1) by (simp add: store_wf_def)
  have "(i, m') \<in> set db"
    using add_doc_old create_conference.prems(2,4) create_conference.hyps(2) by force
  with create_conference.prems(2) dist have "m' = m" by (metis eq_key_imp_eq_value)
  with create_conference.prems(3) show ?case by simp
next
  case (edit j d db now evs users d')
  have dist: "distinct (map fst db)" using edit.prems(1) by (simp add: store_wf_def)
  show ?case
  proof (cases "i = j")
    case True
    with edit.hyps(1) edit.prems(2) dist have "d = m" by (metis eq_key_imp_eq_value)
    with edit.hyps(3) edit.prems(3) have False by (simp add: edit_disabled_def)
    then show ?thesis ..
  next
    case False
    with edit.prems(4) have "(i, m') \<in> set db" by (simp add: mem_update_doc)
    with edit.prems(2) dist have "m' = m" by (metis eq_key_imp_eq_value)
    with edit.prems(3) show ?thesis by simp
  qed
qed

lemma scenario_created:
  "createMeeting_one_on_one (Some ''U1'') ''k3Xz9QaB'' ''Review'' [invitee_u2] (Date 2024 3 15)
     = Created scenario_meeting ''One on One Meeting Created Successfully''"
  by (simp add: createMeeting_one_on_one_def validate_one_on_one_def one_on_one_doc_def scenario_dates)

lemma scenario_reachable: "reachable_store [(''d1'', scenario_meeting)]"
proof -
  have "store_step [] (add_doc [] ''d1'' scenario_meeting)"
    by (rule store_step.create_one_on_one [OF _ _ scenario_created])
      (simp_all add: valid_date_def days_in_month_def)
  then show ?thesis by (auto simp: add_doc_def intro: reachable_store.intros)
qed

lemma scenario_edit_enabled: "\<not> edit_disabled scenario_meeting scenario_clock"
  using before_today_iff [OF scenario_clock_valid, of "''03/15/2024''" "Date 2024 3 15"]
  by (simp add: edit_disabled_def scenario_dates)

abbreviation emptied_meeting :: meeting where
  "emptied_meeting \<equiv> scenario_meeting\<lparr>invitedUsers := [], meetingDate := format_L (Date 2024 3 15)\<rparr>"

lemma emptied_reachable: "reachable_store [(''d1'', emptied_meeting)]"
proof -
  let ?f = "run_edit_form (edit_form_init (scenario_meeting\<lparr>docId := Some ''d1''\<rparr>) []) []"
  have e: "editMeeting (scenario_meeting\<lparr>docId := Some ''d1''\<rparr>) ?f = Inr (''d1'', emptied_meeting)"
    by (simp add: editMeeting_def run_edit_form_def edit_form_init_def found_users_def
        format_moment_def scenario_dates scenario_moment)
  have "store_step [(''d1'', scenario_meeting)] (update_doc [(''d1'', scenario_meeting)] ''d1'' emptied_meeting)"
    by (rule store_step.edit [OF _ scenario_clock_valid scenario_edit_enabled _ e])
      (simp_all add: picker_dates_valid_def)
  with scenario_reachable show ?thesis
    by (auto simp: update_doc_def intro: reachable_store.step)
qed

text \<open>
  C26. The 1-on-1 invariant (exactly one invitee) is not an invariant of the store: the
  edit flyout rebuilds the invite list from the user directory, which is empty until
  \<open>useFetchUsers\<close> has answered, and \<open>editMeeting\<close> validates nothing; a reachable
  store holds an active 1-on-1 meeting with no invitee.
\<close>

theorem edit_empties_one_on_one:
  "\<exists>db i m. reachable_store db \<and> (i, m) \<in> set db \<and> meetingType m = OneOnOne
     \<and> invitedUsers m = [] \<and> status m"
  using emptied_reachable by force


text \<open>
  A successful creation writes an active document created by the signed-in user,
  dated with the picked day in the canonical format, and satisfying the invitation
  invariant: a 1-on-1 meeting has exactly the one selected invitee.
\<close>

theorem created_meeting_wf:
  assumes "createMeeting_one_on_one u0 mid name selected start = Created m t" and "valid_date start"
  shows "status m \<and> invite_wf m \<and> parse_L (meetingDate m) = Some start \<and> u0 = Some (createdBy m)
    \<and> invitedUsers m = [user_uid (hd selected)]"
  using createMeeting_one_on_one_Created [OF assms(1)] assms(2)
  by (simp add: invite_wf_def parse_format_L)

theorem created_meeting_wf_witness:
  "status scenario_meeting \<and> invite_wf scenario_meeting
   \<and> parse_L (meetingDate scenario_meeting) = Some (Date 2024 3 15)
   \<and> Some ''U1'' = Some (createdBy scenario_meeting)
   \<and> invitedUsers scenario_meeting = [user_uid (hd [invitee_u2])]"
  by (rule created_meeting_wf [OF scenario_created]) (simp add: valid_date_def days_in_month_def)

text \<open>
  Creating an anyone-can-join meeting ignores the "Maximum People" field, the only
  place the form shows it: the document always gets capacity 100 and no invitees.
\<close>

theorem open_meeting_capacity_fixed:
  "createMeeting_conference u0 mid name selected start True sz = Created m t \<Longrightarrow>
   maxUsers m = 100 \<and> invitedUsers m = [] \<and> meetingType m = AnyoneCanJoin"
  using createMeeting_conference_Created [of u0 mid name selected start True sz m t] by simp

theorem open_meeting_capacity_fixed_witness:
  "maxUsers (scenario_meeting\<lparr>invitedUsers := [], maxUsers := 100, meetingType := AnyoneCanJoin\<rparr>) = 100
   \<and> invitedUsers (scenario_meeting\<lparr>invitedUsers := [], maxUsers := 100, meetingType := AnyoneCanJoin\<rparr>) = []
   \<and> meetingType (scenario_meeting\<lparr>invitedUsers := [], maxUsers := 100, meetingType := AnyoneCanJoin\<rparr>) = AnyoneCanJoin"
  by (rule open_meeting_capacity_fixed [of "Some ''U1''" "''k3Xz9QaB''" "''Review''" "[]" "Date 2024 3 15" 30
        _ "''Anyone can join meeting created successfully''"])
    (simp add: createMeeting_conference_def validate_conference_def conference_doc_def scenario_dates)

text \<open>
  C28. Saving the edit flyout without touching the capacity field sets the capacity to 1,
  whatever it was: the flyout's \<open>size\<close> starts at 1, not at \<open>meeting.maxUsers\<close>, and the
  field is shown only for anyone-can-join meetings.
\<close>

theorem edit_resets_capacity:
  assumes "editMeeting m (run_edit_form (edit_form_init m users) evs) = Inr (i, m')"
    and "list_all (\<lambda>e. \<forall>v. e \<noteq> SetSize v) evs"
  shows "maxUsers m' = 1"
  using editMeeting_Inr [OF assms(1)] run_edit_form_size [OF assms(2)] by (simp add: edit_form_init_def)

theorem edit_resets_capacity_witness:
  "maxUsers (scenario_meeting\<lparr>maxUsers := 1, meetingDate := format_L (Date 2024 3 15), status := False\<rparr>) = 1"
proof -
  let ?m = "scenario_meeting\<lparr>docId := Some ''d1'', maxUsers := 100\<rparr>"
  have "editMeeting ?m (run_edit_form (edit_form_init ?m [invitee_u2]) [SetCancel True])
      = Inr (''d1'', scenario_meeting\<lparr>maxUsers := 1, meetingDate := format_L (Date 2024 3 15), status := False\<rparr>)"
    by (simp add: editMeeting_def run_edit_form_def edit_form_init_def found_users_def
        format_moment_def scenario_dates scenario_moment)
  then show ?thesis by (rule edit_resets_capacity) simp
qed

text \<open>
  The capacity field never yields more than 50 nor 0, but its lower bound holds
  only for non-negative input: a negative number typed into the field is stored as is
  (the \<open>min={1}\<close> attribute does not constrain \<open>onChange\<close>).
\<close>

theorem clamp_size_bounds:
  "clamp_size v \<le> 50 \<and> clamp_size v \<noteq> 0 \<and> (clamp_size v < 1 \<longleftrightarrow> (\<exists>n. v = Some n \<and> n < 0))"
  by (auto simp: clamp_size_def split: option.splits)

end
