(* ===== verification/Users.thy ===== *)
theory Users
  imports Join "HOL-Library.Char_ord" "HOL-Library.List_Lexorder" "HOL-Library.Multiset"
begin

text \<open>The signed-in user. This theory holds the \<open>auth\<close> slice of the Redux store
  (\<open>app/slices/AuthSlice.ts\<close>), the \<open>useAuth\<close> listener that every authenticated page runs
  (\<open>hooks/useAuth.tsx\<close>), the sign-in flow of \<open>pages/Login.tsx\<close> with the \<open>users\<close>
  collection it registers accounts in, and \<open>hooks/useFetchUsers.tsx\<close>, the user directory
  the creation forms and the edit flyout offer. The sign-in is split into its read
  (the query for the account's document) and its write, so that two sign-ins of one
  account (two tabs) can be interleaved.\<close>

section \<open>The auth slice\<close>

record auth_user =
  au_uid :: uid
  au_email :: "string option"
  au_name :: "string option"

record auth_slice =
  userInfo :: "auth_user option"
  isDarkTheme :: bool

definition auth_initial :: auth_slice where
  "auth_initial = \<lparr>userInfo = None, isDarkTheme = False\<rparr>"

definition changeTheme :: "bool \<Rightarrow> auth_slice \<Rightarrow> auth_slice" where
  "changeTheme b s = s\<lparr>isDarkTheme := b\<rparr>"

definition setUser :: "auth_user \<Rightarrow> auth_slice \<Rightarrow> auth_slice" where
  "setUser u s = s\<lparr>userInfo := Some u\<rparr>"

definition slice_uid :: "auth_slice \<Rightarrow> js_uid" where
  "slice_uid s = map_option au_uid (userInfo s)"
  \<comment> \<open>\<open>zoomApp.auth.userInfo?.uid\<close>\<close>

section \<open>\<open>useAuth\<close>\<close>

definition auth_user_of :: "fb_user \<Rightarrow> auth_user" where
  "auth_user_of cu = \<lparr>au_uid = fb_uid cu, au_email = fb_email cu, au_name = displayName cu\<rparr>"
  \<comment> \<open>\<open>{uid: currentUser.uid, email: currentUser.email!, name: currentUser.displayName!}\<close>:
      the non-null assertions are erased, a null email or name is stored as it is\<close>

definition useAuth_listener :: "fb_user option \<Rightarrow> auth_slice \<Rightarrow> auth_slice \<times> join_action list" where
  "useAuth_listener cu s = (case cu of
       None \<Rightarrow> (s, [Navigate ''/login''])
     | Some u \<Rightarrow> (setUser (auth_user_of u) s, []))"

section \<open>The \<open>users\<close> collection and the sign-in of \<open>Login.tsx\<close>\<close>

type_synonym users_db = "(string \<times> user_type) list"
  \<comment> \<open>document id and data, in insertion order\<close>

definition users_with_uid :: "users_db \<Rightarrow> uid \<Rightarrow> (string \<times> user_type) list" where
  "users_with_uid db u = filter (\<lambda>(_, d). user_uid d = u) db"
  \<comment> \<open>\<open>getDocs(query(usersRef, where("uid", "==", uid)))\<close>\<close>

definition users_wf :: "users_db \<Rightarrow> bool" where
  "users_wf db = (distinct (map fst db) \<and> distinct (map (user_uid \<circ> snd) db))"

definition user_doc :: "fb_user \<Rightarrow> string \<Rightarrow> user_type" where
  "user_doc cu e = \<lparr>email = e, user_name = displayName cu, user_uid = fb_uid cu, label = None\<rparr>"
  \<comment> \<open>\<open>addDoc(collection(firebaseDB, "users"), {uid, name: displayName, email})\<close>\<close>

definition login_listener :: "fb_user option \<Rightarrow> join_action list" where
  "login_listener cu = (if cu \<noteq> None then [Navigate ''/''] else [])"

definition login_query :: "users_db \<Rightarrow> fb_user \<Rightarrow> (string \<times> bool) option" where
  "login_query db cu = (case fb_email cu of
       None \<Rightarrow> None
     | Some e \<Rightarrow> if e = [] then None else Some (e, users_with_uid db (fb_uid cu) = []))"
  \<comment> \<open>\<open>if (email)\<close> and the query; \<open>Some (e, True)\<close> when no document was found\<close>

definition login_finish ::
  "users_db \<Rightarrow> fb_user \<Rightarrow> string \<times> bool \<Rightarrow> string \<Rightarrow> auth_slice \<Rightarrow> users_db \<times> auth_slice \<times> join_action list" where
  "login_finish db cu q i s = (case q of (e, absent) \<Rightarrow>
     ((if absent then db @ [(i, user_doc cu e)] else db),
      setUser \<lparr>au_uid = fb_uid cu, au_email = Some e, au_name = displayName cu\<rparr> s,
      [Navigate ''/'']))"
  \<comment> \<open>the write of the missing document under the fresh id \<open>i\<close>, \<open>setUser\<close>, \<open>navigate("/")\<close>\<close>

definition login :: "users_db \<Rightarrow> fb_user \<Rightarrow> string \<Rightarrow> auth_slice \<Rightarrow> users_db \<times> auth_slice \<times> join_action list" where
  "login db cu i s = (case login_query db cu of
       None \<Rightarrow> (db, s, [])
     | Some q \<Rightarrow> login_finish db cu q i s)"

section \<open>\<open>useFetchUsers\<close>\<close>

definition fetch_users :: "users_db \<Rightarrow> js_uid \<Rightarrow> user_type list \<Rightarrow> user_type list" where
  "fetch_users db uid old = (case uid of
       None \<Rightarrow> old
     | Some u \<Rightarrow> if u = [] then old else
         map (\<lambda>(_, d). d\<lparr>label := user_name d\<rparr>)
           (sort_key (\<lambda>(i, d). (user_uid d, i)) (filter (\<lambda>(_, d). user_uid d \<noteq> u) db)))"
  \<comment> \<open>\<open>query(usersRef, where("uid", "!=", uid))\<close>: Firestore orders the result of an
      inequality filter by the filtered field, ties by document id\<close>

text \<open>A collection of three registered accounts and a Google account signing in.\<close>

abbreviation demo_users :: users_db where
  "demo_users \<equiv>
     [(''d1'', \<lparr>email = ''u1@example.org'', user_name = Some ''Ann'', user_uid = ''U1'', label = None\<rparr>),
      (''d2'', \<lparr>email = ''u3@example.org'', user_name = None, user_uid = ''U3'', label = None\<rparr>),
      (''d3'', \<lparr>email = ''u2@example.org'', user_name = Some ''Cy'', user_uid = ''U2'', label = None\<rparr>)]"

abbreviation google_user :: "uid \<Rightarrow> string option \<Rightarrow> fb_user" where
  "google_user u e \<equiv> \<lparr>fb_uid = u, displayName = Some ''Bob'', fb_email = e\<rparr>"

section \<open>Lemmas\<close>

lemma map_uid_relabel [simp]:
  "map user_uid (map (\<lambda>(_, d). d\<lparr>label := user_name d\<rparr>) xs) = map (user_uid \<circ> snd) xs"
  by (induction xs) auto

lemma sorted_key_fst:
  "sorted (map f xs) \<Longrightarrow> sorted (map (fst \<circ> f) xs)"
  by (induction xs) (auto simp: less_eq_prod_def)

lemma fetch_users_Some:
  "u \<noteq> [] \<Longrightarrow> fetch_users db (Some u) old =
     map (\<lambda>(_, d). d\<lparr>label := user_name d\<rparr>)
       (sort_key (\<lambda>(i, d). (user_uid d, i)) (filter (\<lambda>(_, d). user_uid d \<noteq> u) db))"
  by (simp add: fetch_users_def)

lemma login_query_Some:
  "login_query db cu = Some q \<longleftrightarrow>
     (\<exists>e. fb_email cu = Some e \<and> e \<noteq> [] \<and> q = (e, users_with_uid db (fb_uid cu) = []))"
  by (auto simp: login_query_def split: option.splits)

lemma users_with_uid_Nil:
  "users_with_uid db u = [] \<longleftrightarrow> u \<notin> set (map (user_uid \<circ> snd) db)"
  by (force simp: users_with_uid_def filter_empty_conv)

lemma uids_fetch_users:
  "set (map user_uid (fetch_users db uid [])) \<subseteq> set (map (user_uid \<circ> snd) db)"
proof (cases "\<exists>u. uid = Some u \<and> u \<noteq> []")
  case True
  then obtain u where "uid = Some u" "u \<noteq> []" by blast
  then show ?thesis
    by (auto simp: fetch_users_Some intro: rev_image_eqI)
next
  case False
  then show ?thesis by (cases uid) (auto simp: fetch_users_def)
qed

lemma login_finish_db:
  "fst (login_finish db cu (e, b) i s) = (if b then db @ [(i, user_doc cu e)] else db)"
  by (simp add: login_finish_def)

text \<open>The directory of \<open>useFetchUsers\<close>, for a signed-in user, holds every
  registered account except the user's own, as often as the collection holds it, sorted
  by uid, each labelled with its name.\<close>

theorem fetch_users_directory:
  assumes "u \<noteq> []"
  shows "mset (map user_uid (fetch_users db (Some u) old)) =
           filter_mset (\<lambda>v. v \<noteq> u) (mset (map (user_uid \<circ> snd) db))
     \<and> sorted (map user_uid (fetch_users db (Some u) old))
     \<and> (\<forall>d \<in> set (fetch_users db (Some u) old). label d = user_name d)"
proof (intro conjI)
  let ?xs = "sort_key (\<lambda>(i, d). (user_uid d, i)) (filter (\<lambda>(_, d). user_uid d \<noteq> u) db)"
  have eq: "fetch_users db (Some u) old = map (\<lambda>(_, d). d\<lparr>label := user_name d\<rparr>) ?xs"
    using assms by (rule fetch_users_Some)
  have "mset (map user_uid (fetch_users db (Some u) old)) =
          image_mset (user_uid \<circ> snd) (mset (filter (\<lambda>(_, d). user_uid d \<noteq> u) db))"
    unfolding eq by (simp only: map_uid_relabel mset_map mset_sort)
  also have "\<dots> = filter_mset (\<lambda>v. v \<noteq> u) (image_mset (user_uid \<circ> snd) (mset db))"
    by (induction db) auto
  finally show "mset (map user_uid (fetch_users db (Some u) old)) =
          filter_mset (\<lambda>v. v \<noteq> u) (mset (map (user_uid \<circ> snd) db))"
    by (simp only: mset_map)
  have "sorted (map (\<lambda>(i, d). (user_uid d, i)) ?xs)" by (rule sorted_sort_key)
  then have "sorted (map (fst \<circ> (\<lambda>(i, d). (user_uid d, i))) ?xs)" by (rule sorted_key_fst)
  moreover have "fst \<circ> (\<lambda>(i, d). (user_uid d, i)) = user_uid \<circ> snd" by (auto simp: fun_eq_iff)
  ultimately have "sorted (map (user_uid \<circ> snd) ?xs)" by metis
  then show "sorted (map user_uid (fetch_users db (Some u) old))"
    unfolding eq by (simp only: map_uid_relabel)
  show "\<forall>d \<in> set (fetch_users db (Some u) old). label d = user_name d"
    unfolding eq by auto
qed

lemma login_users_wf:
  assumes "users_wf db" and "i \<notin> fst ` set db"
  shows "users_wf (fst (login db cu i s))"
proof (cases "login_query db cu")
  case None
  then show ?thesis using assms(1) by (simp add: login_def)
next
  case (Some q)
  then obtain e where q: "q = (e, users_with_uid db (fb_uid cu) = [])"
    by (auto simp: login_query_Some)
  show ?thesis
    using assms Some
    by (auto simp: login_def q login_finish_db users_wf_def users_with_uid_Nil user_doc_def)
qed

text \<open>Signing in one account after another keeps the \<open>users\<close> collection free of
  duplicate accounts: a document is written only when the query found none.\<close>

theorem login_keeps_users_unique:
  assumes "users_wf db" and "i \<notin> fst ` set db"
  shows "users_wf (fst (login db cu i s))"
  using assms by (rule login_users_wf)

text \<open>Two sign-ins of a new account whose queries both run before either write
  (two tabs) register the account twice.\<close>

theorem interleaved_logins_duplicate:
  assumes "login_query db cu = Some (e, True)"
  shows "length (users_with_uid (fst (login_finish (fst (login_finish db cu (e, True) i1 s))
            cu (e, True) i2 s')) (fb_uid cu)) = 2"
proof -
  have "users_with_uid db (fb_uid cu) = []"
    using assms by (auto simp: login_query_Some)
  then show ?thesis
    by (simp add: login_finish_db users_with_uid_def user_doc_def)
qed

lemma sequential_logins_single:
  assumes "login_query db cu = Some (e, True)"
  shows "length (users_with_uid (fst (login (fst (login db cu i1 s)) cu i2 s')) (fb_uid cu)) = 1"
proof -
  have none: "users_with_uid db (fb_uid cu) = []" and em: "fb_email cu = Some e" "e \<noteq> []"
    using assms by (auto simp: login_query_Some)
  have one: "users_with_uid (db @ [(i1, user_doc cu e)]) (fb_uid cu) = [(i1, user_doc cu e)]"
    using none by (simp add: users_with_uid_def user_doc_def)
  show ?thesis
    using assms em by (simp add: login_def login_finish_db login_query_def one)
qed

text \<open>An account without an email is signed in (the listener of \<open>Login.tsx\<close> moves it
  to the dashboard, whose \<open>useAuth\<close> stores it in the auth slice) but the sign-in writes
  nothing: the account is in no other user's directory and cannot be invited.\<close>

theorem emailless_account_unlisted:
  assumes "fb_email cu = None" and "users_with_uid db (fb_uid cu) = []"
  shows "login db cu i s = (db, s, [])
     \<and> login_listener (Some cu) = [Navigate ''/'']
     \<and> userInfo (fst (useAuth_listener (Some cu) s')) = Some (auth_user_of cu)
     \<and> fb_uid cu \<notin> user_uid ` set (fetch_users db v [])"
proof -
  have "fb_uid cu \<notin> user_uid ` set (fetch_users db v [])"
    using assms(2) uids_fetch_users [of db v] by (auto simp: users_with_uid_Nil)
  then show ?thesis
    using assms(1)
    by (simp add: login_def login_query_def login_listener_def useAuth_listener_def setUser_def)
qed

theorem fetch_users_directory_witness:
  "mset (map user_uid (fetch_users demo_users (Some ''U1'') [])) = {#''U2'', ''U3''#}
   \<and> sorted (map user_uid (fetch_users demo_users (Some ''U1'') []))
   \<and> map label (fetch_users demo_users (Some ''U1'') []) = [Some ''Cy'', None]"
proof -
  have "mset (map user_uid (fetch_users demo_users (Some ''U1'') [])) =
          filter_mset (\<lambda>v. v \<noteq> ''U1'') (mset (map (user_uid \<circ> snd) demo_users))
     \<and> sorted (map user_uid (fetch_users demo_users (Some ''U1'') []))"
    using fetch_users_directory [of "''U1''" demo_users "[]"] by simp
  moreover have "map label (fetch_users demo_users (Some ''U1'') []) = [Some ''Cy'', None]"
    by code_simp
  ultimately show ?thesis by simp
qed

theorem login_keeps_users_unique_witness:
  "users_wf (fst (login demo_users (google_user ''U4'' (Some ''bob@example.org'')) ''d4'' auth_initial))"
  using login_keeps_users_unique [of demo_users "''d4''" "google_user ''U4'' (Some ''bob@example.org'')" auth_initial]
  by (simp add: users_wf_def)

theorem interleaved_logins_duplicate_witness:
  "login_query demo_users (google_user ''U4'' (Some ''bob@example.org'')) = Some (''bob@example.org'', True)
   \<and> length (users_with_uid
        (fst (login_finish (fst (login_finish demo_users (google_user ''U4'' (Some ''bob@example.org''))
             (''bob@example.org'', True) ''d4'' auth_initial))
           (google_user ''U4'' (Some ''bob@example.org'')) (''bob@example.org'', True) ''d5'' auth_initial))
        ''U4'') = 2"
proof -
  have q: "login_query demo_users (google_user ''U4'' (Some ''bob@example.org'')) = Some (''bob@example.org'', True)"
    by (simp add: login_query_def users_with_uid_def)
  show ?thesis
    using q interleaved_logins_duplicate [OF q, of "''d4''" auth_initial "''d5''" auth_initial] by simp
qed

theorem emailless_account_unlisted_witness:
  "login demo_users (google_user ''U4'' None) ''d4'' auth_initial = (demo_users, auth_initial, [])
   \<and> login_listener (Some (google_user ''U4'' None)) = [Navigate ''/'']
   \<and> userInfo (fst (useAuth_listener (Some (google_user ''U4'' None)) auth_initial)) =
       Some (auth_user_of (google_user ''U4'' None))
   \<and> ''U4'' \<notin> user_uid ` set (fetch_users demo_users (Some ''U1'') [])"
proof -
  have "users_with_uid demo_users ''U4'' = []" by (simp add: users_with_uid_def)
  then show ?thesis
    using emailless_account_unlisted [of "google_user ''U4'' None" demo_users "''d4''" auth_initial
        auth_initial "Some ''U1''"] by simp
qed

end
