(* ===== verification/Navigation.thy ===== *)
theory Navigation
  imports Users
begin

text \<open>Navigation and theme. This theory holds the route table of \<open>App.tsx\<close> under React
  Router's matching rules, the breadcrumb lists of \<open>utils/breadcrumbs.ts\<close>, the
  \<open>Header\<close> component (\<open>components/Header.tsx\<close>: its breadcrumb effect, its sections, the
  theme button), and the theme of a page load: the two effects of \<open>App.tsx\<close>, the effect of
  \<open>components/ThemeSelector.tsx\<close> and the reload that follows \<open>invertTheme\<close>.\<close>

section \<open>Routes\<close>

datatype page = LoginPage | CreateMeetingPage | OneOnOneMeetingPage | VideoConferencePage
  | MyMeetingsPage | JoinMeetingPage string | MeetingPage | DashboardPage

definition lower_char :: "char \<Rightarrow> char" where
  "lower_char c = (if 65 \<le> (of_char c :: nat) \<and> (of_char c :: nat) \<le> 90
                   then char_of ((of_char c :: nat) + 32) else c)"

definition rstrip_slash :: "string \<Rightarrow> string" where
  "rstrip_slash p = rev (dropWhile (\<lambda>c. c = CHR ''/'') (rev p))"

definition route_matches :: "string \<Rightarrow> string \<Rightarrow> bool" where
  "route_matches pat p =
     (if pat = ''/'' then p \<noteq> [] \<and> rstrip_slash p = []
      else map lower_char (rstrip_slash p) = pat)"
  \<comment> \<open>React Router compiles a static path \<open>pat\<close> to \<open>^pat\/*$\<close> with the flag \<open>i\<close>\<close>

definition join_param :: "string \<Rightarrow> string option" where
  "join_param p = (let q = rstrip_slash p; mid = drop 6 q in
     if map lower_char (take 6 q) = ''/join/'' \<and> mid \<noteq> [] \<and> CHR ''/'' \<notin> set mid
     then Some mid else None)"
  \<comment> \<open>\<open>/join/:id\<close> compiles to \<open>^\/join\/([^\/]+)\/*$\<close>\<close>

definition route :: "string \<Rightarrow> page" where
  "route p =
     (if route_matches ''/login'' p then LoginPage
      else if route_matches ''/create'' p then CreateMeetingPage
      else if route_matches ''/create1on1'' p then OneOnOneMeetingPage
      else if route_matches ''/videoconference'' p then VideoConferencePage
      else if route_matches ''/mymeetings'' p then MyMeetingsPage
      else (case join_param p of Some mid \<Rightarrow> JoinMeetingPage mid | None \<Rightarrow>
            if route_matches ''/meetings'' p then MeetingPage
            else if route_matches ''/'' p then DashboardPage
            else LoginPage))"
  \<comment> \<open>the \<open><Routes>\<close> of \<open>App\<close>; the patterns are disjoint, so React Router's ranking
      reduces to this order, with \<open>*\<close> last\<close>

section \<open>Breadcrumbs\<close>

record bread_crumb =
  crumb_text :: string
  href :: "string option"
  onClick :: "string option"
  \<comment> \<open>\<open>BreadCrumbsType\<close>; an \<open>onClick\<close> is the path it passes to \<open>navigate\<close>\<close>

definition crumb :: "string \<Rightarrow> bread_crumb" where
  "crumb t = \<lparr>crumb_text = t, href = None, onClick = None\<rparr>"

definition link_crumb :: "string \<Rightarrow> string \<Rightarrow> bread_crumb" where
  "link_crumb t p = \<lparr>crumb_text = t, href = Some ''#'', onClick = Some p\<rparr>"

definition getDashboardBreadCrumbs :: "bread_crumb list" where
  "getDashboardBreadCrumbs = [crumb ''Dashboard'']"

definition getCreateMeetingBreadCrumbs :: "bread_crumb list" where
  "getCreateMeetingBreadCrumbs = [link_crumb ''Dashboard'' ''/'', crumb ''Create Meeting'']"

definition getOneOnOneMeetingBreadCrumbs :: "bread_crumb list" where
  "getOneOnOneMeetingBreadCrumbs =
     [link_crumb ''Dashboard'' ''/'', link_crumb ''Create Meeting'' ''/create'',
      crumb ''Create 1 on 1 Meeting'']"

definition getVideoConferenceBreadCrumbs :: "bread_crumb list" where
  "getVideoConferenceBreadCrumbs =
     [link_crumb ''Dashboard'' ''/'', link_crumb ''Create Meeting'' ''/create'',
      crumb ''Create Video Conference'']"

definition getMyMeetingsBreadCrumbs :: "bread_crumb list" where
  "getMyMeetingsBreadCrumbs = [link_crumb ''Dashboard'' ''/'', crumb ''My Meetings'']"

definition getMeetingsBreadCrumbs :: "bread_crumb list" where
  "getMeetingsBreadCrumbs = [link_crumb ''Dashboard'' ''/'', crumb ''Meetings'']"

section \<open>The navigation cards of the dashboard and of the creation page\<close>

record nav_card =
  card_title :: string
  card_target :: string
  \<comment> \<open>an \<open>EuiCard\<close> with its \<open>title\<close> and the path its \<open>onClick\<close> navigates to\<close>

definition dashboard_cards :: "nav_card list" where
  "dashboard_cards =
     [\<lparr>card_title = ''Create Meeting'', card_target = ''/create''\<rparr>,
      \<lparr>card_title = ''My Meetings'', card_target = ''/mymeetings''\<rparr>,
      \<lparr>card_title = ''Meetings'', card_target = ''/meetings''\<rparr>]"

definition create_meeting_cards :: "nav_card list" where
  "create_meeting_cards =
     [\<lparr>card_title = ''Create 1 on 1 Meeting'', card_target = ''/create1on1''\<rparr>,
      \<lparr>card_title = ''Create Video Conference'', card_target = ''/videoconference''\<rparr>]"

section \<open>The header\<close>

record header_state =
  breadCrumbs :: "bread_crumb list"
  isResponsive :: bool

definition header_init :: header_state where
  "header_init = \<lparr>breadCrumbs = [crumb ''Dashboard''], isResponsive = False\<rparr>"

definition header_location_effect :: "string \<Rightarrow> header_state \<Rightarrow> header_state" where
  "header_location_effect pathname h =
     (if pathname = ''/'' then h\<lparr>breadCrumbs := getDashboardBreadCrumbs\<rparr>
      else if pathname = ''/create'' then h\<lparr>breadCrumbs := getCreateMeetingBreadCrumbs\<rparr>
      else if pathname = ''/create1on1'' then h\<lparr>breadCrumbs := getOneOnOneMeetingBreadCrumbs\<rparr>
      else if pathname = ''/videoconference'' then h\<lparr>breadCrumbs := getVideoConferenceBreadCrumbs\<rparr>
      else if pathname = ''/mymeetings'' then h\<lparr>breadCrumbs := getMyMeetingsBreadCrumbs\<rparr>
      else if pathname = ''/meetings'' then h\<lparr>breadCrumbs := getMeetingsBreadCrumbs\<rparr>
      else h)"

definition header_resize_effect :: "nat \<Rightarrow> header_state \<Rightarrow> header_state" where
  "header_resize_effect innerWidth h = (if innerWidth < 480 then h\<lparr>isResponsive := True\<rparr> else h)"

definition header_crumbs :: "string \<Rightarrow> bread_crumb list" where
  "header_crumbs pathname = breadCrumbs (header_location_effect pathname header_init)"
  \<comment> \<open>the breadcrumbs a page that renders \<open><Header />\<close> shows after its mount effects\<close>

datatype theme_icon = SunIcon | MoonIcon

datatype header_item = LogoLink string | Greeting string | ThemeButton theme_icon | LogoutButton

definition header_sections :: "auth_slice \<Rightarrow> header_state \<Rightarrow> header_item list list" where
  "header_sections a h =
     (let icon = (if isDarkTheme a then SunIcon else MoonIcon);
          greeting = (case userInfo a of
                        Some u \<Rightarrow> (case au_name u of Some n \<Rightarrow> if n \<noteq> [] then [Greeting n] else []
                                                 | None \<Rightarrow> [])
                      | None \<Rightarrow> [])
      in if isResponsive h then [[LogoLink ''/''], [ThemeButton icon, LogoutButton]]
         else [[LogoLink ''/''], greeting, [ThemeButton icon, LogoutButton]])"
  \<comment> \<open>\<open>section\<close> and \<open>responsiveSection\<close>, as chosen by the render\<close>

definition Header_render :: "auth_slice \<Rightarrow> header_state \<Rightarrow> header_item list list \<times> bread_crumb list" where
  "Header_render a h = (header_sections a h, breadCrumbs h)"
  \<comment> \<open>the two \<open>EuiHeader\<close>s: the dark one with the sections, the other with the
      breadcrumbs\<close>

section \<open>The theme of a page load\<close>

record theme_session =
  ls_theme :: "string option"
  store :: auth_slice
  isInitialEffect :: bool
  app_theme :: string
  selector_theme :: string
  \<comment> \<open>\<open>localStorage["zoom-theme"]\<close>, the Redux store, and the state of \<open>App\<close> and
      \<open>ThemeSelector\<close>\<close>

definition selector_theme_effect :: "string option \<Rightarrow> string \<Rightarrow> string" where
  "selector_theme_effect ls t = (case ls of Some t' \<Rightarrow> if t' \<noteq> [] then t' else t | None \<Rightarrow> t)"

definition app_theme_effect :: "string option \<Rightarrow> string \<Rightarrow> string option \<times> string" where
  "app_theme_effect ls t = (case ls of
       Some t' \<Rightarrow> if t' \<noteq> [] then (ls, t') else (Some ''light'', t)
     | None \<Rightarrow> (Some ''light'', t))"

definition app_dark_effect :: "theme_session \<Rightarrow> theme_session option" where
  "app_dark_effect s = (if isInitialEffect s then Some (s\<lparr>isInitialEffect := False\<rparr>) else None)"
  \<comment> \<open>\<open>None\<close>: \<open>window.location.reload()\<close>\<close>

definition load_page :: "string option \<Rightarrow> theme_session" where
  "load_page ls =
     (let sel = selector_theme_effect ls ''light'';
          (ls', t) = app_theme_effect ls ''light'';
          s = \<lparr>ls_theme = ls', store = auth_initial, isInitialEffect = True,
               app_theme = t, selector_theme = sel\<rparr>
      in s\<lparr>isInitialEffect := False\<rparr>)"
  \<comment> \<open>a fresh store and fresh component state, then the mount effects child first:
      \<open>ThemeSelector\<close> reads the storage, \<open>App\<close> reads or initialises it, and the
      \<open>isDarkTheme\<close> effect of the mount clears \<open>isInitialEffect\<close>\<close>

definition invertTheme :: "theme_session \<Rightarrow> theme_session" where
  "invertTheme s =
     (let ls' = Some (if ls_theme s = Some ''light'' then ''dark'' else ''light'');
          s' = s\<lparr>ls_theme := ls', store := changeTheme (\<not> isDarkTheme (store s)) (store s)\<rparr>
      in case app_dark_effect s' of Some s'' \<Rightarrow> s'' | None \<Rightarrow> load_page ls')"
  \<comment> \<open>\<open>Header.invertTheme\<close>: the dispatch always changes \<open>isDarkTheme\<close>, so the effect of
      \<open>App\<close> runs and reloads the page unless it is the first run\<close>

datatype theme_stylesheet = LightTheme | DarkTheme
  \<comment> \<open>the two lazily imported components \<open>./Themes/LightTheme\<close> and \<open>./Themes/DarkTheme\<close>\<close>

definition ThemeSelector_render :: "string \<Rightarrow> theme_stylesheet" where
  "ThemeSelector_render theme = (if theme = ''dark'' then DarkTheme else LightTheme)"
  \<comment> \<open>\<open>{theme === "dark" ? <DarkTheme /> : <LightTheme />}\<close> around the children\<close>

section \<open>Lemmas\<close>

lemmas crumb_defs = getDashboardBreadCrumbs_def getCreateMeetingBreadCrumbs_def
  getOneOnOneMeetingBreadCrumbs_def getVideoConferenceBreadCrumbs_def
  getMyMeetingsBreadCrumbs_def getMeetingsBreadCrumbs_def crumb_def link_crumb_def

lemmas theme_defs = load_page_def invertTheme_def app_dark_effect_def app_theme_effect_def
  selector_theme_effect_def changeTheme_def auth_initial_def

lemma invertTheme_load_page:
  "t \<in> {''light'', ''dark''} \<Longrightarrow>
   invertTheme (load_page (Some t)) = load_page (Some (if t = ''light'' then ''dark'' else ''light''))"
  by (auto simp: theme_defs)

lemma load_page_None: "load_page None = load_page (Some ''light'')"
  by (simp add: theme_defs)

lemma theme_after_toggles:
  "(invertTheme ^^ n) (load_page None) = load_page (Some (if even n then ''light'' else ''dark''))"
proof (induction n)
  case 0
  show ?case by (simp add: load_page_None)
next
  case (Suc n)
  then show ?case by (simp add: invertTheme_load_page)
qed

lemma route_matches_static:
  "pat \<noteq> ''/'' \<Longrightarrow> route_matches pat p \<longleftrightarrow> map lower_char (rstrip_slash p) = pat"
  by (simp add: route_matches_def)

lemma rstrip_slash_id:
  assumes "xs \<noteq> []" and "last xs \<noteq> CHR ''/''"
  shows "rstrip_slash xs = xs"
proof -
  obtain ys y where "xs = ys @ [y]" using assms(1) rev_exhaust by blast
  with assms(2) show ?thesis by (simp add: rstrip_slash_def)
qed

lemma lower_join:
  "map lower_char ''/join/'' = ''/join/''"
  "lower_char CHR ''/'' = CHR ''/''" "lower_char CHR ''j'' = CHR ''j''" "lower_char CHR ''o'' = CHR ''o''"
  "lower_char CHR ''i'' = CHR ''i''" "lower_char CHR ''n'' = CHR ''n''"
  by (simp_all add: lower_char_def)

lemma route_join:
  assumes "mid \<noteq> []" and "CHR ''/'' \<notin> set mid"
  shows "route (''/join/'' @ mid) = JoinMeetingPage mid"
proof -
  have r: "rstrip_slash (''/join/'' @ mid) = ''/join/'' @ mid"
    using assms by (intro rstrip_slash_id) (auto dest: last_in_set)
  have t: "take 6 (map lower_char (''/join/'' @ mid)) = ''/join/''"
    unfolding map_append lower_join(1) by simp
  have ne: "map lower_char (''/join/'' @ mid) \<noteq> pat" if "take 6 pat \<noteq> ''/join/''" for pat
    using t that by auto
  have "\<not> route_matches pat (''/join/'' @ mid)" if "pat \<noteq> ''/''" "take 6 pat \<noteq> ''/join/''" for pat
    unfolding route_matches_static [OF that(1)] r using ne [OF that(2)] by blast
  moreover have "join_param (''/join/'' @ mid) = Some mid"
    using assms unfolding join_param_def r by (simp add: lower_join)
  ultimately show ?thesis by (simp add: route_def)
qed

text \<open>C33. Each click on the theme button writes the other theme to the local storage and
  reloads the page, so the page shows the light and the dark theme alternately; the reload
  also resets the Redux flag \<open>isDarkTheme\<close>, so the header offers the moon (switch to
  dark) button after every toggle, in the dark theme too.\<close>

theorem theme_toggle_alternates:
  "app_theme ((invertTheme ^^ n) (load_page None)) = (if even n then ''light'' else ''dark'')
   \<and> selector_theme ((invertTheme ^^ n) (load_page None)) = (if even n then ''light'' else ''dark'')
   \<and> ThemeButton MoonIcon \<in> set (concat (header_sections (store ((invertTheme ^^ n) (load_page None))) h))"
  unfolding theme_after_toggles
  by (simp add: theme_defs header_sections_def Let_def)

text \<open>The header a page shows once its mount effects have run: the breadcrumbs of its
  path, and the user's greeting only on a window at least 480 pixels wide.\<close>

lemma header_after_mount:
  "Header_render a (header_resize_effect w (header_location_effect p header_init)) =
     ((if w < 480 then [[LogoLink ''/''], [ThemeButton (if isDarkTheme a then SunIcon else MoonIcon), LogoutButton]]
       else header_sections a header_init),
      header_crumbs p)"
  by (simp add: Header_render_def header_crumbs_def header_resize_effect_def header_sections_def
                header_location_effect_def header_init_def Let_def)

lemma header_crumbs_cases:
  "header_crumbs p =
     (if p = ''/'' then getDashboardBreadCrumbs
      else if p = ''/create'' then getCreateMeetingBreadCrumbs
      else if p = ''/create1on1'' then getOneOnOneMeetingBreadCrumbs
      else if p = ''/videoconference'' then getVideoConferenceBreadCrumbs
      else if p = ''/mymeetings'' then getMyMeetingsBreadCrumbs
      else if p = ''/meetings'' then getMeetingsBreadCrumbs
      else [crumb ''Dashboard''])"
  by (simp add: header_crumbs_def header_location_effect_def header_init_def)

lemma join_param_static:
  assumes "map lower_char (rstrip_slash p) = pat" and "take 6 pat \<noteq> ''/join/''"
  shows "join_param p = None"
  using assms by (auto simp: join_param_def Let_def take_map [symmetric])

lemma route_header_paths:
  "route ''/'' = DashboardPage" "route ''/create'' = CreateMeetingPage"
  "route ''/create1on1'' = OneOnOneMeetingPage" "route ''/videoconference'' = VideoConferencePage"
  "route ''/mymeetings'' = MyMeetingsPage" "route ''/meetings'' = MeetingPage"
  by (simp_all add: route_def route_matches_def join_param_def rstrip_slash_def lower_char_def)

text \<open>Every card leads to a page of the application whose breadcrumb trail ends with
  the card's title.\<close>

lemma cards_match_crumbs:
  "c \<in> set (dashboard_cards @ create_meeting_cards) \<Longrightarrow>
   route (card_target c) \<noteq> LoginPage \<and> crumb_text (last (header_crumbs (card_target c))) = card_title c"
  by (auto simp: dashboard_cards_def create_meeting_cards_def route_header_paths header_crumbs_cases crumb_defs)

text \<open>On every page that shows the header, the breadcrumb trail ends with the
  page's own crumb, without a link, and every earlier crumb links to a page of the
  application whose trail is the trail up to that crumb.\<close>

theorem breadcrumbs_coherent:
  assumes "p \<in> set [''/'', ''/create'', ''/create1on1'', ''/videoconference'', ''/mymeetings'', ''/meetings'']"
  shows "header_crumbs p \<noteq> [] \<and> href (last (header_crumbs p)) = None
     \<and> onClick (last (header_crumbs p)) = None \<and> route p \<noteq> LoginPage
     \<and> (\<forall>k < length (header_crumbs p) - 1. \<exists>q.
          onClick (header_crumbs p ! k) = Some q \<and> href (header_crumbs p ! k) = Some ''#''
          \<and> route q \<noteq> LoginPage
          \<and> header_crumbs q = take k (header_crumbs p) @ [crumb (crumb_text (header_crumbs p ! k))])"
  using assms
  by (auto simp: header_crumbs_cases route_header_paths crumb_defs less_Suc_eq nth_Cons')

text \<open>C35. The routes of \<open>App.tsx\<close> match a path case-insensitively and with trailing
  slashes, the header's breadcrumb effect compares the path exactly: only the exact path
  \<open>/mymeetings\<close> gives the My Meetings page its breadcrumbs, while every variant of it
  reaches the page.\<close>

theorem header_crumbs_exact_path:
  "(route p = MyMeetingsPage \<longleftrightarrow> map lower_char (rstrip_slash p) = ''/mymeetings'')
   \<and> (header_crumbs p = getMyMeetingsBreadCrumbs \<longleftrightarrow> p = ''/mymeetings'')"
proof
  show "route p = MyMeetingsPage \<longleftrightarrow> map lower_char (rstrip_slash p) = ''/mymeetings''"
    by (auto simp: route_def route_matches_static join_param_static split: option.splits)
  show "header_crumbs p = getMyMeetingsBreadCrumbs \<longleftrightarrow> p = ''/mymeetings''"
    by (simp add: header_crumbs_cases crumb_defs)
qed

theorem breadcrumbs_coherent_witness:
  "onClick (header_crumbs ''/create1on1'' ! 1) = Some ''/create''
   \<and> route ''/create'' = CreateMeetingPage
   \<and> header_crumbs ''/create'' = take 1 (header_crumbs ''/create1on1'') @ [crumb ''Create Meeting'']"
proof -
  have "''/create1on1'' \<in> set [''/'', ''/create'', ''/create1on1'', ''/videoconference'', ''/mymeetings'', ''/meetings'']"
    by simp
  from breadcrumbs_coherent [OF this] show ?thesis
    by (simp add: header_crumbs_cases crumb_defs route_header_paths)
qed

theorem header_crumbs_exact_path_witness:
  "route ''/MyMeetings/'' = MyMeetingsPage \<and> header_crumbs ''/MyMeetings/'' = [crumb ''Dashboard'']"
proof -
  have "map lower_char (rstrip_slash ''/MyMeetings/'') = ''/mymeetings''"
    by code_simp
  then show ?thesis
    using header_crumbs_exact_path [of "''/MyMeetings/''"] by (simp add: header_crumbs_cases)
qed

text \<open>The stylesheet \<open>ThemeSelector\<close> mounts follows the stored theme: after \<open>n\<close> clicks
  on the theme button from a first visit it is the light one exactly for even \<open>n\<close>.\<close>

lemma stylesheet_after_toggles:
  "ThemeSelector_render (selector_theme ((invertTheme ^^ n) (load_page None)))
     = (if even n then LightTheme else DarkTheme)"
  unfolding theme_after_toggles
  by (simp add: ThemeSelector_render_def theme_defs Let_def)

end
