(* ===== verification/Session.thy ===== *)
theory Session
  imports Navigation Toasts MeetingId
begin

text \<open>The join page as a whole (\<open>pages/JoinMeeting.tsx\<close>): its component state, the
  \<open>onAuthStateChanged\<close> listener it registers, the effect keyed on \<open>userLoaded\<close> that runs
  \<open>getMeetingData\<close> (theory \<open>Join\<close>) and applies its actions to the page state, the toast
  slice (theory \<open>Toasts\<close>) and the location, and the render that enters the room
  (\<open>myMeeting\<close>).\<close>

section \<open>The page state\<close>

record join_page =
  isAllowed :: bool
  jp_user :: "fb_user option"
  userLoaded :: bool

definition join_page_init :: join_page where
  "join_page_init = \<lparr>isAllowed = False, jp_user = None, userLoaded = False\<rparr>"
  \<comment> \<open>\<open>useState(false)\<close>, \<open>useState<any>(undefined)\<close>, \<open>useState(false)\<close>\<close>

definition auth_callback :: "fb_user option \<Rightarrow> join_page \<Rightarrow> join_page" where
  "auth_callback cu p =
     (case cu of Some u \<Rightarrow> p\<lparr>jp_user := Some u\<rparr> | None \<Rightarrow> p)\<lparr>userLoaded := True\<rparr>"
  \<comment> \<open>\<open>if (currentUser) setUser(currentUser); setUserLoaded(true)\<close>\<close>

record join_session =
  jpage :: join_page
  slice :: meetings_slice
  location :: string

definition apply_join_action :: "nat \<Rightarrow> toast list \<Rightarrow> join_session \<Rightarrow> join_action \<Rightarrow> join_session" where
  "apply_join_action ms snapshot s a = (case a of
       SetAllowed \<Rightarrow> s\<lparr>jpage := (jpage s)\<lparr>isAllowed := True\<rparr>\<rparr>
     | ShowToast t c \<Rightarrow> s\<lparr>slice := setToasts (createToast snapshot ms t c) (slice s)\<rparr>
     | Navigate p \<Rightarrow> s\<lparr>location := p\<rparr>)"
  \<comment> \<open>\<open>setIsAllowed(true)\<close>, \<open>createToast(...)\<close> of \<open>useToast\<close> at the millisecond \<open>ms\<close>,
      \<open>navigate(...)\<close>\<close>

definition join_effect ::
  "string option \<Rightarrow> meeting list \<Rightarrow> clock \<Rightarrow> nat \<Rightarrow> join_session \<Rightarrow> join_session" where
  "join_effect params_id db now ms s =
     foldl (apply_join_action ms (toasts (slice s))) s
       (getMeetingData params_id (userLoaded (jpage s)) (jp_user (jpage s)) db now)"
  \<comment> \<open>\<open>useEffect(() => { getMeetingData() }, [userLoaded])\<close>\<close>

definition join_mount ::
  "string option \<Rightarrow> meeting list \<Rightarrow> clock \<Rightarrow> nat \<Rightarrow> meetings_slice \<Rightarrow> string \<Rightarrow> join_session" where
  "join_mount params_id db now ms sl loc =
     join_effect params_id db now ms \<lparr>jpage = join_page_init, slice = sl, location = loc\<rparr>"

datatype join_event = AuthChanged "fb_user option"

fun join_step ::
  "string option \<Rightarrow> meeting list \<Rightarrow> clock \<Rightarrow> nat \<Rightarrow> join_session \<Rightarrow> join_event \<Rightarrow> join_session" where
  "join_step params_id db now ms s (AuthChanged cu) =
     (let p' = auth_callback cu (jpage s); s' = s\<lparr>jpage := p'\<rparr> in
      if userLoaded p' \<noteq> userLoaded (jpage s) then join_effect params_id db now ms s' else s')"
  \<comment> \<open>a callback of a listener registered by a render; the effect reruns when
      \<open>userLoaded\<close> changed\<close>

text \<open>The listener is registered by every render and never removed; Firebase calls each
  newly registered listener once with the current user. A callback that changes the page
  state re-renders the page, and that render registers one more listener. \<open>pending\<close>
  counts the listeners still to be called, \<open>renders\<close> the renders so far. React skips
  the render of a state update to an equal value.\<close>

partial_function (option) auth_settle ::
  "fb_user option \<Rightarrow> join_page \<Rightarrow> nat \<Rightarrow> nat \<Rightarrow> (join_page \<times> nat) option" where
  "auth_settle cu p pending renders =
     (if pending = 0 then Some (p, renders)
      else (let p' = auth_callback cu p in
            if p' = p then auth_settle cu p (pending - 1) renders
            else auth_settle cu p' pending (Suc renders)))"

definition join_render ::
  "string \<Rightarrow> (nat \<Rightarrow> real) \<Rightarrow> (nat \<Rightarrow> real) \<Rightarrow> join_session
   \<Rightarrow> (js_error + (string \<times> string \<times> string)) option" where
  "join_render room rnd1 rnd2 s =
     (if isAllowed (jpage s)
      then Some (kit_token_args room (jp_user (jpage s)) (generateMeetingID rnd1) (generateMeetingID rnd2))
      else None)"
  \<comment> \<open>\<open>isAllowed ? <div ref={myMeeting}/> : <></>\<close>; the ref callback computes the
      token arguments, with a generated id as the fallback of a missing uid and of a
      missing name; \<open>None\<close> is the empty fragment\<close>

section \<open>Lemmas\<close>

lemma join_mount_quiet:
  "join_mount pid db now ms sl loc = \<lparr>jpage = join_page_init, slice = sl, location = loc\<rparr>"
  by (simp add: join_mount_def join_effect_def getMeetingData_def join_page_init_def)

lemma join_step_first:
  "join_step pid db now ms (join_mount pid db now ms sl loc) (AuthChanged cu) =
     foldl (apply_join_action ms (toasts sl))
       \<lparr>jpage = \<lparr>isAllowed = False, jp_user = cu, userLoaded = True\<rparr>, slice = sl, location = loc\<rparr>
       (getMeetingData pid True cu db now)"
  by (cases cu) (simp_all add: join_mount_quiet join_page_init_def auth_callback_def join_effect_def)

text \<open>Once the first callback has loaded the user, later callbacks of the listeners the
  renders register change the stored user at most: the effect does not run again, so a
  sign-out on the page is not noticed and a sign-in does not re-decide.\<close>

lemma join_step_loaded:
  "userLoaded (jpage s) \<Longrightarrow>
   join_step pid db now ms s (AuthChanged cu) = s\<lparr>jpage := auth_callback cu (jpage s)\<rparr>"
  by (simp add: auth_callback_def split: option.splits)

lemma join_step_loaded_keeps:
  assumes "userLoaded (jpage s)"
  shows "isAllowed (jpage (join_step pid db now ms s (AuthChanged cu))) = isAllowed (jpage s)
     \<and> slice (join_step pid db now ms s (AuthChanged cu)) = slice s
     \<and> location (join_step pid db now ms s (AuthChanged cu)) = location s
     \<and> jp_user (jpage (join_step pid db now ms s (AuthChanged cu))) =
         (if cu = None then jp_user (jpage s) else cu)"
  using assms by (simp add: join_step_loaded auth_callback_def split: option.splits)

lemma auth_callback_idem: "auth_callback cu (auth_callback cu p) = auth_callback cu p"
  by (simp add: auth_callback_def split: option.splits)

lemma auth_settle_stable:
  "auth_callback cu p = p \<Longrightarrow> auth_settle cu p k n = Some (p, n)"
  by (induction k) (simp_all add: auth_settle.simps)

text \<open>C27. The listeners the renders of the join page register never make it re-render
  forever: for the auth state Firebase reports, the callbacks of any number of pending
  listeners settle after at most one extra render, in the state of a single callback.\<close>

theorem auth_listeners_settle:
  "auth_settle cu p k n =
     Some (if k = 0 then p else auth_callback cu p,
           if k = 0 \<or> auth_callback cu p = p then n else Suc n)"
proof (cases k)
  case 0
  then show ?thesis by (simp add: auth_settle.simps)
next
  case (Suc j)
  show ?thesis
  proof (cases "auth_callback cu p = p")
    case True
    then show ?thesis using Suc by (simp add: auth_settle_stable)
  next
    case False
    have "auth_settle cu p k n = auth_settle cu (auth_callback cu p) k (Suc n)"
      using Suc False by (simp add: auth_settle.simps [of cu p])
    also have "\<dots> = Some (auth_callback cu p, Suc n)"
      by (rule auth_settle_stable) (rule auth_callback_idem)
    finally show ?thesis using Suc False by simp
  qed
qed

theorem auth_listeners_settle_witness:
  "auth_settle (signed_in ''U1'') join_page_init 1 1 = Some (auth_callback (signed_in ''U1'') join_page_init, 2)"
proof -
  have "auth_callback (signed_in ''U1'') join_page_init \<noteq> join_page_init"
    by (simp add: auth_callback_def join_page_init_def)
  then show ?thesis using auth_listeners_settle [of "signed_in ''U1''" join_page_init 1 1] by simp
qed

text \<open>C37. A visitor who is not signed in and opens the link of an open meeting is
  admitted by the page, which then renders the room container; the container's ref
  callback reads \<open>user.uid\<close> of the undefined user and throws, so the visitor stays on an
  empty room page.\<close>

theorem anonymous_admitted_room_throws:
  assumes "mid \<noteq> []" and "meetings_with_id db mid = m # ms'" and "meetingType m = AnyoneCanJoin"
  shows "isAllowed (jpage (join_step (Some mid) db now t (join_mount (Some mid) db now t sl loc) (AuthChanged None)))
     \<and> location (join_step (Some mid) db now t (join_mount (Some mid) db now t sl loc) (AuthChanged None)) = loc
     \<and> (\<exists>e. join_render mid r1 r2
              (join_step (Some mid) db now t (join_mount (Some mid) db now t sl loc) (AuthChanged None))
            = Some (Inl e))"
proof -
  have "getMeetingData (Some mid) True None db now = [SetAllowed]"
    using assms by (simp add: getMeetingData_def join_decision_def)
  then show ?thesis
    unfolding join_step_first
    by (simp add: apply_join_action_def join_render_def kit_token_args_def)
qed

theorem anonymous_admitted_room_throws_witness:
  "isAllowed (jpage (join_step (Some ''k3Xz9QaB'') [scenario_meeting\<lparr>meetingType := AnyoneCanJoin\<rparr>]
      scenario_clock 0 (join_mount (Some ''k3Xz9QaB'') [scenario_meeting\<lparr>meetingType := AnyoneCanJoin\<rparr>]
        scenario_clock 0 meetings_initial ''/join/k3Xz9QaB'') (AuthChanged None)))
   \<and> (\<exists>e. join_render ''k3Xz9QaB'' (\<lambda>_. 0) (\<lambda>_. 0)
      (join_step (Some ''k3Xz9QaB'') [scenario_meeting\<lparr>meetingType := AnyoneCanJoin\<rparr>]
        scenario_clock 0 (join_mount (Some ''k3Xz9QaB'') [scenario_meeting\<lparr>meetingType := AnyoneCanJoin\<rparr>]
          scenario_clock 0 meetings_initial ''/join/k3Xz9QaB'') (AuthChanged None)) = Some (Inl e))"
proof -
  have "meetings_with_id [scenario_meeting\<lparr>meetingType := AnyoneCanJoin\<rparr>] ''k3Xz9QaB'' =
          [scenario_meeting\<lparr>meetingType := AnyoneCanJoin\<rparr>]"
    by (simp add: meetings_with_id_def)
  from anonymous_admitted_room_throws [OF _ this] show ?thesis by simp
qed

lemma creator_enters_room:
  "join_render ''k3Xz9QaB'' r1 r2
     (join_step (Some ''k3Xz9QaB'') [scenario_meeting] scenario_clock 0
        (join_mount (Some ''k3Xz9QaB'') [scenario_meeting] scenario_clock 0 meetings_initial
          ''/join/k3Xz9QaB'') (AuthChanged (signed_in ''U1'')))
   = Some (Inr (''k3Xz9QaB'', ''U1'', generateMeetingID r2))"
proof -
  have g: "date_gate_one_on_one scenario_meeting (signed_in ''U1'') scenario_clock = [SetAllowed]"
  proof -
    have "parse_L (meetingDate scenario_meeting) = Some (Date 2024 3 15)"
      by (simp add: scenario_dates(1))
    from date_gate_one_on_one_cases [OF scenario_clock_valid this] show ?thesis by simp
  qed
  have "getMeetingData (Some ''k3Xz9QaB'') True (signed_in ''U1'') [scenario_meeting] scenario_clock
          = [SetAllowed]"
    by (simp add: getMeetingData_def meetings_with_id_def join_decision_def g)
  then show ?thesis
    unfolding join_step_first
    by (simp add: apply_join_action_def join_render_def kit_token_args_def)
qed

end
