(* ===== verification/CreateForms.thy ===== *)
theory CreateForms
  imports Lifecycle Session
begin

text \<open>The creation pages as whole components. \<open>pages/OneOnOneMeeting.tsx\<close> and
  \<open>pages/VideoConference.tsx\<close> keep their form in component state, change it by the
  handlers of the field components of \<open>components/FormComponents\<close>, validate and write it
  on submit (the outcome computed in theory \<open>Lifecycle\<close>), and render the fields. The
  state of the conference page is the state of the 1-on-1 page extended by the capacity
  and the switch. The field components are modelled by the props they render with; the
  date picker passes \<open>null\<close> when its input is cleared (its \<open>onChange\<close> erases the
  non-null assertion), which the model keeps as \<open>None\<close>.\<close>

section \<open>Field components and buttons\<close>

datatype form_field =
    NameField string bool "string list"
      \<comment> \<open>\<open>MeetingNameField\<close>: \<open>value\<close>, \<open>isInvalid\<close>, \<open>error\<close>\<close>
  | UserField string bool "string list" "user_type list" "user_type list" bool
      \<comment> \<open>\<open>MeetingUserField\<close>: \<open>label\<close>, \<open>isInvalid\<close>, \<open>error\<close>, \<open>options\<close>,
          \<open>selectedOptions\<close>, \<open>singleSelection\<close>\<close>
  | SizeField int
      \<comment> \<open>\<open>MeetingMaximumUsersField\<close>: \<open>value\<close>\<close>
  | DateField "date option"
      \<comment> \<open>\<open>MeetingDateField\<close>: \<open>selected\<close>\<close>
  | SwitchField string bool
      \<comment> \<open>an \<open>EuiSwitch\<close> row: its label and \<open>checked\<close>\<close>
  | FormButtons bool
      \<comment> \<open>\<open>CreateMeetingButtons\<close>: \<open>isEdit\<close>\<close>

definition MeetingNameField :: "string \<Rightarrow> bool \<Rightarrow> string list \<Rightarrow> form_field" where
  "MeetingNameField value isInvalid error = NameField value isInvalid error"

definition MeetingUserField ::
  "string \<Rightarrow> bool \<Rightarrow> string list \<Rightarrow> user_type list \<Rightarrow> user_type list \<Rightarrow> bool \<Rightarrow> form_field" where
  "MeetingUserField lbl isInvalid error options selectedOptions singleSelection =
     UserField lbl isInvalid error options selectedOptions singleSelection"

definition MeetingMaximumUsersField :: "int \<Rightarrow> form_field" where
  "MeetingMaximumUsersField value = SizeField value"

definition MeetingDateField :: "date option \<Rightarrow> form_field" where
  "MeetingDateField selected = DateField selected"

definition CreateMeetingButtons :: "bool \<Rightarrow> form_field" where
  "CreateMeetingButtons isEdit = FormButtons isEdit"

lemmas field_defs = MeetingNameField_def MeetingUserField_def MeetingMaximumUsersField_def
  MeetingDateField_def CreateMeetingButtons_def

datatype button = CancelButton | SubmitButton

datatype button_effect = CloseFlyoutCall | NavigateHome | SubmitCall

definition buttons_label :: "bool \<Rightarrow> string" where
  "buttons_label isEdit = (if isEdit then ''Edit Meeting'' else ''Create Meeting'')"

definition buttons_onClick :: "bool \<Rightarrow> button \<Rightarrow> button_effect" where
  "buttons_onClick isEdit b = (case b of
       CancelButton \<Rightarrow> if isEdit then CloseFlyoutCall else NavigateHome
     | SubmitButton \<Rightarrow> SubmitCall)"

section \<open>Page state and field events\<close>

record one_on_one_page =
  oo_name :: string
  oo_selected :: "user_type list"
  oo_start :: "date option"
  oo_errors :: form_errors

record conference_page = one_on_one_page +
  vc_size :: int
  vc_anyone :: bool

definition errors_init :: form_errors where
  "errors_init = \<lparr>err_name = field_ok, err_users = field_ok\<rparr>"

definition one_on_one_init :: "clock \<Rightarrow> one_on_one_page" where
  "one_on_one_init now =
     \<lparr>oo_name = [], oo_selected = [], oo_start = Some (today now), oo_errors = errors_init\<rparr>"
  \<comment> \<open>\<open>useState("")\<close>, \<open>useState([])\<close>, \<open>useState(moment())\<close>, the cleared errors\<close>

definition conference_init :: "clock \<Rightarrow> conference_page" where
  "conference_init now =
     \<lparr>oo_name = [], oo_selected = [], oo_start = Some (today now), oo_errors = errors_init,
      vc_size = 1, vc_anyone = False\<rparr>"

datatype page_event = EvName string | EvUsers "user_type list" | EvDate "date option"
  | EvSize "int option" | EvAnyone bool
  \<comment> \<open>the \<open>onChange\<close> of the name field, the user combo box, the date picker, the capacity
      field and the switch\<close>

fun one_on_one_step :: "one_on_one_page \<Rightarrow> page_event \<Rightarrow> one_on_one_page" where
  "one_on_one_step p (EvName n) = p\<lparr>oo_name := n\<rparr>"
| "one_on_one_step p (EvUsers us) = p\<lparr>oo_selected := us\<rparr>"
| "one_on_one_step p (EvDate d) = p\<lparr>oo_start := d\<rparr>"
| "one_on_one_step p (EvSize _) = p"
| "one_on_one_step p (EvAnyone _) = p"
  \<comment> \<open>the page has no capacity field and no switch\<close>

fun conference_step :: "conference_page \<Rightarrow> page_event \<Rightarrow> conference_page" where
  "conference_step p (EvName n) = p\<lparr>oo_name := n\<rparr>"
| "conference_step p (EvUsers us) = (if vc_anyone p then p else p\<lparr>oo_selected := us\<rparr>)"
| "conference_step p (EvDate d) = p\<lparr>oo_start := d\<rparr>"
| "conference_step p (EvSize v) = (if vc_anyone p then p\<lparr>vc_size := clamp_size v\<rparr> else p)"
| "conference_step p (EvAnyone b) = p\<lparr>vc_anyone := b\<rparr>"
  \<comment> \<open>the capacity field is rendered only with the switch on, the user field only with
      it off: an event of the field that is not rendered cannot occur\<close>

definition run_one_on_one :: "one_on_one_page \<Rightarrow> page_event list \<Rightarrow> one_on_one_page" where
  "run_one_on_one p evs = foldl one_on_one_step p evs"

definition run_conference :: "conference_page \<Rightarrow> page_event list \<Rightarrow> conference_page" where
  "run_conference p evs = foldl conference_step p evs"

fun field_event_ok :: "bool \<Rightarrow> user_type list \<Rightarrow> page_event \<Rightarrow> bool" where
  "field_event_ok single users (EvUsers us) = (set us \<subseteq> set users \<and> (single \<longrightarrow> length us \<le> 1))"
| "field_event_ok single users _ = True"
  \<comment> \<open>the combo box passes a selection of its \<open>options\<close>, at most one in single-selection
      mode; the other fields accept any input\<close>

fun page_date_ok :: "page_event \<Rightarrow> bool" where
  "page_date_ok (EvDate (Some d)) = valid_date d"
| "page_date_ok _ = True"
  \<comment> \<open>the date picker offers calendar dates only\<close>

section \<open>Submission\<close>

datatype submit_outcome = SubmitInvalid | SubmitThrew js_error | SubmitRejected write_error
  | SubmitCreated meeting string

definition null_format :: js_error where
  "null_format = TypeError ''Cannot read properties of null (reading 'format')''"

definition outcome_of :: "create_outcome \<Rightarrow> submit_outcome" where
  "outcome_of c = (case c of FormInvalid _ \<Rightarrow> SubmitInvalid | WriteFailed e \<Rightarrow> SubmitRejected e
                    | Created m t \<Rightarrow> SubmitCreated m t)"

definition submit_one_on_one ::
  "js_uid \<Rightarrow> (nat \<Rightarrow> real) \<Rightarrow> one_on_one_page \<Rightarrow> one_on_one_page \<times> submit_outcome" where
  "submit_one_on_one u0 rnd p =
     (let (errs, shown) = validate_one_on_one (oo_name p) (oo_selected p);
          p' = p\<lparr>oo_errors := shown\<rparr>
      in if errs then (p', SubmitInvalid)
         else (case oo_start p of
                 None \<Rightarrow> (p', SubmitThrew null_format)
               | Some d \<Rightarrow> (p', outcome_of (createMeeting_one_on_one u0 (generateMeetingID rnd)
                                               (oo_name p) (oo_selected p) d))))"
  \<comment> \<open>\<open>createMeeting\<close>: \<open>setShowErrors\<close> of \<open>validateForm\<close>, then the id, the document
      (whose \<open>startDate.format("L")\<close> throws on a cleared picker) and \<open>addDoc\<close>\<close>

definition submit_conference ::
  "js_uid \<Rightarrow> (nat \<Rightarrow> real) \<Rightarrow> conference_page \<Rightarrow> conference_page \<times> submit_outcome" where
  "submit_conference u0 rnd p =
     (let (errs, shown) = validate_conference (oo_name p) (oo_selected p) (vc_anyone p);
          p' = p\<lparr>oo_errors := shown\<rparr>
      in if errs then (p', SubmitInvalid)
         else (case oo_start p of
                 None \<Rightarrow> (p', SubmitThrew null_format)
               | Some d \<Rightarrow> (p', outcome_of (createMeeting_conference u0 (generateMeetingID rnd)
                                               (oo_name p) (oo_selected p) d (vc_anyone p) (vc_size p)))))"

definition submit_effects :: "submit_outcome \<Rightarrow> join_action list" where
  "submit_effects r = (case r of SubmitCreated m t \<Rightarrow> [ShowToast t Success, Navigate ''/''] | _ \<Rightarrow> [])"
  \<comment> \<open>\<open>createToast({title, type: "success"})\<close> and \<open>navigate("/")\<close> after the write\<close>

section \<open>Rendering\<close>

definition render_one_on_one :: "user_type list \<Rightarrow> one_on_one_page \<Rightarrow> form_field list" where
  "render_one_on_one users p =
     [MeetingNameField (oo_name p) (show_error (err_name (oo_errors p))) (messages (err_name (oo_errors p))),
      MeetingUserField ''Invite User'' (show_error (err_users (oo_errors p)))
        (messages (err_users (oo_errors p))) users (oo_selected p) True,
      MeetingDateField (oo_start p), CreateMeetingButtons False]"

definition render_conference :: "user_type list \<Rightarrow> conference_page \<Rightarrow> form_field list" where
  "render_conference users p =
     [SwitchField ''Anyone can Join'' (vc_anyone p),
      MeetingNameField (oo_name p) (show_error (err_name (oo_errors p))) (messages (err_name (oo_errors p)))]
     @ (if vc_anyone p then [MeetingMaximumUsersField (vc_size p)]
        else [MeetingUserField ''Invite Users'' (show_error (err_users (oo_errors p)))
                (messages (err_users (oo_errors p))) users (oo_selected p) False])
     @ [MeetingDateField (oo_start p), CreateMeetingButtons False]"

definition flyout_errors :: form_errors where
  "flyout_errors = \<lparr>err_name = field_ok, err_users = field_ok\<rparr>"
  \<comment> \<open>\<open>const [showErrors] = useState(...)\<close> of \<open>EditFlyout\<close>: no setter, so it keeps its
      initial value\<close>

definition render_edit_flyout :: "user_type list \<Rightarrow> meeting \<Rightarrow> edit_form \<Rightarrow> form_field list" where
  "render_edit_flyout users m f =
     [MeetingNameField (ef_name f) (show_error (err_name flyout_errors)) (messages (err_name flyout_errors))]
     @ (if meetingType m = AnyoneCanJoin then [MeetingMaximumUsersField (ef_size f)]
        else [MeetingUserField ''Invite Users'' (show_error (err_users flyout_errors))
                (messages (err_users flyout_errors)) users (ef_selected f) (meetingType m = OneOnOne)])
     @ [MeetingDateField (if ef_cleared f then None else ef_start f), SwitchField ''Cancel Meeting'' (ef_cancel f), CreateMeetingButtons True]"
  \<comment> \<open>the flyout's fields show the error state, which is never set\<close>

section \<open>Lemmas\<close>

lemma run_one_on_one_append [simp]:
  "run_one_on_one p (xs @ ys) = run_one_on_one (run_one_on_one p xs) ys"
  by (simp add: run_one_on_one_def)

lemma run_conference_append [simp]:
  "run_conference p (xs @ ys) = run_conference (run_conference p xs) ys"
  by (simp add: run_conference_def)

text \<open>The flyout never shows a field invalid: its error state keeps its initial value.\<close>

lemma flyout_never_invalid:
  "NameField v invalid errs \<in> set (render_edit_flyout users m f) \<Longrightarrow> \<not> invalid \<and> errs = []"
  "UserField l invalid errs opts sel single \<in> set (render_edit_flyout users m f) \<Longrightarrow> \<not> invalid \<and> errs = []"
  by (auto simp: render_edit_flyout_def flyout_errors_def field_ok_def field_defs split: if_splits)

lemmas submit_defs = submit_one_on_one_def submit_conference_def validate_one_on_one_def
  validate_conference_def createMeeting_one_on_one_def createMeeting_conference_def
  one_on_one_doc_def conference_doc_def outcome_of_def

text \<open>C16. The creation forms cannot get stuck: from every state of either page, a
  signed-in user can change the fields, through inputs the rendered fields accept, so
  that the next submission creates the meeting (for the 1-on-1 page, when the directory
  offers at least one other user).\<close>

theorem creation_always_completable:
  assumes "u \<in> set users"
  shows "(\<exists>evs m t. list_all (field_event_ok True users) evs
            \<and> snd (submit_one_on_one (Some u0) rnd (run_one_on_one p evs)) = SubmitCreated m t)
       \<and> (\<exists>evs m t. list_all (field_event_ok False users) evs
            \<and> snd (submit_conference (Some u0) rnd (run_conference q evs)) = SubmitCreated m t)"
proof
  let ?evs = "[EvName ''Meeting'', EvUsers [u], EvDate (Some (Date 2024 1 1))]"
  have "list_all (field_event_ok True users) ?evs" using assms by simp
  moreover have "\<exists>m t. snd (submit_one_on_one (Some u0) rnd (run_one_on_one p ?evs)) = SubmitCreated m t"
    by (simp add: run_one_on_one_def submit_defs)
  ultimately show "\<exists>evs m t. list_all (field_event_ok True users) evs
            \<and> snd (submit_one_on_one (Some u0) rnd (run_one_on_one p evs)) = SubmitCreated m t"
    by blast
next
  let ?evs = "[EvAnyone True, EvName ''Meeting'', EvDate (Some (Date 2024 1 1))]"
  have "list_all (field_event_ok False users) ?evs" by simp
  moreover have "\<exists>m t. snd (submit_conference (Some u0) rnd (run_conference q ?evs)) = SubmitCreated m t"
    by (simp add: run_conference_def submit_defs)
  ultimately show "\<exists>evs m t. list_all (field_event_ok False users) evs
            \<and> snd (submit_conference (Some u0) rnd (run_conference q evs)) = SubmitCreated m t"
    by blast
qed

theorem creation_always_completable_witness:
  "(\<exists>evs m t. list_all (field_event_ok True [invitee_u2]) evs
      \<and> snd (submit_one_on_one (Some ''U1'') (\<lambda>_. 0) (run_one_on_one (one_on_one_init scenario_clock) evs))
          = SubmitCreated m t)
   \<and> (\<exists>evs m t. list_all (field_event_ok False [invitee_u2]) evs
      \<and> snd (submit_conference (Some ''U1'') (\<lambda>_. 0) (run_conference (conference_init scenario_clock) evs))
          = SubmitCreated m t)"
  by (rule creation_always_completable [of invitee_u2]) simp

text \<open>C29. Clearing the date picker and submitting a form that is otherwise valid passes
  validation, clears the errors shown, and then throws when the document reads
  \<open>startDate.format("L")\<close>: nothing is written, no notification is shown and the page
  stays.\<close>

theorem cleared_date_submission_throws:
  assumes "oo_name p \<noteq> []" and "oo_selected p \<noteq> []"
  shows "submit_one_on_one u0 rnd (one_on_one_step p (EvDate None)) =
           (p\<lparr>oo_start := None, oo_errors := errors_init\<rparr>, SubmitThrew null_format)
     \<and> submit_effects (SubmitThrew null_format) = []"
  using assms by (simp add: submit_defs errors_init_def submit_effects_def)

theorem cleared_date_submission_throws_witness:
  "submit_one_on_one (Some ''U1'') (\<lambda>_. 0)
     (one_on_one_step ((one_on_one_init scenario_clock)\<lparr>oo_name := ''Review'', oo_selected := [invitee_u2]\<rparr>)
       (EvDate None))
   = ((one_on_one_init scenario_clock)\<lparr>oo_name := ''Review'', oo_selected := [invitee_u2],
        oo_start := None, oo_errors := errors_init\<rparr>, SubmitThrew null_format)"
proof -
  have "submit_one_on_one (Some ''U1'') (\<lambda>_. 0)
     (one_on_one_step ((one_on_one_init scenario_clock)\<lparr>oo_name := ''Review'', oo_selected := [invitee_u2]\<rparr>)
       (EvDate None))
   = (((one_on_one_init scenario_clock)\<lparr>oo_name := ''Review'', oo_selected := [invitee_u2]\<rparr>)
        \<lparr>oo_start := None, oo_errors := errors_init\<rparr>, SubmitThrew null_format)
     \<and> submit_effects (SubmitThrew null_format) = []"
    by (rule cleared_date_submission_throws) simp_all
  then show ?thesis by simp
qed

text \<open>A video conference created without touching the switch is stored with capacity 1,
  whatever number of users it invites: the capacity field is shown only with the switch
  on, and an anyone-can-join meeting ignores it.\<close>

lemma conference_run_no_switch:
  assumes "\<forall>b. EvAnyone b \<notin> set evs" and "\<not> vc_anyone p"
  shows "vc_size (run_conference p evs) = vc_size p \<and> \<not> vc_anyone (run_conference p evs)"
  using assms
proof (induction evs arbitrary: p)
  case Nil
  then show ?case by (simp add: run_conference_def)
next
  case (Cons e evs)
  then have "vc_size (conference_step p e) = vc_size p \<and> \<not> vc_anyone (conference_step p e)"
    by (cases e) auto
  with Cons.IH [of "conference_step p e"] Cons.prems show ?case
    by (simp add: run_conference_def)
qed

lemma createMeeting_conference_Created_fields:
  assumes "outcome_of (createMeeting_conference u0 mid n sel d a sz) = SubmitCreated m t"
  shows "maxUsers m = (if a then 100 else sz)
     \<and> meetingType m = (if a then AnyoneCanJoin else VideoConference)"
proof -
  obtain u where "u0 = Some u" and m: "m = \<lparr>docId = None, createdBy = u,
         invitedUsers = (if a then [] else map user_uid sel), maxUsers = (if a then 100 else sz),
         meetingDate = format_L d, meetingId = mid, meetingName = n,
         meetingType = (if a then AnyoneCanJoin else VideoConference), status = True\<rparr>"
    using assms
    by (cases u0) (auto simp: outcome_of_def createMeeting_conference_def conference_doc_def
        validate_conference_def split: if_splits)
  then show ?thesis by simp
qed

lemma submit_conference_Created:
  assumes "snd (submit_conference u0 rnd p) = SubmitCreated m t"
  shows "maxUsers m = (if vc_anyone p then 100 else vc_size p)
     \<and> meetingType m = (if vc_anyone p then AnyoneCanJoin else VideoConference)"
proof -
  obtain d where "oo_start p = Some d"
    and "outcome_of (createMeeting_conference u0 (generateMeetingID rnd) (oo_name p) (oo_selected p) d
           (vc_anyone p) (vc_size p)) = SubmitCreated m t"
    using assms by (cases "oo_start p") (auto simp: submit_conference_def Let_def split: if_splits prod.splits)
  with createMeeting_conference_Created_fields show ?thesis by blast
qed

lemma conference_capacity_default:
  assumes "\<forall>b. EvAnyone b \<notin> set evs"
    and "snd (submit_conference u0 rnd (run_conference (conference_init now) evs)) = SubmitCreated m t"
  shows "maxUsers m = 1 \<and> meetingType m = VideoConference"
proof -
  have "vc_size (run_conference (conference_init now) evs) = 1"
    "\<not> vc_anyone (run_conference (conference_init now) evs)"
    using conference_run_no_switch [OF assms(1), of "conference_init now"]
    by (simp_all add: conference_init_def)
  with submit_conference_Created [OF assms(2)] show ?thesis by simp
qed

section \<open>Submissions that create\<close>

lemma outcome_of_Created: "outcome_of c = SubmitCreated m t \<longleftrightarrow> c = Created m t"
  by (cases c) (simp_all add: outcome_of_def)

lemma submit_one_on_one_Created:
  assumes "snd (submit_one_on_one u0 rnd p) = SubmitCreated m t"
  shows "\<exists>d. oo_start p = Some d
     \<and> createMeeting_one_on_one u0 (generateMeetingID rnd) (oo_name p) (oo_selected p) d = Created m t"
  using assms
  by (cases "oo_start p") (auto simp: submit_one_on_one_def Let_def outcome_of_Created split: if_splits prod.splits)

lemma submit_conference_Created_doc:
  assumes "snd (submit_conference u0 rnd p) = SubmitCreated m t"
  shows "\<exists>d. oo_start p = Some d
     \<and> createMeeting_conference u0 (generateMeetingID rnd) (oo_name p) (oo_selected p) d
         (vc_anyone p) (vc_size p) = Created m t"
  using assms
  by (cases "oo_start p") (auto simp: submit_conference_def Let_def outcome_of_Created split: if_splits prod.splits)

lemma run_one_on_one_start_valid:
  "(\<forall>d. oo_start p = Some d \<longrightarrow> valid_date d) \<Longrightarrow> list_all page_date_ok evs \<Longrightarrow>
   oo_start (run_one_on_one p evs) = Some d \<Longrightarrow> valid_date d"
proof (induction evs arbitrary: p)
  case Nil
  then show ?case by (simp add: run_one_on_one_def)
next
  case (Cons e evs)
  have "\<forall>d. oo_start (one_on_one_step p e) = Some d \<longrightarrow> valid_date d"
    using Cons.prems(1,2) by (cases e rule: page_date_ok.cases) auto
  then show ?case using Cons.IH [of "one_on_one_step p e"] Cons.prems(2,3)
    by (simp add: run_one_on_one_def)
qed

lemma run_conference_start_valid:
  "(\<forall>d. oo_start p = Some d \<longrightarrow> valid_date d) \<Longrightarrow> list_all page_date_ok evs \<Longrightarrow>
   oo_start (run_conference p evs) = Some d \<Longrightarrow> valid_date d"
proof (induction evs arbitrary: p)
  case Nil
  then show ?case by (simp add: run_conference_def)
next
  case (Cons e evs)
  have "\<forall>d. oo_start (conference_step p e) = Some d \<longrightarrow> valid_date d"
    using Cons.prems(1,2) by (cases e rule: page_date_ok.cases) auto
  then show ?case using Cons.IH [of "conference_step p e"] Cons.prems(2,3)
    by (simp add: run_conference_def)
qed

end
