(* ===== verification/Listings.thy ===== *)
theory Listings
  imports CreateForms
begin

text \<open>The two listings as rendered tables. \<open>pages/MyMeetings.tsx\<close> shows the meetings the
  signed-in user created, with an edit button that opens the flyout of
  \<open>components/EditFlyout.tsx\<close>; \<open>pages/Meeting.tsx\<close> shows the meetings the user may
  attend. Both render the columns of \<open>EuiBasicTable\<close> from the meeting documents; the
  cells use the badge, the edit guard and the copy link of theory \<open>Status\<close>. Both fetch
  when the auth slice holds a user.\<close>

section \<open>Rows\<close>

definition meeting_type_str :: "meeting_join_type \<Rightarrow> string" where
  "meeting_type_str t = (case t of AnyoneCanJoin \<Rightarrow> ''anyone-can-join''
     | VideoConference \<Rightarrow> ''video-conference'' | OneOnOne \<Rightarrow> ''1-on-1'')"
  \<comment> \<open>the string literals of \<open>MeetingJoinType\<close>, as stored and as the type column shows them\<close>

record table_row =
  row_name :: string
  row_type :: string
  row_date :: string
  row_status :: "badge option"
  row_edit :: "bool option"
  row_copy :: string
  \<comment> \<open>the cells of one row; \<open>row_edit\<close> is \<open>Some enabled\<close> where the table has an Edit
      column, \<open>row_status = None\<close> an empty Status cell\<close>

definition my_meetings_row :: "string \<Rightarrow> clock \<Rightarrow> meeting \<Rightarrow> table_row" where
  "my_meetings_row host now m =
     \<lparr>row_name = meetingName m, row_type = meeting_type_str (meetingType m),
      row_date = meetingDate m, row_status = status_badge m now,
      row_edit = Some (\<not> edit_disabled m now), row_copy = copy_link host (meetingId m)\<rparr>"
  \<comment> \<open>\<open>meetingColumns\<close> of \<open>MyMeetings\<close>\<close>

definition meetings_row :: "string \<Rightarrow> clock \<Rightarrow> meeting \<Rightarrow> table_row" where
  "meetings_row host now m =
     \<lparr>row_name = meetingName m, row_type = meeting_type_str (meetingType m),
      row_date = meetingDate m, row_status = status_badge m now,
      row_edit = None, row_copy = copy_link host (meetingId m)\<rparr>"
  \<comment> \<open>\<open>meetingColumns\<close> of \<open>Meeting\<close>: no Edit column\<close>

section \<open>The pages\<close>

definition my_meetings_effect :: "meetings_db \<Rightarrow> auth_slice \<Rightarrow> my_meetings_page \<Rightarrow> my_meetings_page" where
  "my_meetings_effect db a st = (if userInfo a \<noteq> None then getMyMeetings db (slice_uid a) st else st)"
  \<comment> \<open>\<open>useEffect(() => { if (userInfo) getMyMeetings() }, [userInfo, getMyMeetings])\<close>\<close>

definition meetings_effect :: "meetings_db \<Rightarrow> auth_slice \<Rightarrow> meeting list \<Rightarrow> meeting list" where
  "meetings_effect db a shown = (if userInfo a \<noteq> None then getMeetings db (slice_uid a) shown else shown)"
  \<comment> \<open>the effect of \<open>Meeting\<close>, keyed on \<open>userInfo\<close>\<close>

definition click_edit :: "clock \<Rightarrow> meeting \<Rightarrow> my_meetings_page \<Rightarrow> my_meetings_page" where
  "click_edit now m st = (if edit_disabled m now then st else openEditFlyout m st)"
  \<comment> \<open>the Edit button: \<open>isDisabled\<close> suppresses its \<open>onClick={() => openEditFlyout(meeting)}\<close>\<close>

definition flyout_save ::
  "nat \<Rightarrow> meetings_db \<Rightarrow> js_uid \<Rightarrow> toast list \<Rightarrow> meeting \<Rightarrow> edit_form \<Rightarrow> my_meetings_page
   \<Rightarrow> write_error + (meetings_db \<times> toast list \<times> my_meetings_page)" where
  "flyout_save ms db u ts m f st =
     (case editMeeting m f of
       Inl e \<Rightarrow> Inl e
     | Inr (i, m') \<Rightarrow>
         (let db' = update_doc db i m' in
          Inr (db', createToast ts ms ''Meeting updated successfully.'' Success, closeEditFlyout db' u True st)))"
  \<comment> \<open>the save button of the flyout: \<open>await updateDoc(...)\<close>, then \<open>createToast\<close> and
      \<open>closeFlyout(true)\<close>, which closes the flyout and fetches the rows again; a throw
      before the write (\<open>Inl\<close>) leaves the store, the toasts and the page as they were\<close>

definition my_meetings_render ::
  "string \<Rightarrow> clock \<Rightarrow> user_type list \<Rightarrow> my_meetings_page \<Rightarrow> table_row list \<times> form_field list option" where
  "my_meetings_render host now users st =
     (map (my_meetings_row host now) (mm_meetings st),
      if showEditFlyout st
      then map_option (\<lambda>m. render_edit_flyout users m (edit_form_init m users)) (my_meetings_page.editMeeting st)
      else None)"
  \<comment> \<open>the table and, with \<open>showEditFlyout\<close>, the flyout as it opens\<close>

definition meetings_render :: "string \<Rightarrow> clock \<Rightarrow> meeting list \<Rightarrow> table_row list" where
  "meetings_render host now shown = map (meetings_row host now) shown"

section \<open>Lemmas\<close>

lemma meeting_type_str_inj: "inj meeting_type_str"
  by (rule injI) (auto simp: meeting_type_str_def split: meeting_join_type.splits)

text \<open>A click on a row's Edit button opens the flyout on that meeting exactly when the
  meeting is active and not dated before today.\<close>

lemma click_edit_opens:
  "showEditFlyout (click_edit now m st) \<and> my_meetings_page.editMeeting (click_edit now m st) = Some m
   \<longleftrightarrow> status m \<and> \<not> before_today (meetingDate m) now
       \<or> edit_disabled m now \<and> showEditFlyout st \<and> my_meetings_page.editMeeting st = Some m"
  by (auto simp: click_edit_def openEditFlyout_def edit_disabled_def)

text \<open>The flyout that opens from a row offers the capacity field for an anyone-can-join
  meeting and the user field otherwise, in single-selection mode exactly for a 1-on-1
  meeting, and always ends with the edit buttons, whose cancel button closes it.\<close>

lemma flyout_fields_by_type:
  assumes "showEditFlyout st" and "my_meetings_page.editMeeting st = Some m"
  shows "\<exists>fs. snd (my_meetings_render host now users st) = Some fs
     \<and> (SizeField 1 \<in> set fs \<longleftrightarrow> meetingType m = AnyoneCanJoin)
     \<and> (\<forall>lbl inv errs opts sel single. UserField lbl inv errs opts sel single \<in> set fs
          \<longrightarrow> single = (meetingType m = OneOnOne))
     \<and> last fs = FormButtons True \<and> buttons_onClick True CancelButton = CloseFlyoutCall"
  using assms
  by (auto simp: my_meetings_render_def render_edit_flyout_def edit_form_init_def buttons_onClick_def
      field_defs)

text \<open>The flyout never validates: with a date in the picker, its save writes an empty name
  and an empty invitation list as they are.\<close>

lemma flyout_saves_unvalidated:
  assumes "docId m = Some i" and "\<not> ef_cleared f"
  shows "\<exists>m'. editMeeting m (f\<lparr>ef_name := [], ef_selected := []\<rparr>) = Inr (i, m')
     \<and> meetingName m' = [] \<and> invitedUsers m' = []"
  using assms by (simp add: editMeeting_def)

lemma run_edit_form_cleared:
  "ef_cleared (run_edit_form f (evs @ [ClearDate]))"
  by (simp add: run_edit_form_def)

text \<open>Emptying the date picker and saving throws in the building of the saved object
  (\<open>startDate.format\<close> on \<open>null\<close>), before the write: nothing is stored, no toast appears
  and the flyout stays open with no message.\<close>

lemma cleared_date_save_throws:
  "flyout_save ms db u ts m (run_edit_form f (evs @ [ClearDate])) st = Inl (ReadOfNull ''format'')"
  using run_edit_form_cleared [of f evs] by (simp add: flyout_save_def editMeeting_def)

text \<open>A successful save writes the document, shows the success toast, closes the flyout
  and shows the rows of the store after the write.\<close>

lemma flyout_save_Inr:
  assumes "flyout_save ms db u ts m f st = Inr (db', ts', st')"
  shows "\<exists>i m'. editMeeting m f = Inr (i, m') \<and> db' = update_doc db i m'
           \<and> \<not> showEditFlyout st' \<and> st' = closeEditFlyout db' u True st
           \<and> map toast_id ts' = map toast_id ts @ [ms]"
  using assms
  by (auto simp: flyout_save_def closeEditFlyout_def getMyMeetings_def createToast_def Let_def
      split: sum.splits prod.splits)

end
