(* ===== verification/App.thy ===== *)
theory App
  imports Listings
begin

text \<open>The application as one system. Its state is what the pages share: the Firestore
  \<open>meetings\<close> and \<open>users\<close> collections, the auth slice and the toast slice of the Redux
  store, and the location. A step is one completed user action through the pages that
  change shared state: a sign-in through \<open>Login.tsx\<close> (after which the dashboard's
  \<open>useAuth\<close> stores the user), a sign-out through the header, the submission of either
  creation page after any inputs its fields accept, and the save of the edit flyout
  opened from an enabled row of \<open>MyMeetings\<close>. The pages that write run \<open>useAuth\<close>,
  which sends a signed-out visitor to \<open>/login\<close>: their steps need a signed-in Firebase
  user. Joining and listing read the state only.\<close>

section \<open>State and steps\<close>

record app_state =
  app_db :: meetings_db
  app_users :: users_db
  app_auth :: auth_slice
  app_toasts :: meetings_slice
  app_location :: string
  app_fb_user :: "fb_user option"
  \<comment> \<open>the user Firebase reports to \<open>onAuthStateChanged\<close>\<close>

definition app_init :: app_state where
  "app_init = \<lparr>app_db = [], app_users = [], app_auth = auth_initial, app_toasts = meetings_initial,
               app_location = ''/login'', app_fb_user = None\<rparr>"

definition logout :: "app_state \<Rightarrow> app_state" where
  "logout s = s\<lparr>app_location := ''/login'', app_fb_user := None\<rparr>"
  \<comment> \<open>\<open>signOut(firebaseAuth)\<close>: the listener of \<open>useAuth\<close> navigates to \<open>/login\<close>; nothing
      clears \<open>userInfo\<close> in the auth slice\<close>

definition directory :: "app_state \<Rightarrow> user_type list" where
  "directory s = fetch_users (app_users s) (slice_uid (app_auth s)) []"
  \<comment> \<open>the \<open>users\<close> of \<open>useFetchUsers\<close> on a freshly mounted page\<close>

definition push_toast :: "nat \<Rightarrow> string \<Rightarrow> app_state \<Rightarrow> app_state" where
  "push_toast ms t s = s\<lparr>app_toasts := setToasts (createToast (toasts (app_toasts s)) ms t Success) (app_toasts s)\<rparr>"

subsection \<open>The Redux store of \<open>app/store.ts\<close>\<close>

datatype redux_action = ChangeThemeAction bool | SetUserAction auth_user | SetToastsAction "toast list"
  \<comment> \<open>the actions of the two slices: \<open>changeTheme\<close>, \<open>setUser\<close> (\<open>AuthSlice.ts\<close>) and
      \<open>setToasts\<close> (\<open>MeetingSlice.ts\<close>)\<close>

record root_state =
  auth :: auth_slice
  meetings :: meetings_slice

definition store_init :: root_state where
  "store_init = \<lparr>auth = auth_initial, meetings = meetings_initial\<rparr>"

fun root_reducer :: "root_state \<Rightarrow> redux_action \<Rightarrow> root_state" where
  "root_reducer s (ChangeThemeAction b) = s\<lparr>auth := changeTheme b (auth s)\<rparr>"
| "root_reducer s (SetUserAction u) = s\<lparr>auth := setUser u (auth s)\<rparr>"
| "root_reducer s (SetToastsAction ts) = s\<lparr>meetings := setToasts ts (meetings s)\<rparr>"
  \<comment> \<open>\<open>configureStore({reducer: {auth: authSlice.reducer, meetings: meetingsSlice.reducer}})\<close>:
      every action reaches both slice reducers, each answers only its own actions\<close>

definition dispatch_all :: "root_state \<Rightarrow> redux_action list \<Rightarrow> root_state" where
  "dispatch_all s acts = foldl root_reducer s acts"

definition app_store :: "app_state \<Rightarrow> root_state" where
  "app_store s = \<lparr>auth = app_auth s, meetings = app_toasts s\<rparr>"

inductive app_step :: "app_state \<Rightarrow> app_state \<Rightarrow> bool" where
  sign_in:
    "i \<notin> fst ` set (app_users s) \<Longrightarrow> login (app_users s) cu i (app_auth s) = (us', a', acts) \<Longrightarrow>
     app_step s (s\<lparr>app_users := us', app_auth := fst (useAuth_listener (Some cu) a'),
                   app_location := ''/'', app_fb_user := Some cu\<rparr>)"
| sign_out: "app_step s (logout s)"
| create_one_on_one:
    "app_fb_user s \<noteq> None \<Longrightarrow>
     valid_clock now \<Longrightarrow> list_all (field_event_ok True (directory s)) evs \<Longrightarrow>
     list_all page_date_ok evs \<Longrightarrow>
     submit_one_on_one (slice_uid (app_auth s)) rnd (run_one_on_one (one_on_one_init now) evs)
       = (p', SubmitCreated m t) \<Longrightarrow>
     i \<notin> fst ` set (app_db s) \<Longrightarrow>
     app_step s (push_toast ms t (s\<lparr>app_db := add_doc (app_db s) i m, app_location := ''/''\<rparr>))"
| create_conference:
    "app_fb_user s \<noteq> None \<Longrightarrow>
     valid_clock now \<Longrightarrow> list_all (field_event_ok False (directory s)) evs \<Longrightarrow>
     list_all page_date_ok evs \<Longrightarrow>
     submit_conference (slice_uid (app_auth s)) rnd (run_conference (conference_init now) evs)
       = (p', SubmitCreated m t) \<Longrightarrow>
     i \<notin> fst ` set (app_db s) \<Longrightarrow>
     app_step s (push_toast ms t (s\<lparr>app_db := add_doc (app_db s) i m, app_location := ''/''\<rparr>))"
| edit:
    "app_fb_user s \<noteq> None \<Longrightarrow>
     (i, d) \<in> set (app_db s) \<Longrightarrow> Some (createdBy d) = slice_uid (app_auth s) \<Longrightarrow>
     valid_clock now \<Longrightarrow> \<not> edit_disabled d now \<Longrightarrow> picker_dates_valid evs \<Longrightarrow>
     list_all (loaded_from (directory s)) evs \<Longrightarrow>
     editMeeting (d\<lparr>docId := Some i\<rparr>)
       (run_edit_form (edit_form_init (d\<lparr>docId := Some i\<rparr>) []) evs) = Inr (i, d') \<Longrightarrow>
     app_step s (push_toast ms ''Meeting updated successfully.'' (s\<lparr>app_db := update_doc (app_db s) i d'\<rparr>))"

abbreviation open_meeting :: "uid \<Rightarrow> meeting" where
  "open_meeting u \<equiv> \<lparr>docId = None, createdBy = u, invitedUsers = [], maxUsers = 100,
     meetingDate = format_L (Date 2024 3 15), meetingId = generateMeetingID (\<lambda>_. 0),
     meetingName = ''Open'', meetingType = AnyoneCanJoin, status = True\<rparr>"
  \<comment> \<open>the meeting the conference page creates for \<open>u\<close> from the events
      \<open>[EvAnyone True, EvName ''Open'', EvDate (Some (Date 2024 3 15))]\<close>\<close>

inductive app_reachable :: "app_state \<Rightarrow> bool" where
  init: "app_reachable app_init"
| step: "app_reachable s \<Longrightarrow> app_step s s' \<Longrightarrow> app_reachable s'"

inductive_cases app_stepE: "app_step s s'"

section \<open>The store moves by the store relation\<close>

lemma push_toast_db [simp]: "app_db (push_toast ms t s) = app_db s"
  by (simp add: push_toast_def)

lemma init_start_valid: "valid_clock now \<Longrightarrow> \<forall>d. oo_start (one_on_one_init now) = Some d \<longrightarrow> valid_date d"
  by (simp add: one_on_one_init_def valid_clock_def)

lemma conference_init_start_valid:
  "valid_clock now \<Longrightarrow> \<forall>d. oo_start (conference_init now) = Some d \<longrightarrow> valid_date d"
  by (simp add: conference_init_def valid_clock_def)

lemma app_step_store:
  assumes "app_step s s'"
  shows "app_db s' = app_db s \<or> store_step (app_db s) (app_db s')"
  using assms
proof cases
  case (sign_in i cu us' a' acts)
  then show ?thesis by simp
next
  case sign_out
  then show ?thesis by (simp add: logout_def)
next
  case (create_one_on_one now evs rnd p' m t i ms)
  then obtain d where d: "oo_start (run_one_on_one (one_on_one_init now) evs) = Some d"
    and c: "createMeeting_one_on_one (slice_uid (app_auth s)) (generateMeetingID rnd)
              (oo_name (run_one_on_one (one_on_one_init now) evs))
              (oo_selected (run_one_on_one (one_on_one_init now) evs)) d = Created m t"
    using submit_one_on_one_Created [of "slice_uid (app_auth s)" rnd] create_one_on_one(6)
    by (metis snd_conv)
  have "valid_date d"
    using run_one_on_one_start_valid [OF init_start_valid] create_one_on_one d by blast
  from store_step.create_one_on_one [OF this _ c] create_one_on_one show ?thesis by simp
next
  case (create_conference now evs rnd p' m t i ms)
  then obtain d where d: "oo_start (run_conference (conference_init now) evs) = Some d"
    and c: "createMeeting_conference (slice_uid (app_auth s)) (generateMeetingID rnd)
              (oo_name (run_conference (conference_init now) evs))
              (oo_selected (run_conference (conference_init now) evs)) d
              (vc_anyone (run_conference (conference_init now) evs))
              (vc_size (run_conference (conference_init now) evs)) = Created m t"
    using submit_conference_Created_doc [of "slice_uid (app_auth s)" rnd] create_conference(6)
    by (metis snd_conv)
  have "valid_date d"
    using run_conference_start_valid [OF conference_init_start_valid] create_conference d by blast
  from store_step.create_conference [OF this _ c] create_conference show ?thesis by simp
next
  case (edit i d now evs d' ms)
  from store_step.edit [OF edit(3,5,6,7,9)] edit(1) show ?thesis by simp
qed

text \<open>C10. The whole application refines the store relation of theory \<open>Lifecycle\<close>:
  every user action through the pages either leaves the \<open>meetings\<close> collection as it is
  or changes it by one step of \<open>store_step\<close>, so the invariants proved there for
  reachable stores hold for every store the application can produce.\<close>

theorem app_refines_store:
  assumes "app_step s s'"
  shows "app_db s' = app_db s \<or> store_step (app_db s) (app_db s')"
  using assms by (rule app_step_store)

theorem app_refines_store_witness:
  "app_db (logout app_init) = app_db app_init \<or> store_step (app_db app_init) (app_db (logout app_init))"
  using app_refines_store [OF app_step.sign_out [of app_init]] .

section \<open>Invariants of reachable states\<close>

text \<open>Every state the application reaches through its pages has a store reachable by
  \<open>store_step\<close>, hence well formed (unique document ids, canonical dates), and a
  \<open>users\<close> collection without duplicate accounts: a sign-in is one step here; theory
  \<open>Tabs\<close> splits it into its query and its write.\<close>

lemma app_step_users_wf:
  assumes "app_step s s'" and "users_wf (app_users s)"
  shows "users_wf (app_users s')"
  using assms(1)
proof cases
  case (sign_in i cu us' a' acts)
  then show ?thesis using login_users_wf [of "app_users s" i cu "app_auth s"] assms(2) by simp
qed (use assms(2) in \<open>simp_all add: logout_def push_toast_def\<close>)

lemma app_reachable_inv:
  "app_reachable s \<Longrightarrow> reachable_store (app_db s) \<and> users_wf (app_users s)"
proof (induction rule: app_reachable.induct)
  case init
  then show ?case by (simp add: app_init_def reachable_store.empty users_wf_def)
next
  case (step s s')
  then have "reachable_store (app_db s')"
    using app_step_store [OF step(2)] reachable_store.step by auto
  with step show ?case using app_step_users_wf by blast
qed

lemma app_reachable_store_wf: "app_reachable s \<Longrightarrow> store_wf (app_db s)"
  using app_reachable_inv reachable_store_wf by blast

section \<open>An unregistered creator\<close>

lemma create_open_meeting:
  assumes "app_fb_user s \<noteq> None" and "slice_uid (app_auth s) = Some u" and "i \<notin> fst ` set (app_db s)"
  shows "app_step s (push_toast ms ''Anyone can join meeting created successfully''
           (s\<lparr>app_db := add_doc (app_db s) i (open_meeting u), app_location := ''/''\<rparr>))"
proof -
  let ?evs = "[EvAnyone True, EvName ''Open'', EvDate (Some (Date 2024 3 15))]"
  let ?p = "run_conference (conference_init scenario_clock) ?evs"
  have "snd (submit_conference (slice_uid (app_auth s)) (\<lambda>_. 0) ?p)
      = SubmitCreated (open_meeting u) ''Anyone can join meeting created successfully''"
    by (simp add: assms(2) run_conference_def conference_init_def submit_defs)
  then obtain p' where eq: "submit_conference (slice_uid (app_auth s)) (\<lambda>_. 0) ?p
      = (p', SubmitCreated (open_meeting u) ''Anyone can join meeting created successfully'')"
    by (metis prod.collapse)
  have ok: "list_all (field_event_ok False (directory s)) ?evs" "list_all page_date_ok ?evs"
    by (simp_all add: valid_date_def days_in_month_def leap_year_def)
  show ?thesis by (rule app_step.create_conference [OF assms(1) scenario_clock_valid ok eq assms(3)])
qed

text \<open>C23. An account without an email signs in, is stored in the auth slice, and creates an
  anyone-can-join meeting: the application reaches a state whose store holds a meeting
  created by a uid that no \<open>users\<close> document carries, so no directory lists its creator.\<close>

theorem unregistered_creator_reachable:
  "\<exists>s i m. app_reachable s \<and> (i, m) \<in> set (app_db s)
     \<and> createdBy m \<notin> user_uid ` snd ` set (app_users s)"
proof -
  let ?cu = "\<lparr>fb_uid = ''U9'', displayName = None, fb_email = None\<rparr>"
  have l: "login [] ?cu ''u1'' auth_initial = ([], auth_initial, [])"
    by (simp add: login_def login_query_def)
  let ?s1 = "app_init\<lparr>app_users := [], app_auth := fst (useAuth_listener (Some ?cu) auth_initial),
               app_location := ''/'', app_fb_user := Some ?cu\<rparr>"
  have r1: "app_reachable ?s1"
    using app_reachable.step [OF app_reachable.init app_step.sign_in [of "''u1''" app_init ?cu]] l
    by (simp add: app_init_def)
  let ?evs = "[EvAnyone True, EvName ''Open'', EvDate (Some (Date 2024 3 15))]"
  let ?p = "run_conference (conference_init scenario_clock) ?evs"
  have sub: "snd (submit_conference (slice_uid (app_auth ?s1)) (\<lambda>_. 0) ?p) =
      SubmitCreated \<lparr>docId = None, createdBy = ''U9'', invitedUsers = [], maxUsers = 100,
        meetingDate = format_L (Date 2024 3 15), meetingId = generateMeetingID (\<lambda>_. 0),
        meetingName = ''Open'', meetingType = AnyoneCanJoin, status = True\<rparr>
        ''Anyone can join meeting created successfully''"
    by (simp add: run_conference_def conference_init_def submit_defs slice_uid_def useAuth_listener_def
        setUser_def auth_user_of_def auth_initial_def)
  then obtain p' where
    eq: "submit_conference (slice_uid (app_auth ?s1)) (\<lambda>_. 0) ?p = (p', SubmitCreated
        \<lparr>docId = None, createdBy = ''U9'', invitedUsers = [], maxUsers = 100,
         meetingDate = format_L (Date 2024 3 15), meetingId = generateMeetingID (\<lambda>_. 0),
         meetingName = ''Open'', meetingType = AnyoneCanJoin, status = True\<rparr>
        ''Anyone can join meeting created successfully'')"
    by (metis prod.collapse)
  have ok: "list_all (field_event_ok False (directory ?s1)) ?evs" "list_all page_date_ok ?evs"
    by (simp_all add: valid_date_def days_in_month_def leap_year_def)
  have "app_reachable (push_toast 0 ''Anyone can join meeting created successfully''
          (?s1\<lparr>app_db := add_doc (app_db ?s1) ''d1''
             \<lparr>docId = None, createdBy = ''U9'', invitedUsers = [], maxUsers = 100,
              meetingDate = format_L (Date 2024 3 15), meetingId = generateMeetingID (\<lambda>_. 0),
              meetingName = ''Open'', meetingType = AnyoneCanJoin, status = True\<rparr>,
             app_location := ''/''\<rparr>))"
    by (rule app_reachable.step [OF r1 app_step.create_conference [OF _ scenario_clock_valid ok eq]])
       (simp_all add: app_init_def)
  then show ?thesis
    by (intro exI [of _ "''d1''"] exI) (auto simp: push_toast_def add_doc_def app_init_def)
qed

section \<open>The Redux part moves by dispatched actions\<close>

lemma dispatch_all_append [simp]: "dispatch_all s (as @ bs) = dispatch_all (dispatch_all s as) bs"
  by (simp add: dispatch_all_def)

lemma root_reducer_slices:
  "meetings (root_reducer s (ChangeThemeAction b)) = meetings s"
  "meetings (root_reducer s (SetUserAction u)) = meetings s"
  "auth (root_reducer s (SetToastsAction ts)) = auth s"
  by simp_all

lemma login_auth:
  "login db cu i a = (db', a', acts) \<Longrightarrow> a' = a \<or> (\<exists>u. a' = setUser u a)"
  by (auto simp: login_def login_finish_def split: option.splits prod.splits)

lemma app_step_dispatches:
  assumes "app_step s s'"
  shows "\<exists>acts. app_store s' = dispatch_all (app_store s) acts"
  using assms
proof cases
  case (sign_in i cu us' a' acts)
  have "app_auth s' = setUser (auth_user_of cu) a'"
    using sign_in(1) by (simp add: useAuth_listener_def)
  moreover have "a' = app_auth s \<or> (\<exists>u. a' = setUser u (app_auth s))"
    using sign_in(3) by (rule login_auth)
  ultimately show ?thesis
    using sign_in(1)
    by (auto simp: app_store_def dispatch_all_def intro: exI[of _ "[SetUserAction _]"]
        exI[of _ "[SetUserAction _, SetUserAction _]"])
next
  case sign_out
  then show ?thesis by (intro exI[of _ "[]"]) (simp add: app_store_def logout_def dispatch_all_def)
qed (auto simp: app_store_def push_toast_def dispatch_all_def intro!: exI[of _ "[SetToastsAction _]"])

lemma app_reachable_dispatched:
  "app_reachable s \<Longrightarrow> \<exists>acts. app_store s = dispatch_all store_init acts"
proof (induction rule: app_reachable.induct)
  case init
  show ?case by (intro exI[of _ "[]"]) (simp add: app_store_def app_init_def store_init_def dispatch_all_def)
next
  case (step s s')
  then show ?case using app_step_dispatches dispatch_all_append by metis
qed

lemma dispatch_keeps_user:
  "userInfo (auth s) \<noteq> None \<Longrightarrow> userInfo (auth (dispatch_all s acts)) \<noteq> None"
proof (induction acts arbitrary: s)
  case (Cons a acts)
  have "userInfo (auth (root_reducer s a)) \<noteq> None"
    using Cons.prems by (cases a) (simp_all add: changeTheme_def setUser_def)
  then show ?case using Cons.IH by (simp add: dispatch_all_def)
qed (simp add: dispatch_all_def)

lemma app_step_keeps_user:
  "app_step s s' \<Longrightarrow> userInfo (app_auth s) \<noteq> None \<Longrightarrow> userInfo (app_auth s') \<noteq> None"
  using app_step_dispatches dispatch_keeps_user
  by (metis app_store_def root_state.select_convs(1))

text \<open>A sign-out leaves the previous user in the auth slice: a reachable state has no
  Firebase user and still a \<open>userInfo\<close>.\<close>

lemma stale_user_after_sign_out:
  "\<exists>s. app_reachable s \<and> app_fb_user s = None \<and> userInfo (app_auth s) = Some (auth_user_of
     \<lparr>fb_uid = ''U1'', displayName = Some ''A'', fb_email = Some ''a@example.org''\<rparr>)"
proof -
  let ?cu = "\<lparr>fb_uid = ''U1'', displayName = Some ''A'', fb_email = Some ''a@example.org''\<rparr>"
  obtain us' a' acts where l: "login (app_users app_init) ?cu ''d1'' (app_auth app_init) = (us', a', acts)"
    by (cases "login (app_users app_init) ?cu ''d1'' (app_auth app_init)") auto
  let ?s1 = "app_init\<lparr>app_users := us', app_auth := fst (useAuth_listener (Some ?cu) a'),
                      app_location := ''/'', app_fb_user := Some ?cu\<rparr>"
  have "app_step app_init ?s1"
    by (rule app_step.sign_in[OF _ l]) (simp add: app_init_def)
  then have r: "app_reachable (logout ?s1)"
    by (meson app_reachable.init app_reachable.step app_step.sign_out)
  show ?thesis
    using r by (intro exI[of _ "logout ?s1"]) (simp add: logout_def useAuth_listener_def setUser_def)
qed

end
