(* ===== verification/Routing.thy ===== *)
theory Routing
  imports App
begin

text \<open>Opening a location of the application. \<open>App.tsx\<close> mounts the element of the route the
  location matches; every page registers a listener with \<open>onAuthStateChanged\<close>, which
  Firebase calls with the current user: the six pages that call \<open>useAuth\<close> send a
  signed-out visitor to \<open>/login\<close> and store a signed-in one in the auth slice,
  \<open>Login\<close> sends a signed-in visitor to \<open>/\<close>, and \<open>JoinMeeting\<close> loads the user and runs
  \<open>getMeetingData\<close>, whose decision may navigate. A navigation mounts the page of the new
  location, whose listener is called in turn. This theory models that chain of redirects
  and shows that it ends, after at most one redirect, on a page that fits the session.\<close>

section \<open>The listener of the mounted page\<close>

fun calls_useAuth :: "page \<Rightarrow> bool" where
  "calls_useAuth LoginPage = False"
| "calls_useAuth (JoinMeetingPage mid) = False"
| "calls_useAuth _ = True"
  \<comment> \<open>\<open>useAuth()\<close> at the top of \<open>Dashboard\<close>, \<open>CreateMeeting\<close>, \<open>OneOnOneMeeting\<close>,
      \<open>VideoConference\<close>, \<open>MyMeetings\<close> and \<open>Meeting\<close>\<close>

definition page_callback :: "clock \<Rightarrow> page \<Rightarrow> app_state \<Rightarrow> auth_slice \<times> join_action list" where
  "page_callback now pg s = (case pg of
       LoginPage \<Rightarrow> (app_auth s, login_listener (app_fb_user s))
     | JoinMeetingPage mid \<Rightarrow>
         (app_auth s, getMeetingData (Some mid) True (app_fb_user s) (map snd (app_db s)) now)
     | _ \<Rightarrow> useAuth_listener (app_fb_user s) (app_auth s))"
  \<comment> \<open>the first call of the listener the mounted page registered: \<open>JoinMeeting\<close>'s sets
      \<open>userLoaded\<close>, and the effect on \<open>userLoaded\<close> then decides on the loaded user
      (lemma \<open>join_step_first\<close> of theory \<open>Session\<close>)\<close>

definition app_apply :: "nat \<Rightarrow> toast list \<Rightarrow> app_state \<Rightarrow> join_action \<Rightarrow> app_state" where
  "app_apply ms snapshot s a = (case a of
       SetAllowed \<Rightarrow> s
     | ShowToast t c \<Rightarrow> s\<lparr>app_toasts := setToasts (createToast snapshot ms t c) (app_toasts s)\<rparr>
     | Navigate p \<Rightarrow> s\<lparr>app_location := p\<rparr>)"
  \<comment> \<open>the callback's actions on the shared state: \<open>createToast\<close> on the toasts of the
      render, \<open>navigate\<close>; \<open>setIsAllowed\<close> is local to the join page\<close>

fun is_navigate :: "join_action \<Rightarrow> bool" where
  "is_navigate (Navigate p) = True"
| "is_navigate _ = False"

section \<open>The chain of redirects\<close>

partial_function (option) visit :: "clock \<Rightarrow> nat \<Rightarrow> app_state \<Rightarrow> app_state option" where
  "visit now ms s =
     (let (a, acts) = page_callback now (route (app_location s)) s;
          s' = foldl (app_apply ms (toasts (app_toasts s))) (s\<lparr>app_auth := a\<rparr>) acts in
      if list_ex is_navigate acts then visit now ms s' else Some s')"
  \<comment> \<open>a navigation mounts the page of the new location, whose listener runs next;
      \<open>None\<close> would be a chain of redirects that never ends\<close>

definition open_url :: "clock \<Rightarrow> nat \<Rightarrow> string \<Rightarrow> app_state \<Rightarrow> app_state option" where
  "open_url now ms p s = visit now ms (s\<lparr>app_location := p\<rparr>)"
  \<comment> \<open>a location typed, reloaded or reached by a link\<close>

definition fits_session :: "fb_user option \<Rightarrow> string \<Rightarrow> bool" where
  "fits_session cu l =
     ((cu = None \<longrightarrow> \<not> calls_useAuth (route l)) \<and> (cu \<noteq> None \<longrightarrow> route l \<noteq> LoginPage))"
  \<comment> \<open>a location a settled tab may show under the session \<open>cu\<close>\<close>

section \<open>Lemmas\<close>

lemma route_login: "route ''/login'' = LoginPage"
  by (simp add: route_def route_matches_def rstrip_slash_def lower_char_def)

lemma foldl_app_apply_keeps [simp]:
  "app_fb_user (foldl (app_apply ms ts) s acts) = app_fb_user s"
  "app_auth (foldl (app_apply ms ts) s acts) = app_auth s"
  "app_db (foldl (app_apply ms ts) s acts) = app_db s"
  "app_users (foldl (app_apply ms ts) s acts) = app_users s"
  by (induction acts arbitrary: s) (auto simp: app_apply_def split: join_action.splits)

lemma foldl_app_apply_location:
  assumes "\<And>q. Navigate q \<in> set acts \<Longrightarrow> q = t"
  shows "app_location (foldl (app_apply ms ts) s acts) = (if list_ex is_navigate acts then t else app_location s)"
  using assms
proof (induction acts arbitrary: s rule: rev_induct)
  case (snoc x acts)
  then show ?case by (cases x) (auto simp: app_apply_def)
qed simp

lemma join_decision_navigates:
  "Navigate q \<in> set (join_decision m user now) \<Longrightarrow> q = home_route user"
  unfolding join_decision_def date_gate_one_on_one_def date_gate_conference_def Let_def
  by (simp split: if_splits)

lemma getMeetingData_navigates:
  assumes a: "Navigate q \<in> set (getMeetingData pid b user db now)"
  shows "q = home_route user"
proof (cases "js_truthy_str pid \<and> b")
  case True
  show ?thesis
  proof (cases "meetings_with_id db (the pid)")
    case Nil
    then show ?thesis using a True by (simp add: getMeetingData_def)
  next
    case (Cons m ms)
    then show ?thesis using a True join_decision_navigates by (simp add: getMeetingData_def)
  qed
next
  case False
  then have "getMeetingData pid b user db now = []" unfolding getMeetingData_def by (rule if_not_P)
  then show ?thesis using a by simp
qed

lemma page_callback_navigates:
  "Navigate q \<in> set (snd (page_callback now pg s)) \<Longrightarrow> q = home_route (app_fb_user s)"
  by (cases pg) (auto simp: page_callback_def login_listener_def useAuth_listener_def home_route_def
                      dest: getMeetingData_navigates split: option.splits if_splits)

lemma page_callback_quiet:
  assumes "\<not> list_ex is_navigate (snd (page_callback now pg s))"
  shows "(app_fb_user s = None \<longrightarrow> \<not> calls_useAuth pg)
     \<and> (\<forall>u. app_fb_user s = Some u \<longrightarrow> pg \<noteq> LoginPage
          \<and> (calls_useAuth pg \<longrightarrow> userInfo (fst (page_callback now pg s)) = Some (auth_user_of u)))"
  using assms
  by (cases pg) (auto simp: page_callback_def login_listener_def useAuth_listener_def setUser_def
                      split: option.splits if_splits)

lemma home_route_quiet:
  "app_fb_user s = cu \<Longrightarrow> \<not> list_ex is_navigate (snd (page_callback now (route (home_route cu)) s))"
  by (cases cu) (simp_all add: home_route_def route_login route_header_paths page_callback_def
                     login_listener_def useAuth_listener_def)

lemma visit_unfold:
  assumes "page_callback now (route (app_location s)) s = (a, acts)"
  shows "visit now ms s =
           (if list_ex is_navigate acts
            then visit now ms (foldl (app_apply ms (toasts (app_toasts s))) (s\<lparr>app_auth := a\<rparr>) acts)
            else Some (foldl (app_apply ms (toasts (app_toasts s))) (s\<lparr>app_auth := a\<rparr>) acts))"
  using assms by (simp add: visit.simps [of now ms s])

lemma redirect_location:
  assumes "page_callback now (route (app_location s)) s = (a, acts)" and "list_ex is_navigate acts"
  shows "app_location (foldl (app_apply ms ts) (s\<lparr>app_auth := a\<rparr>) acts) = home_route (app_fb_user s)"
  using foldl_app_apply_location [of acts "home_route (app_fb_user s)" ms ts "s\<lparr>app_auth := a\<rparr>"]
    page_callback_navigates [of _ now "route (app_location s)" s] assms
  by simp

lemma quiet_location:
  assumes "page_callback now (route (app_location s)) s = (a, acts)" and "\<not> list_ex is_navigate acts"
  shows "app_location (foldl (app_apply ms ts) (s\<lparr>app_auth := a\<rparr>) acts) = app_location s"
  using foldl_app_apply_location [of acts "home_route (app_fb_user s)" ms ts "s\<lparr>app_auth := a\<rparr>"]
    page_callback_navigates [of _ now "route (app_location s)" s] assms
  by simp

lemma visit_quiet:
  assumes "page_callback now (route (app_location s)) s = (a, acts)" and "\<not> list_ex is_navigate acts"
  shows "\<exists>s'. visit now ms s = Some s' \<and> app_location s' = app_location s"
  using visit_unfold [OF assms(1)] quiet_location [OF assms] assms(2) by simp

lemma visit_result:
  "\<exists>s'. visit now ms s = Some s'
      \<and> (app_location s' = app_location s \<or> app_location s' = home_route (app_fb_user s))"
proof -
  obtain a acts where pc: "page_callback now (route (app_location s)) s = (a, acts)" by fastforce
  show ?thesis
  proof (cases "list_ex is_navigate acts")
    case True
    let ?s' = "foldl (app_apply ms (toasts (app_toasts s))) (s\<lparr>app_auth := a\<rparr>) acts"
    have loc: "app_location ?s' = home_route (app_fb_user ?s')"
      using redirect_location [OF pc True] by simp
    obtain a' acts' where pc': "page_callback now (route (app_location ?s')) ?s' = (a', acts')"
      by fastforce
    have "\<not> list_ex is_navigate acts'"
      using home_route_quiet [of ?s' "app_fb_user ?s'" now] loc pc' by simp
    then have "\<exists>s''. visit now ms ?s' = Some s'' \<and> app_location s'' = home_route (app_fb_user s)"
      using visit_quiet [OF pc'] loc by simp
    then show ?thesis using visit_unfold [OF pc] True by auto
  next
    case False
    then show ?thesis using visit_quiet [OF pc False] by blast
  qed
qed

lemma visit_stops:
  assumes "visit now ms s = Some s'"
  shows "app_fb_user s' = app_fb_user s \<and> app_db s' = app_db s \<and> app_users s' = app_users s
     \<and> (\<exists>t. app_fb_user t = app_fb_user s \<and> app_location t = app_location s'
            \<and> \<not> list_ex is_navigate (snd (page_callback now (route (app_location t)) t))
            \<and> app_auth s' = fst (page_callback now (route (app_location t)) t))"
  using assms
proof (induction rule: visit.raw_induct [rotated, consumes 1])
  case (1 vis now ms s s')
  obtain a acts where pc: "page_callback now (route (app_location s)) s = (a, acts)" by fastforce
  let ?s' = "foldl (app_apply ms (toasts (app_toasts s))) (s\<lparr>app_auth := a\<rparr>) acts"
  show ?case
  proof (cases "list_ex is_navigate acts")
    case True
    then have "vis now ms ?s' = Some s'" using 1(2) pc by simp
    from 1(1) [OF this] show ?thesis by auto
  next
    case False
    then have s': "s' = ?s'" using 1(2) pc by simp
    have "app_location s' = app_location s" using quiet_location [OF pc False] s' by simp
    then show ?thesis using pc False s' by (intro conjI exI [of _ s]) simp_all
  qed
qed

lemma visit_fits:
  assumes "visit now ms s = Some s'"
  shows "fits_session (app_fb_user s') (app_location s')"
proof -
  obtain t where t: "app_fb_user t = app_fb_user s" "app_location t = app_location s'"
    "\<not> list_ex is_navigate (snd (page_callback now (route (app_location t)) t))"
    using visit_stops [OF assms] by blast
  then show ?thesis
    using page_callback_quiet [OF t(3)] visit_stops [OF assms] by (auto simp: fits_session_def)
qed

lemma push_toast_session [simp]:
  "app_location (push_toast ms t s) = app_location s" "app_fb_user (push_toast ms t s) = app_fb_user s"
  by (simp_all add: push_toast_def)

lemma app_step_fits:
  assumes "app_step a a'" and "fits_session (app_fb_user a) (app_location a)"
  shows "fits_session (app_fb_user a') (app_location a')"
  using assms
  by cases (auto simp: fits_session_def logout_def route_login route_header_paths)

text \<open>C11. Opening any location, signed in or not, ends: the chain of redirects of the
  pages' auth listeners stops after at most one redirect, at the location opened or at
  the home route of the session (\<open>/\<close> when signed in, \<open>/login\<close> when signed out).\<close>

theorem open_url_settles:
  "\<exists>s'. open_url now ms p s = Some s'
      \<and> (app_location s' = p \<or> app_location s' = home_route (app_fb_user s))"
  using visit_result [of now ms "s\<lparr>app_location := p\<rparr>"] by (simp add: open_url_def)

text \<open>C31. Where the chain of redirects stops fits the session: a signed-out visitor is
  never left on a page that calls \<open>useAuth\<close>, a signed-in one never on the login page,
  and a page that calls \<open>useAuth\<close> has stored the signed-in user in the auth slice. The
  redirects change neither the session nor the collections.\<close>

theorem visit_lands:
  assumes "visit now ms s = Some s'"
  shows "app_fb_user s' = app_fb_user s \<and> app_db s' = app_db s \<and> app_users s' = app_users s
     \<and> (app_fb_user s = None \<longrightarrow> \<not> calls_useAuth (route (app_location s')))
     \<and> (\<forall>u. app_fb_user s = Some u \<longrightarrow> route (app_location s') \<noteq> LoginPage
          \<and> (calls_useAuth (route (app_location s')) \<longrightarrow> userInfo (app_auth s') = Some (auth_user_of u)))"
proof -
  obtain t where t: "app_fb_user t = app_fb_user s" "app_location t = app_location s'"
    "\<not> list_ex is_navigate (snd (page_callback now (route (app_location t)) t))"
    "app_auth s' = fst (page_callback now (route (app_location t)) t)"
    using visit_stops [OF assms] by blast
  then show ?thesis
    using page_callback_quiet [OF t(3)] visit_stops [OF assms] by simp
qed

theorem visit_lands_witness:
  "visit \<lparr>today = Date 2024 5 1, ms_of_day = 0\<rparr> 0
      (app_init\<lparr>app_location := ''/login'', app_fb_user := signed_in ''U9''\<rparr>)
     = Some (app_init\<lparr>app_location := ''/'', app_fb_user := signed_in ''U9'',
                        app_auth := setUser (auth_user_of (the (signed_in ''U9''))) auth_initial\<rparr>)
   \<and> route ''/'' \<noteq> LoginPage
   \<and> userInfo (setUser (auth_user_of (the (signed_in ''U9''))) auth_initial)
       = Some (auth_user_of (the (signed_in ''U9'')))"
proof -
  let ?c = "\<lparr>today = Date 2024 5 1, ms_of_day = 0\<rparr>"
  let ?s0 = "app_init\<lparr>app_location := ''/login'', app_fb_user := signed_in ''U9''\<rparr>"
  let ?s1 = "app_init\<lparr>app_location := ''/'', app_fb_user := signed_in ''U9''\<rparr>"
  let ?s2 = "app_init\<lparr>app_location := ''/'', app_fb_user := signed_in ''U9'',
                         app_auth := setUser (auth_user_of (the (signed_in ''U9''))) auth_initial\<rparr>"
  have pc0: "page_callback ?c (route (app_location ?s0)) ?s0 = (auth_initial, [Navigate ''/''])"
    by (simp add: route_login page_callback_def login_listener_def app_init_def)
  have pc1: "page_callback ?c (route (app_location ?s1)) ?s1
               = (setUser (auth_user_of (the (signed_in ''U9''))) auth_initial, [])"
    by (simp add: route_header_paths page_callback_def useAuth_listener_def app_init_def)
  have s1: "foldl (app_apply 0 (toasts (app_toasts ?s0))) (?s0\<lparr>app_auth := auth_initial\<rparr>) [Navigate ''/'']
              = ?s1"
    by (simp add: app_apply_def app_init_def)
  have v: "visit ?c 0 ?s0 = Some ?s2"
    using visit_unfold [OF pc0, of 0] visit_unfold [OF pc1, of 0] s1 by simp
  show ?thesis using visit_lands [OF v] v by (simp add: route_header_paths)
qed

lemma foldl_app_apply_join:
  "app_toasts (foldl (app_apply ms ts) s acts) = slice (foldl (apply_join_action ms ts) js acts)
   \<and> app_location (foldl (app_apply ms ts) s acts) = location (foldl (apply_join_action ms ts) js acts)"
  if "app_toasts s = slice js" and "app_location s = location js"
  using that
  by (induction acts arbitrary: s js)
     (auto simp: app_apply_def apply_join_action_def split: join_action.splits)

lemma join_page_callback:
  assumes "route (app_location s) = JoinMeetingPage mid"
    and "page_callback now (route (app_location s)) s = (a, acts)"
    and "js = join_step (Some mid) (map snd (app_db s)) now ms
                (join_mount (Some mid) (map snd (app_db s)) now ms (app_toasts s) (app_location s))
                (AuthChanged (app_fb_user s))"
  shows "app_toasts (foldl (app_apply ms (toasts (app_toasts s))) (s\<lparr>app_auth := a\<rparr>) acts) = slice js
     \<and> app_location (foldl (app_apply ms (toasts (app_toasts s))) (s\<lparr>app_auth := a\<rparr>) acts) = location js"
proof -
  have acts: "acts = getMeetingData (Some mid) True (app_fb_user s) (map snd (app_db s)) now"
    using assms(1,2) by (simp add: page_callback_def)
  show ?thesis unfolding assms(3) join_step_first acts
    by (rule foldl_app_apply_join) simp_all
qed

end
