(* ===== verification/Tabs.thy ===== *)
theory Tabs
  imports Routing
begin

text \<open>Several browser tabs of the application. The tabs share what lives outside the page:
  the Firestore collections and the Firebase session, which \<open>signInWithPopup\<close> and
  \<open>signOut\<close> change for every tab at once. Each tab has its own Redux store (the auth and
  toast slices), its own location, and possibly a sign-in in flight: \<open>login\<close> of
  \<open>Login.tsx\<close> awaits \<open>getDocs\<close> between its query and its \<open>addDoc\<close>, so the query and
  the write of one sign-in are two steps between which the other tabs run. Every other
  action of a tab is a step of theory \<open>App\<close> on the tab's view of the shared state.
  When a step changes the signed-in user, Firebase calls the auth listeners of every tab:
  each other tab's page runs its listener and the redirects that follow (\<open>visit\<close> of
  theory \<open>Routing\<close>).\<close>

section \<open>Tabs and the system\<close>

record tab_state =
  tab_auth :: auth_slice
  tab_toasts :: meetings_slice
  tab_location :: string
  tab_login :: "(fb_user \<times> string \<times> bool) option"
  \<comment> \<open>the signed-in user and the answer of the query of a sign-in whose write is pending\<close>
  tab_flyout :: "meeting option"
  \<comment> \<open>the row (with its \<open>docId\<close>) the edit flyout of \<open>MyMeetings\<close> was opened on\<close>

record system =
  sys_db :: meetings_db
  sys_users :: users_db
  sys_fb :: "fb_user option"
  sys_tabs :: "tab_state list"

definition tab_init :: tab_state where
  "tab_init = \<lparr>tab_auth = auth_initial, tab_toasts = meetings_initial, tab_location = ''/login'',
               tab_login = None, tab_flyout = None\<rparr>"

definition system_init :: "nat \<Rightarrow> system" where
  "system_init n = \<lparr>sys_db = [], sys_users = [], sys_fb = None, sys_tabs = replicate n tab_init\<rparr>"

definition tab_view :: "system \<Rightarrow> nat \<Rightarrow> app_state" where
  "tab_view s k =
     \<lparr>app_db = sys_db s, app_users = sys_users s, app_auth = tab_auth (sys_tabs s ! k),
      app_toasts = tab_toasts (sys_tabs s ! k), app_location = tab_location (sys_tabs s ! k),
      app_fb_user = sys_fb s\<rparr>"
  \<comment> \<open>what the pages of tab \<open>k\<close> see\<close>

definition tab_put :: "system \<Rightarrow> nat \<Rightarrow> app_state \<Rightarrow> system" where
  "tab_put s k a =
     s\<lparr>sys_db := app_db a, sys_users := app_users a, sys_fb := app_fb_user a,
       sys_tabs := (sys_tabs s)[k := (sys_tabs s ! k)\<lparr>tab_auth := app_auth a, tab_toasts := app_toasts a,
                                                       tab_location := app_location a\<rparr>]\<rparr>"

definition set_tab :: "system \<Rightarrow> nat \<Rightarrow> tab_state \<Rightarrow> system" where
  "set_tab s k t = s\<lparr>sys_tabs := (sys_tabs s)[k := t]\<rparr>"

definition tab_visit :: "clock \<Rightarrow> nat \<Rightarrow> system \<Rightarrow> nat \<Rightarrow> system" where
  "tab_visit now ms s j =
     (case route (tab_location (sys_tabs s ! j)) of
        JoinMeetingPage mid \<Rightarrow> s
      | _ \<Rightarrow> (case visit now ms (tab_view s j) of Some a \<Rightarrow> tab_put s j a | None \<Rightarrow> s))"
  \<comment> \<open>the listener of the page tab \<open>j\<close> shows is called with the current user; a join
      page's listener only records a signed-in user in the page's own state, its effect
      on \<open>userLoaded\<close> having run already (lemma \<open>join_step_loaded_keeps\<close>)\<close>

definition notify :: "clock \<Rightarrow> nat \<Rightarrow> nat list \<Rightarrow> system \<Rightarrow> system" where
  "notify now ms js s = foldl (tab_visit now ms) s js"

definition auth_changed :: "clock \<Rightarrow> nat \<Rightarrow> nat list \<Rightarrow> system \<Rightarrow> system \<Rightarrow> system" where
  "auth_changed now ms js s s' = (if sys_fb s' = sys_fb s then s' else notify now ms js s')"
  \<comment> \<open>\<open>onAuthStateChanged\<close> calls its listeners when the signed-in user changes\<close>

text \<open>A step of the system: an action of the application in one tab, which stays usable
  while a sign-in of its own is in flight, one half of the sign-in of \<open>Login.tsx\<close>, or
  one half of an edit: the click on a row's Edit button of \<open>MyMeetings\<close>, which checks
  \<open>isDisabled\<close> on the row and opens the flyout on it, and the flyout's save, which
  writes the flyout's object over the document whatever the document has become. The first half is the popup, which
  signs the user in for every tab (whose listeners, this tab's included, then run), and
  the query; the second half is the write of the missing document under a fresh id,
  \<open>setUser\<close>, and the navigation to the dashboard, whose \<open>useAuth\<close> runs with the user
  signed in at that time. After a step of the application the tab's own listener has run
  within the step; the other tabs' listeners run if the signed-in user changed. The
  atomic edit of theory \<open>App\<close> remains the case of a save right after the click.\<close>

inductive sys_step :: "system \<Rightarrow> system \<Rightarrow> bool" where
  tab_step:
    "k < length (sys_tabs s) \<Longrightarrow>
     app_step (tab_view s k) a' \<Longrightarrow>
     sys_step s (auth_changed now ms (filter (\<lambda>j. j \<noteq> k) [0..<length (sys_tabs s)]) s (tab_put s k a'))"
| login_query:
    "k < length (sys_tabs s) \<Longrightarrow> tab_login (sys_tabs s ! k) = None \<Longrightarrow>
     login_query (sys_users s) cu = Some q \<Longrightarrow>
     sys_step s (auth_changed now ms [0..<length (sys_tabs s)] s
                   ((set_tab s k ((sys_tabs s ! k)\<lparr>tab_login := Some (cu, q)\<rparr>))\<lparr>sys_fb := Some cu\<rparr>))"
| login_write:
    "k < length (sys_tabs s) \<Longrightarrow> tab_login (sys_tabs s ! k) = Some (cu, q) \<Longrightarrow>
     i \<notin> fst ` set (sys_users s) \<Longrightarrow>
     login_finish (sys_users s) cu q i (tab_auth (sys_tabs s ! k)) = (us', a', acts) \<Longrightarrow>
     sys_step s (tab_visit now ms
                   ((set_tab s k ((sys_tabs s ! k)\<lparr>tab_auth := a', tab_location := ''/'', tab_login := None\<rparr>))
                      \<lparr>sys_users := us'\<rparr>) k)"
| open_flyout:
    "k < length (sys_tabs s) \<Longrightarrow> (i, d) \<in> set (sys_db s) \<Longrightarrow>
     Some (createdBy d) = slice_uid (tab_auth (sys_tabs s ! k)) \<Longrightarrow> \<not> edit_disabled d now \<Longrightarrow>
     sys_step s (set_tab s k ((sys_tabs s ! k)\<lparr>tab_flyout := Some (d\<lparr>docId := Some i\<rparr>)\<rparr>))"
| save_flyout:
    "k < length (sys_tabs s) \<Longrightarrow> tab_flyout (sys_tabs s ! k) = Some m \<Longrightarrow> picker_dates_valid evs \<Longrightarrow>
     list_all (loaded_from (directory (tab_view s k))) evs \<Longrightarrow>
     editMeeting m (run_edit_form (edit_form_init m []) evs) = Inr (i, d') \<Longrightarrow>
     sys_step s (set_tab (s\<lparr>sys_db := update_doc (sys_db s) i d'\<rparr>) k
                   ((sys_tabs s ! k)\<lparr>tab_flyout := None,
                      tab_toasts := setToasts (createToast (toasts (tab_toasts (sys_tabs s ! k))) ms
                                      ''Meeting updated successfully.'' Success) (tab_toasts (sys_tabs s ! k))\<rparr>))"

inductive sys_reachable :: "nat \<Rightarrow> system \<Rightarrow> bool" for n :: nat where
  init: "sys_reachable n (system_init n)"
| step: "sys_reachable n s \<Longrightarrow> sys_step s s' \<Longrightarrow> sys_reachable n s'"

inductive_cases sys_stepE: "sys_step s s'"

section \<open>Lemmas\<close>

lemma tab_put_tabs [simp]: "length (sys_tabs (tab_put s k a)) = length (sys_tabs s)"
  by (simp add: tab_put_def)

lemma set_tab_tabs [simp]: "length (sys_tabs (set_tab s k t)) = length (sys_tabs s)"
  by (simp add: set_tab_def)

lemma tab_put_login [simp]: "tab_login (sys_tabs (tab_put s k a) ! j) = tab_login (sys_tabs s ! j)"
  unfolding tab_put_def by (cases "k < length (sys_tabs s)"; cases "j = k") (simp_all add: list_update_beyond)

lemma tab_put_flyout [simp]: "tab_flyout (sys_tabs (tab_put s k a) ! j) = tab_flyout (sys_tabs s ! j)"
  unfolding tab_put_def by (cases "k < length (sys_tabs s)"; cases "j = k") (simp_all add: list_update_beyond)

lemma tab_put_other [simp]: "j \<noteq> k \<Longrightarrow> sys_tabs (tab_put s k a) ! j = sys_tabs s ! j"
  by (simp add: tab_put_def)

lemma tab_put_location:
  "k < length (sys_tabs s) \<Longrightarrow> tab_location (sys_tabs (tab_put s k a) ! k) = app_location a"
  by (simp add: tab_put_def)

lemma tab_visit_keeps [simp]:
  "length (sys_tabs (tab_visit now ms s j)) = length (sys_tabs s)"
  "sys_db (tab_visit now ms s j) = sys_db s"
  "sys_users (tab_visit now ms s j) = sys_users s"
  "sys_fb (tab_visit now ms s j) = sys_fb s"
  by (auto simp: tab_visit_def tab_put_def tab_view_def dest!: visit_stops split: option.splits page.splits)

lemma tab_visit_login [simp]:
  "tab_login (sys_tabs (tab_visit now ms s j) ! i) = tab_login (sys_tabs s ! i)"
  "tab_flyout (sys_tabs (tab_visit now ms s j) ! i) = tab_flyout (sys_tabs s ! i)"
  by (simp_all add: tab_visit_def split: option.splits page.splits)

lemma tab_visit_other [simp]: "i \<noteq> j \<Longrightarrow> sys_tabs (tab_visit now ms s j) ! i = sys_tabs s ! i"
  by (simp add: tab_visit_def split: option.splits page.splits)

lemma fits_join: "route l = JoinMeetingPage mid \<Longrightarrow> fits_session cu l"
  by (simp add: fits_session_def)

lemma tab_visit_fits:
  assumes "j < length (sys_tabs s)"
  shows "fits_session (sys_fb s) (tab_location (sys_tabs (tab_visit now ms s j) ! j))"
proof (cases "\<exists>mid. route (tab_location (sys_tabs s ! j)) = JoinMeetingPage mid")
  case True
  then show ?thesis by (auto simp: tab_visit_def fits_join)
next
  case False
  obtain a where v: "visit now ms (tab_view s j) = Some a" using visit_result by blast
  have "fits_session (app_fb_user a) (app_location a)" by (rule visit_fits [OF v])
  moreover have "app_fb_user a = sys_fb s" using visit_stops [OF v] by (simp add: tab_view_def)
  ultimately show ?thesis using assms False
    by (simp add: tab_visit_def v tab_put_location split: page.splits)
qed

lemma notify_keeps [simp]:
  "length (sys_tabs (notify now ms js s)) = length (sys_tabs s)"
  "sys_db (notify now ms js s) = sys_db s"
  "sys_users (notify now ms js s) = sys_users s"
  "sys_fb (notify now ms js s) = sys_fb s"
  "tab_login (sys_tabs (notify now ms js s) ! i) = tab_login (sys_tabs s ! i)"
  "tab_flyout (sys_tabs (notify now ms js s) ! i) = tab_flyout (sys_tabs s ! i)"
  by (induction js arbitrary: s) (simp_all add: notify_def)

lemma notify_simps [simp]:
  "notify now ms [] s = s"
  "notify now ms (js @ [x]) s = tab_visit now ms (notify now ms js s) x"
  by (simp_all add: notify_def)

lemma notify_other [simp]: "i \<notin> set js \<Longrightarrow> sys_tabs (notify now ms js s) ! i = sys_tabs s ! i"
  by (induction js rule: rev_induct) simp_all

lemma notify_visited:
  assumes "i < length (sys_tabs s)" and "i \<in> set js"
  shows "fits_session (sys_fb s) (tab_location (sys_tabs (notify now ms js s) ! i))"
  using assms
proof (induction js rule: rev_induct)
  case (snoc x js)
  have "i < length (sys_tabs (notify now ms js s))" using snoc.prems by simp
  then show ?case
    using snoc tab_visit_fits [of i "notify now ms js s" now ms] by (cases "x = i") auto
qed simp

lemma auth_changed_keeps [simp]:
  "length (sys_tabs (auth_changed now ms js s s')) = length (sys_tabs s')"
  "sys_db (auth_changed now ms js s s') = sys_db s'"
  "sys_users (auth_changed now ms js s s') = sys_users s'"
  "sys_fb (auth_changed now ms js s s') = sys_fb s'"
  "tab_login (sys_tabs (auth_changed now ms js s s') ! i) = tab_login (sys_tabs s' ! i)"
  "tab_flyout (sys_tabs (auth_changed now ms js s s') ! i) = tab_flyout (sys_tabs s' ! i)"
  by (simp_all add: auth_changed_def)

lemma sys_reachable_tabs: "sys_reachable n s \<Longrightarrow> length (sys_tabs s) = n"
  by (induction rule: sys_reachable.induct) (auto simp: system_init_def elim: sys_stepE)

lemma login_query_step:
  assumes "sys_reachable n s" and "k < length (sys_tabs s)" and "tab_login (sys_tabs s ! k) = None"
    and "login_query (sys_users s) cu = Some q"
  shows "sys_reachable n (auth_changed now ms [0..<length (sys_tabs s)] s
           ((set_tab s k ((sys_tabs s ! k)\<lparr>tab_login := Some (cu, q)\<rparr>))\<lparr>sys_fb := Some cu\<rparr>))"
  using assms by (blast intro: sys_reachable.step sys_step.login_query)

lemma login_write_exists:
  assumes "sys_reachable n s" and "k < length (sys_tabs s)" and "tab_login (sys_tabs s ! k) = Some (cu, q)"
    and "i \<notin> fst ` set (sys_users s)"
  shows "\<exists>s'. sys_reachable n s' \<and> sys_users s' = fst (login_finish (sys_users s) cu q i (tab_auth (sys_tabs s ! k)))
           \<and> (\<forall>j. j \<noteq> k \<longrightarrow> tab_login (sys_tabs s' ! j) = tab_login (sys_tabs s ! j))"
proof -
  obtain us' a' acts where l: "login_finish (sys_users s) cu q i (tab_auth (sys_tabs s ! k)) = (us', a', acts)"
    by (cases "login_finish (sys_users s) cu q i (tab_auth (sys_tabs s ! k))") auto
  from sys_reachable.step [OF assms(1) sys_step.login_write [OF assms(2-4) l]] show ?thesis
    by (intro exI conjI) (auto simp: l set_tab_def)
qed

lemma race_queries:
  defines "cu \<equiv> google_user ''U4'' (Some ''bob@example.org'')"
  shows "\<exists>s. sys_reachable 2 s \<and> sys_users s = []
           \<and> tab_login (sys_tabs s ! 0) = Some (cu, ''bob@example.org'', True)
           \<and> tab_login (sys_tabs s ! 1) = Some (cu, ''bob@example.org'', True)"
proof -
  have q: "login_query [] cu = Some (''bob@example.org'', True)"
    by (simp add: cu_def login_query_def users_with_uid_def)
  obtain s1 where r1: "sys_reachable 2 s1" and u1: "sys_users s1 = []"
    and t0: "tab_login (sys_tabs s1 ! 0) = Some (cu, ''bob@example.org'', True)"
    and t1: "tab_login (sys_tabs s1 ! 1) = None" and l1: "length (sys_tabs s1) = 2"
    using login_query_step [OF sys_reachable.init, where k=0 and cu=cu and n=2] q
    by (fastforce simp: system_init_def tab_init_def set_tab_def numeral_2_eq_2)
  show ?thesis
    using login_query_step [OF r1, where k=1 and cu=cu] q u1 t0 t1 l1
    by (intro exI [of _ "auth_changed _ _ [0..<length (sys_tabs s1)] s1 _"]) (auto simp: set_tab_def)
qed

lemma auth_changed_fits:
  assumes "j < length (sys_tabs t)" and "j \<in> set js \<or> fits_session (sys_fb t) (tab_location (sys_tabs t ! j))"
    and "sys_fb t = sys_fb s \<Longrightarrow> fits_session (sys_fb t) (tab_location (sys_tabs t ! j))"
  shows "fits_session (sys_fb t) (tab_location (sys_tabs (auth_changed now ms js s t) ! j))"
proof (cases "sys_fb t = sys_fb s")
  case False
  then show ?thesis using assms(1,2) notify_visited [OF assms(1)] by (cases "j \<in> set js") (auto simp: auth_changed_def)
next
  case True
  then show ?thesis using assms(3) [OF True] by (simp add: auth_changed_def)
qed

lemma sys_step_fits:
  assumes "sys_step s s'"
    and all: "\<forall>j < length (sys_tabs s). fits_session (sys_fb s) (tab_location (sys_tabs s ! j))"
  shows "\<forall>j < length (sys_tabs s'). fits_session (sys_fb s') (tab_location (sys_tabs s' ! j))"
  using assms(1)
proof cases
  case (tab_step k a' now ms)
  let ?t = "tab_put s k a'"
  have fb: "sys_fb ?t = app_fb_user a'" by (simp add: tab_put_def)
  have k: "fits_session (sys_fb ?t) (tab_location (sys_tabs ?t ! k))"
    using app_step_fits [OF \<open>app_step (tab_view s k) a'\<close>] all \<open>k < length (sys_tabs s)\<close>
    by (simp add: fb tab_put_location tab_view_def)
  have "fits_session (sys_fb ?t) (tab_location (sys_tabs s' ! j))" if j: "j < length (sys_tabs s)" for j
  proof (cases "j = k")
    case True
    then show ?thesis using k j unfolding tab_step(1) by (intro auth_changed_fits) simp_all
  next
    case False
    then show ?thesis using all j unfolding tab_step(1) by (intro auth_changed_fits) simp_all
  qed
  then show ?thesis using tab_step(1) by (simp add: fb)
next
  case (login_query k cu q now ms)
  let ?t = "(set_tab s k ((sys_tabs s ! k)\<lparr>tab_login := Some (cu, q)\<rparr>))\<lparr>sys_fb := Some cu\<rparr>"
  have "fits_session (sys_fb ?t) (tab_location (sys_tabs s' ! j))" if j: "j < length (sys_tabs s)" for j
    using all j login_query(2) unfolding login_query(1)
    by (intro auth_changed_fits) (auto simp: set_tab_def nth_list_update)
  then show ?thesis using login_query(1) by simp
next
  case (login_write k cu q i us' a' acts now ms)
  let ?t = "(set_tab s k ((sys_tabs s ! k)\<lparr>tab_auth := a', tab_location := ''/'', tab_login := None\<rparr>))
              \<lparr>sys_users := us'\<rparr>"
  have k: "fits_session (sys_fb ?t) (tab_location (sys_tabs (tab_visit now ms ?t k) ! k))"
    using login_write(2) by (intro tab_visit_fits) (simp add: set_tab_def)
  have "fits_session (sys_fb s) (tab_location (sys_tabs s' ! j))" if j: "j < length (sys_tabs s)" for j
    using k all j login_write(2) unfolding login_write(1)
    by (cases "j = k") (auto simp: set_tab_def nth_list_update)
  then show ?thesis using login_write(1) by (simp add: set_tab_def)
next
  case (open_flyout k i d now)
  then show ?thesis using all by (auto simp: set_tab_def nth_list_update)
next
  case (save_flyout k m evs i d' ms)
  then show ?thesis using all by (auto simp: set_tab_def nth_list_update)
qed

lemma sys_reachable_fits:
  "sys_reachable n s \<Longrightarrow> \<forall>j < length (sys_tabs s). fits_session (sys_fb s) (tab_location (sys_tabs s ! j))"
proof (induction rule: sys_reachable.induct)
  case init
  show ?case by (simp add: system_init_def tab_init_def fits_session_def route_login)
next
  case (step s s')
  from step.hyps(2) step.IH show ?case by (rule sys_step_fits)
qed

lemma tab_step_reach:
  assumes "sys_reachable n s" and "k < length (sys_tabs s)" and "app_step (tab_view s k) a'"
  shows "\<exists>s'. sys_reachable n s' \<and> sys_db s' = app_db a' \<and> sys_users s' = app_users a'
    \<and> sys_fb s' = app_fb_user a' \<and> length (sys_tabs s') = length (sys_tabs s)
    \<and> sys_tabs s' ! k = (sys_tabs s ! k)\<lparr>tab_auth := app_auth a', tab_toasts := app_toasts a',
                                         tab_location := app_location a'\<rparr>
    \<and> (\<forall>j. tab_flyout (sys_tabs s' ! j) = tab_flyout (sys_tabs s ! j))
    \<and> (app_fb_user a' = sys_fb s \<longrightarrow> (\<forall>j. j \<noteq> k \<longrightarrow> sys_tabs s' ! j = sys_tabs s ! j))"
proof -
  let ?s' = "auth_changed scenario_clock 0 (filter (\<lambda>j. j \<noteq> k) [0..<length (sys_tabs s)]) s (tab_put s k a')"
  have r: "sys_reachable n ?s'" using assms by (blast intro: sys_reachable.step sys_step.tab_step)
  have fl: "\<forall>j. tab_flyout (sys_tabs ?s' ! j) = tab_flyout (sys_tabs s ! j)" by simp
  have o: "app_fb_user a' = sys_fb s \<longrightarrow> (\<forall>j. j \<noteq> k \<longrightarrow> sys_tabs ?s' ! j = sys_tabs s ! j)"
    by (simp add: auth_changed_def tab_put_def)
  have "sys_tabs ?s' ! k = sys_tabs (tab_put s k a') ! k" by (simp add: auth_changed_def)
  with r fl o assms(2) show ?thesis
    by (intro exI [of _ ?s'] conjI) (simp_all add: tab_put_def)
qed

lemma open_meeting_enabled: "\<not> edit_disabled (open_meeting u) scenario_clock"
  using before_today_iff [OF scenario_clock_valid, of "''03/15/2024''" "Date 2024 3 15"]
  by (simp add: edit_disabled_def scenario_dates)

lemma slice_uid_listener [simp]: "slice_uid (fst (useAuth_listener (Some cu) a)) = Some (fb_uid cu)"
  by (simp add: slice_uid_def useAuth_listener_def setUser_def auth_user_of_def)

text \<open>C25. Safety, a divergence across tabs: cancellation is not terminal. The Edit button of
  \<open>MyMeetings\<close> checks \<open>isDisabled\<close> when it is clicked, and the flyout's save writes
  \<open>status: !status\<close> of its own form over the document whatever the document has become.
  A flyout opened in one tab before the meeting is cancelled in another re-activates the
  cancelled meeting when it is saved: from a reachable state of two tabs, one step turns a
  cancelled document active again.\<close>

theorem stale_flyout_reactivates:
  "\<exists>s s' i d d'. sys_reachable 2 s \<and> sys_step s s' \<and> (i, d) \<in> set (sys_db s) \<and> \<not> status d
     \<and> (i, d') \<in> set (sys_db s') \<and> status d'"
proof -
  let ?cu = "google_user ''U9'' (Some ''u9@example.org'')" and ?M = "open_meeting ''U9''"
  let ?m = "?M\<lparr>docId := Some ''d1''\<rparr>" and ?s0 = "system_init 2"
  obtain us1 a1 acts1 where l1: "login [] ?cu ''u1'' auth_initial = (us1, a1, acts1)"
    by (metis prod_cases3)
  have u1: "''u2'' \<notin> fst ` set us1" using l1
    by (auto simp: login_def login_query_def login_finish_def users_with_uid_def split: if_splits)
  have st1: "app_step (tab_view ?s0 0) ((tab_view ?s0 0)\<lparr>app_users := us1,
      app_auth := fst (useAuth_listener (Some ?cu) a1), app_location := ''/'', app_fb_user := Some ?cu\<rparr>)"
    by (rule app_step.sign_in) (use l1 in \<open>simp_all add: tab_view_def system_init_def tab_init_def\<close>)
  obtain s1 where r1: "sys_reachable 2 s1" and d1: "sys_db s1 = []" and us: "sys_users s1 = us1"
      and f1: "sys_fb s1 = Some ?cu" and n1: "length (sys_tabs s1) = 2"
      and a10: "slice_uid (tab_auth (sys_tabs s1 ! 0)) = Some ''U9''"
      and fl1: "tab_flyout (sys_tabs s1 ! 0) = None" "tab_flyout (sys_tabs s1 ! 1) = None"
    using tab_step_reach [OF sys_reachable.init _ st1]
    by (auto simp: tab_view_def system_init_def tab_init_def)
  obtain us2 a2 acts2 where l2: "login us1 ?cu ''u2'' (tab_auth (sys_tabs s1 ! 1)) = (us2, a2, acts2)"
    by (metis prod_cases3)
  have st2: "app_step (tab_view s1 1) ((tab_view s1 1)\<lparr>app_users := us2,
      app_auth := fst (useAuth_listener (Some ?cu) a2), app_location := ''/'', app_fb_user := Some ?cu\<rparr>)"
    by (rule app_step.sign_in) (use l2 u1 in \<open>simp_all add: tab_view_def us\<close>)
  obtain s2 where r2: "sys_reachable 2 s2" and d2: "sys_db s2 = []"
      and f2: "sys_fb s2 = Some ?cu" and n2: "length (sys_tabs s2) = 2"
      and a2: "slice_uid (tab_auth (sys_tabs s2 ! 0)) = Some ''U9''"
      and a21: "slice_uid (tab_auth (sys_tabs s2 ! 1)) = Some ''U9''"
      and fl2: "tab_flyout (sys_tabs s2 ! 0) = None" "tab_flyout (sys_tabs s2 ! 1) = None"
    using tab_step_reach [OF r1 _ st2] n1 a10 fl1 by (auto simp: tab_view_def f1 d1)
  have st3: "app_step (tab_view s2 0) (push_toast 0 ''Anyone can join meeting created successfully''
      ((tab_view s2 0)\<lparr>app_db := add_doc (app_db (tab_view s2 0)) ''d1'' ?M, app_location := ''/''\<rparr>))"
    by (rule create_open_meeting) (simp_all add: tab_view_def f2 d2 a2)
  obtain s3 where r3: "sys_reachable 2 s3" and d3: "sys_db s3 = [(''d1'', ?M)]"
      and n3: "length (sys_tabs s3) = 2"
      and a3: "slice_uid (tab_auth (sys_tabs s3 ! 0)) = Some ''U9''"
      and a31: "slice_uid (tab_auth (sys_tabs s3 ! 1)) = Some ''U9''"
      and fl3: "tab_flyout (sys_tabs s3 ! 0) = None" "tab_flyout (sys_tabs s3 ! 1) = None"
    using tab_step_reach [OF r2 _ st3] n2 a2 a21 fl2
    by (auto simp: tab_view_def f2 d2 push_toast_def add_doc_def)
  let ?Mc = "?M\<lparr>maxUsers := 1, status := False\<rparr>"
  let ?s4 = "set_tab s3 1 ((sys_tabs s3 ! 1)\<lparr>tab_flyout := Some ?m\<rparr>)"
  let ?s5 = "set_tab ?s4 0 ((sys_tabs ?s4 ! 0)\<lparr>tab_flyout := Some ?m\<rparr>)"
  let ?s6 = "set_tab (?s5\<lparr>sys_db := update_doc (sys_db ?s5) ''d1'' ?Mc\<rparr>) 0
               ((sys_tabs ?s5 ! 0)\<lparr>tab_flyout := None,
                  tab_toasts := setToasts (createToast (toasts (tab_toasts (sys_tabs ?s5 ! 0))) 0
                                  ''Meeting updated successfully.'' Success) (tab_toasts (sys_tabs ?s5 ! 0))\<rparr>)"
  let ?s7 = "set_tab (?s6\<lparr>sys_db := update_doc (sys_db ?s6) ''d1'' (?M\<lparr>maxUsers := 1\<rparr>)\<rparr>) 1
               ((sys_tabs ?s6 ! 1)\<lparr>tab_flyout := None,
                  tab_toasts := setToasts (createToast (toasts (tab_toasts (sys_tabs ?s6 ! 1))) 0
                                  ''Meeting updated successfully.'' Success) (tab_toasts (sys_tabs ?s6 ! 1))\<rparr>)"
  have s4: "sys_step s3 ?s4"
    by (rule sys_step.open_flyout [where now = scenario_clock])
      (simp_all add: n3 d3 a31 [unfolded One_nat_def] open_meeting_enabled)
  have s5: "sys_step ?s4 ?s5"
    by (rule sys_step.open_flyout [where now = scenario_clock])
      (simp_all add: n3 d3 a3 open_meeting_enabled set_tab_def)
  have e6: "editMeeting ?m (run_edit_form (edit_form_init ?m []) [SetCancel True]) = Inr (''d1'', ?Mc)"
    and e7: "editMeeting ?m (run_edit_form (edit_form_init ?m []) []) = Inr (''d1'', ?M\<lparr>maxUsers := 1\<rparr>)"
    by (simp_all add: editMeeting_def run_edit_form_def edit_form_init_def found_users_def
        format_moment_def scenario_dates scenario_moment)
  have s6: "sys_step ?s5 ?s6"
    by (rule sys_step.save_flyout [OF _ _ _ _ e6]) (simp_all add: n3 set_tab_def picker_dates_valid_def)
  have s7: "sys_step ?s6 ?s7"
    by (rule sys_step.save_flyout [OF _ _ _ _ e7]) (simp_all add: n3 set_tab_def picker_dates_valid_def)
  have "sys_reachable 2 ?s6" using r3 s4 s5 s6 by (blast intro: sys_reachable.step)
  moreover have "sys_db ?s6 = [(''d1'', ?Mc)]" and "sys_db ?s7 = [(''d1'', ?M\<lparr>maxUsers := 1\<rparr>)]"
    by (simp_all add: set_tab_def d3 update_doc_def)
  ultimately show ?thesis using s7 by fastforce
qed
text \<open>C32. Safety, a race: with two tabs, a new account that signs in in both, with both
  queries answered before either write, is registered twice, so a reachable users
  collection holds two documents of one uid.\<close>

theorem two_tabs_register_twice:
  "\<exists>s. sys_reachable 2 s \<and> \<not> users_wf (sys_users s) \<and> length (users_with_uid (sys_users s) ''U4'') = 2"
proof -
  let ?cu = "google_user ''U4'' (Some ''bob@example.org'')"
  obtain s2 where r2: "sys_reachable 2 s2" and u2: "sys_users s2 = []"
    and t0: "tab_login (sys_tabs s2 ! 0) = Some (?cu, ''bob@example.org'', True)"
    and t1: "tab_login (sys_tabs s2 ! 1) = Some (?cu, ''bob@example.org'', True)"
    using race_queries by blast
  have len: "length (sys_tabs s2) = 2" using r2 by (rule sys_reachable_tabs)
  obtain s3 where r3: "sys_reachable 2 s3"
    and u3: "sys_users s3 = [(''d1'', user_doc ?cu ''bob@example.org'')]"
    and t3: "tab_login (sys_tabs s3 ! 1) = Some (?cu, ''bob@example.org'', True)"
    using login_write_exists [OF r2 _ t0, of "''d1''"] len u2 t1 by (fastforce simp: login_finish_db)
  have len3: "length (sys_tabs s3) = 2" using r3 by (rule sys_reachable_tabs)
  obtain s4 where r4: "sys_reachable 2 s4"
    and u4: "sys_users s4 = [(''d1'', user_doc ?cu ''bob@example.org''), (''d2'', user_doc ?cu ''bob@example.org'')]"
    using login_write_exists [OF r3 _ t3, of "''d2''"] len3 u3 by (auto simp: login_finish_db)
  have "\<not> users_wf (sys_users s4) \<and> length (users_with_uid (sys_users s4) ''U4'') = 2"
    by (simp add: u4 users_wf_def users_with_uid_def user_doc_def)
  with r4 show ?thesis by blast
qed

text \<open>C36. Invariant across tabs: in every reachable state of any number of tabs, every
  tab's location fits the shared session. While nobody is signed in no tab shows a page
  that calls \<open>useAuth\<close>, and while a user is signed in no tab shows the login page: a
  sign-in or a sign-out in one tab reaches every other tab through its page's auth
  listener and the redirects that follow.\<close>

theorem tabs_follow_session:
  assumes "sys_reachable n s" and "j < length (sys_tabs s)"
  shows "fits_session (sys_fb s) (tab_location (sys_tabs s ! j))"
  using sys_reachable_fits [OF assms(1)] assms(2) by blast

theorem tabs_follow_session_witness:
  "1 < length (sys_tabs (auth_changed \<lparr>today = Date 2024 5 1, ms_of_day = 0\<rparr> 0
       [0..<length (sys_tabs (system_init 2))] (system_init 2)
       ((set_tab (system_init 2) 0 ((sys_tabs (system_init 2) ! 0)\<lparr>tab_login := Some
          (google_user ''U4'' (Some ''bob@example.org''), ''bob@example.org'', True)\<rparr>))
        \<lparr>sys_fb := Some (google_user ''U4'' (Some ''bob@example.org''))\<rparr>)))
   \<and> fits_session (Some (google_user ''U4'' (Some ''bob@example.org'')))
      (tab_location (sys_tabs (auth_changed \<lparr>today = Date 2024 5 1, ms_of_day = 0\<rparr> 0
       [0..<length (sys_tabs (system_init 2))] (system_init 2)
       ((set_tab (system_init 2) 0 ((sys_tabs (system_init 2) ! 0)\<lparr>tab_login := Some
          (google_user ''U4'' (Some ''bob@example.org''), ''bob@example.org'', True)\<rparr>))
        \<lparr>sys_fb := Some (google_user ''U4'' (Some ''bob@example.org''))\<rparr>)) ! 1))"
proof -
  let ?cu = "google_user ''U4'' (Some ''bob@example.org'')"
  have p1: "0 < length (sys_tabs (system_init 2))"
    and p2: "tab_login (sys_tabs (system_init 2) ! 0) = None"
    by (simp_all add: system_init_def tab_init_def)
  have p3: "login_query (sys_users (system_init 2)) ?cu = Some (''bob@example.org'', True)"
    by (simp add: system_init_def login_query_def users_with_uid_def)
  note r = login_query_step [OF sys_reachable.init p1 p2 p3, of "\<lparr>today = Date 2024 5 1, ms_of_day = 0\<rparr>" 0]
  have l: "1 < length (sys_tabs (auth_changed \<lparr>today = Date 2024 5 1, ms_of_day = 0\<rparr> 0
       [0..<length (sys_tabs (system_init 2))] (system_init 2)
       ((set_tab (system_init 2) 0 ((sys_tabs (system_init 2) ! 0)\<lparr>tab_login := Some
          (?cu, ''bob@example.org'', True)\<rparr>)) \<lparr>sys_fb := Some ?cu\<rparr>)))"
    by (simp add: system_init_def)
  show ?thesis using tabs_follow_session [OF r l] l by simp
qed

end
