(* ===== verification/Spec2Isabelle.thy ===== *)
theory Spec2Isabelle
  imports Join Toasts MeetingId Lifecycle Session CreateForms Listings App Firestore Tabs Routing
begin

text \<open>
  \<^bold>\<open>A verification model of the meeting scheduling and join logic of reactzoomclone.\<close>

  \<^bold>\<open>The program.\<close> A React/Redux single-page application (\<open>src/src\<close>) over Firebase:
  users sign in with Google (\<open>pages/Login.tsx\<close>, \<open>hooks/useAuth.tsx\<close>), create 1-on-1
  meetings (\<open>pages/OneOnOneMeeting.tsx\<close>) and video conferences, optionally open to
  anyone (\<open>pages/VideoConference.tsx\<close>), list the meetings they created
  (\<open>pages/MyMeetings.tsx\<close>, with an edit flyout \<open>components/EditFlyout.tsx\<close> that can
  cancel a meeting) and the meetings they may attend (\<open>pages/Meeting.tsx\<close>), and join a
  meeting by its link (\<open>pages/JoinMeeting.tsx\<close>), which gates entry to the conferencing
  SDK. Meeting ids come from \<open>utils/generateMeetingId.ts\<close>; user feedback goes through a
  toast list in the Redux store (\<open>hooks/useToast.tsx\<close>, \<open>app/slices/MeetingSlice.ts\<close>,
  \<open>App.tsx\<close>'s \<open>removeToast\<close>). The pages share the meeting document of
  \<open>utils/types.ts\<close> through the Firestore \<open>meetings\<close> collection and compare dates with
  the \<open>moment\<close> library.

  \<^bold>\<open>Theories.\<close>
  \<^item> \<open>Prelude\<close>: JavaScript built-ins the code relies on (\<open>xs[i]\<close> yielding
    \<open>undefined\<close>, \<open>findIndex\<close>, truthiness), shared type names, theorem collections.
  \<^item> \<open>Dates\<close>: calendar dates (a \<open>linorder\<close> instance), moment's \<open>format("L")\<close>
    and its parser, moments and the three date tests the pages write
    (\<open>same_day\<close>, \<open>before_today\<close>, \<open>after_now\<close>). moment is outside the repository and
    is modelled from its documented behaviour (\<open>moment_parse\<close>): an ISO
    \<open>YYYY-MM-DD\<close> string is read as that day, and otherwise the string goes to
    \<open>new Date\<close>, of which the V8 reading of \<open>M/D/Y\<close> is modelled (a day up to 31 rolled
    over into the next month, two-digit years in the 1900s and 2000s); every other string
    is treated as an invalid moment, which no theorem uses. Proved: the three tests
    partition the valid dates exactly as the calendar order does, independent of the time
    of day (C6), and a date of the day stored in ISO form passes none of them, although
    moment reads it as that day.
  \<^item> \<open>Meetings\<close>: the records and datatypes of \<open>utils/types.ts\<close>, the Firebase user
    as the pages read it, and the specification's invitation invariant \<open>invite_wf\<close>.
  \<^item> \<open>Join\<close>: \<open>getMeetingData\<close> of \<open>JoinMeeting.tsx\<close> as the list of UI actions it
    performs (\<open>setIsAllowed\<close>, \<open>createToast\<close>, \<open>navigate\<close>) and the SDK token arguments of
    \<open>myMeeting\<close>; the specification's \<open>resolve\<close> (spec 4.2) and the abstraction
    \<open>observed_decision\<close> from actions to decisions. Proved: refinement of \<open>resolve\<close> on
    active invitation meetings (C1), and where the code leaves the specification:
    cancellation ignored (C2), open meetings undated (C3), anonymous entry into an
    invitee-less 1-on-1 (C4), no redirect for a future conference (C5), a blank page for the
    creator of an invitation meeting stored with an ISO date of the day (C7), and for
    unknown ids (C8).

  \<^item> \<open>Status\<close>: the status badge (one definition for the identical code of
    \<open>MyMeetings.tsx\<close> and \<open>Meeting.tsx\<close>), the edit-button guard, the copy link, the
    \<open>MyMeetings\<close> page state with its fetch and flyout handlers, and the visibility filter
    and fetch of \<open>Meeting.tsx\<close>; the specification's \<open>classify\<close> (spec 4.3). Proved:
    the badge refines \<open>classify\<close> on every inactive meeting and every active one
    whose date is in the \<open>L\<close> format (C9), while an active meeting stored with an ISO
    date of the day gets no badge at all; the edit guard, the rows after a fetch,
    stale rows after a user switch (C12).
  \<^item> \<open>Toasts\<close>: the Redux toast slice, \<open>createToast\<close> and \<open>removeToast\<close> as payloads
    computed from the snapshot their component read, runs of pushes and dismissals.
    Proved: ids increase with fresh snapshots and a strictly increasing clock (C14),
    dismissing a pushed toast restores the list, idempotent dismissal,
    two pushes in one millisecond share an id, so dismissing one dismisses both (C17), lost and resurrected (C19) toasts under stale
    snapshots.
  \<^item> \<open>MeetingId\<close>: \<open>generateMeetingID\<close> as a loop terminating by the measure
    \<open>8 - i\<close> over the eight \<open>Math.random\<close> draws. Proved: the loop equals the map over
    the draws (C20), ids have 8 characters of the alphabet (C21), every such string is
    generated, the alphabet has 62 characters, not the specification's 63.
  \<^item> \<open>Lifecycle\<close>: validation and documents of both creation forms, the capacity
    clamp, the edit flyout as a form-state machine over its input events and the arrival
    of the users of its own \<open>useFetchUsers\<close> (which re-runs the effect that overwrites the
    selection; the flyout mounts with none), and its write,
    Firestore's \<open>addDoc\<close>/\<open>updateDoc\<close>, and the store as the inductive relation
    \<open>store_step\<close> (creations with a picked date and fresh id; edits of rows whose edit
    button is enabled) with its reachable states. Proved by rule induction: reachable
    stores are well formed (unique ids, canonical dates), one step never re-activates a
    cancelled document (the guarded edit is atomic here; theory \<open>Tabs\<close> splits it),
    and by construction that the 1-on-1 invariant is not (C26); creation facts,
    capacity handling (C28; the field's clamp lets negative numbers through).
  \<^item> \<open>Users\<close>: the auth slice (\<open>app/slices/AuthSlice.ts\<close>: \<open>changeTheme\<close>,
    \<open>setUser\<close>), the \<open>useAuth\<close> listener, the \<open>users\<close> collection with the sign-in of
    \<open>Login.tsx\<close> split into its query (\<open>login_query\<close>) and its write (\<open>login_finish\<close>),
    and \<open>useFetchUsers\<close> (\<open>fetch_users\<close>, with Firestore's ordering of an inequality
    query). Proved: the directory is every other account, sorted and labelled;
    sign-ins one after another keep accounts unique, two interleaved sign-ins of a
    new account register it twice; an account without email is signed in but never
    registered.
  \<^item> \<open>Navigation\<close>: the route table of \<open>App.tsx\<close> under React Router's matching
    (case-insensitive, trailing slashes; the matcher is a library and is modelled from
    its documented behaviour), the breadcrumb lists of \<open>utils/breadcrumbs.ts\<close>, the cards
    of \<open>Dashboard.tsx\<close> and \<open>CreateMeeting.tsx\<close>, the \<open>Header\<close>'s state, effects,
    sections and render (the greeting only on a wide window), and the theme of a page load (\<open>App\<close>'s two effects, \<open>ThemeSelector\<close>'s
    effect and the stylesheet it renders, the reload that follows \<open>invertTheme\<close>). Proved: the themes alternate and the
    header's button does not follow them (C33), the breadcrumb trails are coherent,
    the header's exact path test against the router's loose one (C35).
  \<^item> \<open>Session\<close>: the join page as a whole: its state (\<open>isAllowed\<close>, \<open>user\<close>,
    \<open>userLoaded\<close>), the auth callback, the effect keyed on \<open>userLoaded\<close> applying the
    actions of \<open>getMeetingData\<close> to the page, the toast slice and the location, and the
    render that computes the room's token arguments, and the callbacks of the listener
    every render registers, as the partial function \<open>auth_settle\<close>. Proved: the callbacks
    settle after at most one extra render (C27, termination); the decision is taken once,
    on the first callback, with the user it delivers; a signed-out visitor admitted to an
    open meeting gets a room container that throws (C37); the creator of a meeting of the
    day enters with their uid.
  \<^item> \<open>CreateForms\<close>: the creation pages as components: their state (the conference
    page's record extends the 1-on-1 page's), the field events, submission (validation,
    the generated id, the document, the \<open>TypeError\<close> of a cleared date picker, the
    write, toast and navigation), the render, and the field components and buttons of
    \<open>components/FormComponents\<close> as functions of their props. Proved: every form state
    can still be completed to a created meeting (C16, liveness); a cleared date makes the
    submission throw (C29); an invitation conference stores capacity 1 unless the switch
    was toggled.
  \<^item> \<open>Listings\<close>: the rendered rows of \<open>MyMeetings.tsx\<close> and \<open>Meeting.tsx\<close>, their
    fetch effects, the Edit button, the flyout it opens and the flyout's save handler
    \<open>flyout_save\<close> (write, toast, \<open>closeFlyout(true)\<close> with a refetch). Proved: the Edit
    button opens the flyout exactly for active meetings not in the past; the flyout's
    fields by meeting type; the flyout saves without validation; after the date input is
    emptied (\<open>ClearDate\<close>: \<open>setStartDate(date!)\<close> stores \<open>null\<close>) the save throws before
    the write and leaves everything as it was.
  \<^item> \<open>App\<close>: the application as one system: the state the pages share (both Firestore
    collections, the two slices of \<open>app/store.ts\<close>, the location, the Firebase user) and
    the inductive relation \<open>app_step\<close> of the actions that write it (sign-in, sign-out,
    both creation pages after any accepted inputs, the flyout's save), with its reachable
    states. Proved: the application refines \<open>store_step\<close> (C10), so reachable stores are
    well formed, and with a sign-in as one step the users collection has no duplicates
    (theory \<open>Tabs\<close> splits it); a reachable state holds a
    meeting whose creator no \<open>users\<close> document carries (C23). The store of
    \<open>app/store.ts\<close> is \<open>root_state\<close> with the combined reducer \<open>root_reducer\<close> over the
    actions of both slices; every step changes the Redux part by dispatched actions only,
    and since no action clears \<open>userInfo\<close>, a signed-out state still holds the
    previous user.
  \<^item> \<open>Tabs\<close>: several tabs of the application over the shared Firestore collections
    and Firebase session, each with its own Redux store and location. A step is an
    \<open>App\<close> step of one tab on its view of the shared state, or one half of the sign-in of
    \<open>Login.tsx\<close>, whose query and write are separated by an \<open>await\<close>: the popup with the
    query, and later the write with \<open>setUser\<close> and the navigation; or one half of an
    edit: the click on the Edit button of \<open>MyMeetings\<close>, which checks \<open>isDisabled\<close> on
    the row and opens the flyout on it (\<open>tab_flyout\<close>), and the flyout's save, which writes
    the flyout's object over the document whatever it has become. A tab stays usable while
    its own sign-in is in flight. Proved by construction: with two tabs a new account is
    registered twice (C32), and a flyout opened before the meeting is cancelled in the
    other tab re-activates it on save, so cancellation is not terminal (C25). A step that changes the signed-in user calls
    the auth listeners of the other tabs (\<open>auth_changed\<close>, \<open>notify\<close>), each running the
    redirects of theory \<open>Routing\<close>; the write of a sign-in mounts the dashboard, whose
    \<open>useAuth\<close> sees the user signed in at that time. Proved by rule induction, for any
    number of tabs: every tab's location fits the session, no \<open>useAuth\<close> page while
    signed out and no login page while signed in (C36).
  \<^item> \<open>Firestore\<close>: the document layer under the store. \<open>utils/firebaseConfig.ts\<close>
    (the configuration record, the instance it initialises, \<open>usersRef\<close> and
    \<open>meetingsRef\<close>); JavaScript values and objects as association lists with the
    operations the pages use (literal, spread \<open>{...a, ...b}\<close> overriding a key in place,
    \<open>delete\<close>, a property read giving \<open>undefined\<close>); Firestore's \<open>addDoc\<close>, which rejects
    an \<open>undefined\<close> field, \<open>updateDoc\<close>, which merges the given fields into an existing
    document, and the equality query; the interfaces of \<open>utils/types.ts\<close> as runtime
    types (\<open>conforms\<close>); and what the pages write: the literals of both creation pages,
    the object \<open>getMyMeetings\<close> builds from a fetched document, the flyout's spread object
    with its \<open>docId\<close> deleted, Login's user document. \<open>fs_step\<close> is the relation of
    these writes on a document store. Proved: the decode of a document succeeds exactly on
    objects of type \<open>MeetingType\<close> and inverts the encoding; the creation literals written
    by \<open>addDoc\<close> store exactly the documents of Lifecycle's \<open>one_on_one_doc\<close> and
    \<open>conference_doc\<close> and fail with their errors; every reachable document store
    encodes a store reachable by \<open>store_step\<close> (C15, a simulation), so every stored meeting
    document is a \<open>MeetingType\<close> and the casts of the pages are sound (C18); Login's
    write refines \<open>login\<close> on the users collection, and stores \<open>name: null\<close> for an account
    without display name, which is not a \<open>UserType\<close> (C34). On the read side the
    listings' fetches are modelled on documents (\<open>getMeetings_fs\<close> with the
    \<open>TypeError\<close> of \<open>findIndex\<close> on a document without an invitation array,
    \<open>getMyMeetings_fs\<close> with the refused \<open>undefined\<close> query value); on every reachable
    document store the attendee listing never throws and shows what \<open>getMeetings\<close> of
    the store model selects (C22), and \<open>getMyMeetings_fs\<close> computes the rows of
    \<open>getMyMeetings\<close>; the join page's query by meeting id, decoded, is the list
    \<open>getMeetingData\<close> of \<open>Join\<close> receives.
  \<^item> \<open>Routing\<close>: opening a location (\<open>index.tsx\<close> mounts the app under
    \<open>BrowserRouter\<close>, \<open>App.tsx\<close> the route's element). The mounted page's auth
    listener runs once with the current user: the six pages that call \<open>useAuth\<close>
    (\<open>calls_useAuth\<close>) redirect a signed-out visitor to \<open>/login\<close> and store a signed-in
    one, \<open>Login\<close> sends a signed-in visitor to \<open>/\<close>, \<open>JoinMeeting\<close> runs
    \<open>getMeetingData\<close> (its toasts and navigation agree with the join page of theory
    \<open>Session\<close>). A navigation mounts the next page, so the chain of redirects
    \<open>visit\<close> is a \<open>partial_function (option)\<close>. Proved: it always ends, after at most
    one redirect, at the location opened or at the session's home route (C11); where it
    ends fits the session: no \<open>useAuth\<close> page for a signed-out visitor, not the login
    page for a signed-in one, and the user stored where \<open>useAuth\<close> ran (C31).
  \<^item> This theory: properties across components: a "Join Now" row enters (C13), every
    stored meeting is classified by both pages (C24), a store reachable through the
    application's own writes admits a signed-out visitor to a 1-on-1 meeting (C30), and
    the link of every generated id routes to the join page with that id.

  \<^bold>\<open>Date and time bounds.\<close> Dates are calendar dates of years 100--9999 (four
  digits in the \<open>L\<close> format, and out of the range \<open>new Date\<close> maps to the 1900s); a clock is a valid date and a millisecond of the day.
  Nothing is bounded by fuel: every loop of the program is the fixed 8-step loop of the
  id generator or a structural recursion over a list, except two chains of callbacks
  that are not loops of the code and could in principle go on: the listener callbacks
  of the join page (\<open>auth_settle\<close>, C27) and the redirects between pages
  (\<open>visit\<close>, C11). Both are \<open>partial_function (option)\<close>, and the theorems prove that
  they return.

  \<^bold>\<open>Not modelled.\<close> EUI styling and layout, the Firebase SDK beyond the calls the
  pages make (\<open>getAuth\<close> only hands the auth service to the pages), the providers
  of \<open>index.tsx\<close> (\<open>StrictMode\<close>, the Redux \<open>Provider\<close>; mounting at the browser's location
  is \<open>open_url\<close>) and the typed hooks of \<open>app/hooks.ts\<close> (no state of
  their own), the Google popup (its result is an argument), the conferencing SDK beyond the arguments it receives, URL decoding
  of route parameters, the join page's reading of a document that is not a
  \<open>MeetingType\<close> (it would need JavaScript's coercions, e.g. \<open>moment(undefined)\<close> is the
  current time; C18 shows no such document is reachable), and the React scheduling of effects beyond the orderings stated
  explicitly.
\<close>

section \<open>Properties spanning the components\<close>

lemma join_now_badge_facts:
  "status_badge m now = Some (JoinNowBadge l) \<Longrightarrow> status m \<and> same_day (meetingDate m) now \<and> l = join_link (meetingId m)"
  by (auto simp: status_badge_def split: if_splits)

lemma same_day_gates:
  "same_day (meetingDate m) now \<Longrightarrow> date_gate_one_on_one m user now = [SetAllowed]"
  "same_day (meetingDate m) now \<Longrightarrow> date_gate_conference m user now = [SetAllowed]"
  by (simp_all add: date_gate_one_on_one_def date_gate_conference_def)

text \<open>
  C13. The attendee listing and the join page agree on the meeting day: a row of
  \<open>Meeting.tsx\<close> that shows the "Join Now" badge for a signed-in user links to
  \<open>/join/<meetingId>\<close>, and the join page, given that route, admits the same user when
  the linked meeting is the first document with its id and satisfies the 1-on-1
  invariant.
\<close>

theorem join_now_row_enters:
  assumes "invite_wf m" and "user_uid_of user = Some u" and "visible_to (Some u) m"
    and "status_badge m now = Some (JoinNowBadge l)"
    and "meetingId m \<noteq> []" and "meetings_with_id db (meetingId m) = m # rest"
  shows "l = join_link (meetingId m) \<and> getMeetingData (Some (meetingId m)) True user db now = [SetAllowed]"
proof -
  from join_now_badge_facts [OF assms(4)]
  have st: "status m" and day: "same_day (meetingDate m) now" and link: "l = join_link (meetingId m)"
    by auto
  have "join_decision m user now = [SetAllowed]"
  proof (cases "meetingType m")
    case AnyoneCanJoin
    then show ?thesis using st day by (simp add: join_decision_def same_day_gates)
  next
    case OneOnOne
    with assms(1) obtain v where inv: "invitedUsers m = [v]"
      by (auto simp: invite_wf_def length_Suc_conv)
    with assms(2,3) OneOnOne have "v = u \<or> createdBy m = u" by (auto simp: visible_to_iff)
    with inv OneOnOne assms(2) st day show ?thesis
      by (auto simp: join_decision_def same_day_gates)
  next
    case VideoConference
    with assms(2,3) have "find_index (\<lambda>v. Some v = user_uid_of user) (invitedUsers m) \<noteq> -1
        \<or> Some (createdBy m) = user_uid_of user"
      by (auto simp: visible_to_iff find_index_found)
    with VideoConference st day show ?thesis
      by (auto simp: join_decision_def same_day_gates Let_def)
  qed
  with assms(5,6) link show ?thesis by (simp add: getMeetingData_def)
qed

theorem join_now_row_enters_witness:
  "join_link ''k3Xz9QaB'' = join_link (meetingId scenario_meeting) \<and>
   getMeetingData (Some (meetingId scenario_meeting)) True (signed_in ''U2'') [scenario_meeting] scenario_clock
     = [SetAllowed]"
proof -
  have "status_badge scenario_meeting scenario_clock = Some (JoinNowBadge (join_link ''k3Xz9QaB''))"
    by (simp add: status_badge_def same_day_def today_L_def scenario_dates parse_L_iff)
  moreover have "visible_to (Some ''U2'') scenario_meeting" by code_simp
  ultimately show ?thesis
    by (intro join_now_row_enters) (simp_all add: invite_wf_def meetings_with_id_def)
qed

lemma creator_eligible_gates:
  assumes "valid_clock now" and "parse_L (meetingDate m) = Some d"
  shows "date_gate_one_on_one m user now \<noteq> []" and "date_gate_conference m user now \<noteq> []"
  using date_gate_one_on_one_cases [OF assms, of user] date_gate_conference_cases [OF assms, of user]
  by simp_all

text \<open>
  C24. Every meeting of a reachable store is classified by both pages at every valid
  moment: the listings render a badge for it, and the join page reacts to its creator
  (entry, or a notification, or a redirect), never leaving the blank page of C7, because
  every writer stores the date in the canonical format.
\<close>

theorem stored_meetings_classified:
  assumes "reachable_store db" and "(i, m) \<in> set db" and "valid_clock now"
    and "user_uid_of user = Some (createdBy m)"
  shows "status_badge m now \<noteq> None \<and> join_decision m user now \<noteq> []"
proof -
  from reachable_store_wf [OF assms(1)] assms(2) obtain d where d: "parse_L (meetingDate m) = Some d"
    by (auto simp: store_wf_def list_all_iff)
  have "status_badge m now \<noteq> None"
    using status_badge_dated [OF assms(3) d] by (cases "status m") (simp_all add: status_badge_def)
  moreover have "join_decision m user now \<noteq> []"
    using creator_eligible_gates [OF assms(3) d, of user] assms(4)
    by (cases "meetingType m") (simp_all add: join_decision_def Let_def)
  ultimately show ?thesis ..
qed

theorem stored_meetings_classified_witness:
  "status_badge scenario_meeting scenario_clock \<noteq> None \<and>
   join_decision scenario_meeting (signed_in ''U1'') scenario_clock \<noteq> []"
  by (rule stored_meetings_classified [OF scenario_reachable _ scenario_clock_valid]) simp_all

text \<open>
  C30. The join gate's anonymous entry (C4) is reachable through the application's own
  writes: creating a 1-on-1 meeting and saving its edit flyout before the user directory
  has loaded yields a stored, active meeting that a visitor who is not signed in enters on
  its day, where the specification's resolver denies them as not invited.
\<close>

theorem anonymous_enters_stored_meeting:
  "\<exists>db i m. reachable_store db \<and> (i, m) \<in> set db \<and> status m
     \<and> join_decision m None scenario_clock = [SetAllowed]
     \<and> resolve (Some m) None scenario_clock = Some DeniedNotInvited"
proof -
  have day: "same_day (meetingDate emptied_meeting) scenario_clock"
    by (simp add: same_day_def today_L_def)
  have "join_decision emptied_meeting None scenario_clock = [SetAllowed]"
    using day by (simp add: join_decision_def same_day_gates)
  moreover have "resolve (Some emptied_meeting) None scenario_clock = Some DeniedNotInvited"
    by (simp add: resolve_def eligible_spec_def)
  ultimately show ?thesis using emptied_reachable by force
qed

text \<open>
  The id generator and the router agree: for draws in \<open>[0, 1)\<close>, the link
  \<open>/join/<id>\<close> of a generated id is routed to the join page with exactly that id
  as its parameter (the id is non-empty and has no slash).
\<close>

theorem generated_link_routes:
  assumes "valid_draws rnd"
  shows "route (join_link (generateMeetingID rnd)) = JoinMeetingPage (generateMeetingID rnd)"
proof -
  have g: "generateMeetingID rnd = map (\<lambda>j. id_chars ! nat (draw_index (rnd j))) [0..<8]"
    using gen_loop_map [OF assms, of 0 "[]"] by (simp add: generateMeetingID_def)
  have "set (generateMeetingID rnd) \<subseteq> set id_chars"
    using draw_nat_bound [OF assms] by (auto simp: g)
  moreover have "CHR ''/'' \<notin> set id_chars" by (simp add: id_chars_def)
  ultimately have "CHR ''/'' \<notin> set (generateMeetingID rnd)" by blast
  moreover have "generateMeetingID rnd \<noteq> []" by (simp add: g)
  ultimately show ?thesis unfolding join_link_def by (rule route_join [rotated])
qed

theorem generated_link_routes_witness:
  "valid_draws (\<lambda>_. 0)
   \<and> route (join_link (generateMeetingID (\<lambda>_. 0))) = JoinMeetingPage (generateMeetingID (\<lambda>_. 0))"
proof -
  have v: "valid_draws (\<lambda>_. 0)" by (simp add: valid_draws_def)
  show ?thesis using generated_link_routes [OF v] v by simp
qed

end
